theory Spec2Isabelle
  imports Main "HOL-Library.Word"
begin

unbundle bit_operations_syntax

section \<open>Common types\<close>

type_synonym u32 = "32 word"
type_synonym u64 = "64 word"

text \<open>
  What stops the program where the source has no error value: a failed \<open>ASSERT\<close>, an
  \<open>UNREACHABLE()\<close>, the use of a null or never assigned pointer, an access outside an
  array, a division by zero.
\<close>

datatype error =
  AssertionFailed | Unreachable | NullDereference | InvalidPointer | OutOfBounds | DivisionByZero

section \<open>D3D12 buffers (backend/d3d12/BufferD3D12.cpp)\<close>

text \<open>
  The enumerators of \<open>nxt::BufferUsageBit\<close> (a bit-mask enum of the generated nxt header),
  the \<open>D3D12_RESOURCE_STATE_*\<close> and \<open>D3D12_RESOURCE_FLAG_*\<close> values of the D3D12 headers
  and \<open>Align\<close> of common/Math.h are not among the source files. Their values are
  parameters: every function of this section takes them in a record.
\<close>

record Headers =
  MapRead :: u32
  MapWrite :: u32
  TransferSrc :: u32
  TransferDst :: u32
  Index :: u32
  Vertex :: u32
  Uniform :: u32
  Storage :: u32
  D3D12_RESOURCE_FLAG_NONE :: u32
  D3D12_RESOURCE_FLAG_ALLOW_UNORDERED_ACCESS :: u32
  D3D12_RESOURCE_STATE_COMMON :: u32
  D3D12_RESOURCE_STATE_COPY_SOURCE :: u32
  D3D12_RESOURCE_STATE_COPY_DEST :: u32
  D3D12_RESOURCE_STATE_VERTEX_AND_CONSTANT_BUFFER :: u32
  D3D12_RESOURCE_STATE_INDEX_BUFFER :: u32
  D3D12_RESOURCE_STATE_UNORDERED_ACCESS :: u32
  D3D12_RESOURCE_STATE_GENERIC_READ :: u32
  Align :: "u32 \<Rightarrow> u32 \<Rightarrow> u32"

datatype D3D12_HEAP_TYPE =
  D3D12_HEAP_TYPE_DEFAULT | D3D12_HEAP_TYPE_UPLOAD | D3D12_HEAP_TYPE_READBACK
  | D3D12_HEAP_TYPE_CUSTOM

datatype D3D12_RESOURCE_DIMENSION =
  D3D12_RESOURCE_DIMENSION_UNKNOWN | D3D12_RESOURCE_DIMENSION_BUFFER
  | D3D12_RESOURCE_DIMENSION_TEXTURE1D | D3D12_RESOURCE_DIMENSION_TEXTURE2D
  | D3D12_RESOURCE_DIMENSION_TEXTURE3D

datatype DXGI_FORMAT = DXGI_FORMAT_UNKNOWN | DXGI_FORMAT_other nat

datatype D3D12_TEXTURE_LAYOUT =
  D3D12_TEXTURE_LAYOUT_UNKNOWN | D3D12_TEXTURE_LAYOUT_ROW_MAJOR
  | D3D12_TEXTURE_LAYOUT_64KB_UNDEFINED_SWIZZLE | D3D12_TEXTURE_LAYOUT_64KB_STANDARD_SWIZZLE

record D3D12_RESOURCE_DESC =
  Dimension :: D3D12_RESOURCE_DIMENSION
  Alignment :: u64
  Width :: u64
  Height :: u32
  DepthOrArraySize :: "16 word"
  MipLevels :: "16 word"
  Format :: DXGI_FORMAT
  SampleDesc_Count :: u32
  SampleDesc_Quality :: u32
  Layout :: D3D12_TEXTURE_LAYOUT
  Flags :: u32

datatype D3D12_RESOURCE_BARRIER_TYPE =
  D3D12_RESOURCE_BARRIER_TYPE_TRANSITION | D3D12_RESOURCE_BARRIER_TYPE_ALIASING
  | D3D12_RESOURCE_BARRIER_TYPE_UAV

datatype D3D12_RESOURCE_BARRIER_FLAGS =
  D3D12_RESOURCE_BARRIER_FLAG_NONE | D3D12_RESOURCE_BARRIER_FLAG_BEGIN_ONLY
  | D3D12_RESOURCE_BARRIER_FLAG_END_ONLY

text \<open>A resource is named by its address.\<close>

type_synonym ID3D12Resource = nat

record D3D12_RESOURCE_BARRIER =
  Type :: D3D12_RESOURCE_BARRIER_TYPE
  BarrierFlags :: D3D12_RESOURCE_BARRIER_FLAGS
  Transition_pResource :: ID3D12Resource
  Transition_StateBefore :: u32
  Transition_StateAfter :: u32
  Transition_Subresource :: u32

text \<open>
  The buffer object: the fields of \<open>BufferBase\<close> that this file reads through
  \<open>GetAllowedUsage\<close>, \<open>GetUsage\<close> and \<open>GetSize\<close>, and \<open>mResource\<close>.
\<close>

record Buffer =
  allowedUsage :: u32
  currentUsage :: u32
  size :: u32
  mResource :: ID3D12Resource

text \<open>
  A usage test \<open>usage & nxt::BufferUsageBit::X\<close> in a condition is true when the
  intersection is not zero.
\<close>

definition D3D12ResourceFlags :: "Headers \<Rightarrow> u32 \<Rightarrow> u32" where
  "D3D12ResourceFlags h usage =
     (let flags = D3D12_RESOURCE_FLAG_NONE h;
          flags = (if usage AND Storage h \<noteq> 0
                   then flags OR D3D12_RESOURCE_FLAG_ALLOW_UNORDERED_ACCESS h else flags)
      in flags)"

definition D3D12BufferUsage :: "Headers \<Rightarrow> u32 \<Rightarrow> u32" where
  "D3D12BufferUsage h usage =
     (let resourceState = D3D12_RESOURCE_STATE_COMMON h;
          resourceState = (if usage AND TransferSrc h \<noteq> 0
             then resourceState OR D3D12_RESOURCE_STATE_COPY_SOURCE h else resourceState);
          resourceState = (if usage AND TransferDst h \<noteq> 0
             then resourceState OR D3D12_RESOURCE_STATE_COPY_DEST h else resourceState);
          resourceState = (if usage AND (Vertex h OR Uniform h) \<noteq> 0
             then resourceState OR D3D12_RESOURCE_STATE_VERTEX_AND_CONSTANT_BUFFER h
             else resourceState);
          resourceState = (if usage AND Index h \<noteq> 0
             then resourceState OR D3D12_RESOURCE_STATE_INDEX_BUFFER h else resourceState);
          resourceState = (if usage AND Storage h \<noteq> 0
             then resourceState OR D3D12_RESOURCE_STATE_UNORDERED_ACCESS h else resourceState)
      in resourceState)"

definition D3D12HeapType :: "Headers \<Rightarrow> u32 \<Rightarrow> D3D12_HEAP_TYPE" where
  "D3D12HeapType h allowed =
     (if allowed AND MapRead h \<noteq> 0 then D3D12_HEAP_TYPE_READBACK
      else if allowed AND MapWrite h \<noteq> 0 then D3D12_HEAP_TYPE_UPLOAD
      else D3D12_HEAP_TYPE_DEFAULT)"

definition GetD3D12Size :: "Headers \<Rightarrow> Buffer \<Rightarrow> u32" where
  "GetD3D12Size h b = Align h (size b) 256"

text \<open>
  The constructor ends in \<open>Allocate(heapType, resourceDescriptor, bufferUsage)\<close>; the
  model returns the three arguments of that call.
\<close>

record AllocateCall =
  heapType :: D3D12_HEAP_TYPE
  resourceDescriptor :: D3D12_RESOURCE_DESC
  initialUsage :: u32

definition Buffer_ctor :: "Headers \<Rightarrow> Buffer \<Rightarrow> AllocateCall" where
  "Buffer_ctor h b =
     (let desc = \<lparr> Dimension = D3D12_RESOURCE_DIMENSION_BUFFER, Alignment = 0,
                    Width = ucast (GetD3D12Size h b), Height = 1, DepthOrArraySize = 1,
                    MipLevels = 1, Format = DXGI_FORMAT_UNKNOWN, SampleDesc_Count = 1,
                    SampleDesc_Quality = 0, Layout = D3D12_TEXTURE_LAYOUT_ROW_MAJOR,
                    Flags = D3D12ResourceFlags h (allowedUsage b) \<rparr>;
          ht = D3D12HeapType h (allowedUsage b);
          bufferUsage = D3D12BufferUsage h (currentUsage b);
          bufferUsage = (if ht = D3D12_HEAP_TYPE_READBACK
                         then bufferUsage OR D3D12_RESOURCE_STATE_COPY_DEST h else bufferUsage);
          bufferUsage = (if ht = D3D12_HEAP_TYPE_UPLOAD
                         then bufferUsage OR D3D12_RESOURCE_STATE_GENERIC_READ h else bufferUsage)
      in \<lparr> heapType = ht, resourceDescriptor = desc, initialUsage = bufferUsage \<rparr>)"

text \<open>
  \<open>GetResourceTransitionBarrier\<close> returns a bool and fills \<open>*barrier\<close> when it returns
  true: \<open>Some barrier\<close> is the result true, \<open>None\<close> the result false (the barrier is then
  left untouched).
\<close>

definition GetResourceTransitionBarrier ::
    "Headers \<Rightarrow> Buffer \<Rightarrow> u32 \<Rightarrow> u32 \<Rightarrow> D3D12_RESOURCE_BARRIER option" where
  "GetResourceTransitionBarrier h b currentUsage' targetUsage =
     (if allowedUsage b AND (MapRead h OR MapWrite h) \<noteq> 0 then None
      else
        let stateBefore = D3D12BufferUsage h currentUsage';
            stateAfter = D3D12BufferUsage h targetUsage
        in if stateBefore = stateAfter then None
           else Some \<lparr> Type = D3D12_RESOURCE_BARRIER_TYPE_TRANSITION,
                        BarrierFlags = D3D12_RESOURCE_BARRIER_FLAG_NONE,
                        Transition_pResource = mResource b,
                        Transition_StateBefore = stateBefore,
                        Transition_StateAfter = stateAfter,
                        Transition_Subresource = 0 \<rparr>)"

text \<open>
  \<open>TransitionUsageImpl\<close> records \<open>ResourceBarrier(1, &barrier)\<close> on the pending command
  list when a barrier is produced: the model returns the barriers it records.
\<close>

definition TransitionUsageImpl ::
    "Headers \<Rightarrow> Buffer \<Rightarrow> u32 \<Rightarrow> u32 \<Rightarrow> D3D12_RESOURCE_BARRIER list" where
  "TransitionUsageImpl h b currentUsage' targetUsage =
     (case GetResourceTransitionBarrier h b currentUsage' targetUsage of
        Some barrier \<Rightarrow> [barrier]
      | None \<Rightarrow> [])"

text \<open>
  Modelled from the spec: \<open>BufferBase::TransitionUsage\<close> (backend/Buffer.cpp) is not among
  the source files. By the spec's data model the current usage is a mutable bitset that
  changes as the stream progresses: a transition request calls \<open>TransitionUsageImpl\<close> with
  the current and the requested usage, and the requested usage becomes the current one.
\<close>

definition TransitionUsage ::
    "Headers \<Rightarrow> Buffer \<Rightarrow> u32 \<Rightarrow> Buffer \<times> D3D12_RESOURCE_BARRIER list" where
  "TransitionUsage h b usage =
     (b\<lparr>currentUsage := usage\<rparr>, TransitionUsageImpl h b (currentUsage b) usage)"

fun TransitionUsages ::
    "Headers \<Rightarrow> Buffer \<Rightarrow> u32 list \<Rightarrow> Buffer \<times> D3D12_RESOURCE_BARRIER list" where
  "TransitionUsages h b [] = (b, [])"
| "TransitionUsages h b (usage # rest) =
     (let (b', emitted) = TransitionUsage h b usage;
          (b'', later) = TransitionUsages h b' rest
      in (b'', emitted @ later))"

text \<open>
  An assignment of the header constants, to evaluate the functions on concrete buffers:
  the usage bits are distinct single bits and the resource states are those of d3d12.h.
\<close>

definition headers0 :: Headers where
  "headers0 =
     \<lparr> MapRead = 1, MapWrite = 2, TransferSrc = 4, TransferDst = 8, Index = 16, Vertex = 32,
       Uniform = 64, Storage = 128,
       D3D12_RESOURCE_FLAG_NONE = 0, D3D12_RESOURCE_FLAG_ALLOW_UNORDERED_ACCESS = 4,
       D3D12_RESOURCE_STATE_COMMON = 0, D3D12_RESOURCE_STATE_COPY_SOURCE = 0x800,
       D3D12_RESOURCE_STATE_COPY_DEST = 0x400,
       D3D12_RESOURCE_STATE_VERTEX_AND_CONSTANT_BUFFER = 1,
       D3D12_RESOURCE_STATE_INDEX_BUFFER = 2, D3D12_RESOURCE_STATE_UNORDERED_ACCESS = 8,
       D3D12_RESOURCE_STATE_GENERIC_READ = 0xAC3,
       Align = (\<lambda>v a. (v + (a - 1)) AND NOT (a - 1)) \<rparr>"

section \<open>Map-read request tracker (backend/d3d12/BufferD3D12.cpp)\<close>

type_synonym Serial = u64

text \<open>
  Modelled from the spec: \<open>SerialQueue\<close> (common/SerialQueue.h) is not among the source
  files. By the spec it is an ordered collection of (item, serial) pairs; \<open>Enqueue\<close>
  requires a serial not below any serial enqueued before (a violation is a fatal invariant
  violation); \<open>IterateUpTo\<close> yields, in enqueue order, the items whose serial is at most
  the given one, without removing them; \<open>ClearUpTo\<close> removes the items whose serial is at
  most the given one.
\<close>

record 'a SerialQueue =
  items :: "('a \<times> Serial) list"
  enqueued :: "Serial list"

definition SerialQueue_new :: "'a SerialQueue" where
  "SerialQueue_new = \<lparr> items = [], enqueued = [] \<rparr>"

definition Empty :: "'a SerialQueue \<Rightarrow> bool" where
  "Empty q = (items q = [])"

definition Enqueue :: "'a \<Rightarrow> Serial \<Rightarrow> 'a SerialQueue \<Rightarrow> error + 'a SerialQueue" where
  "Enqueue item serial q =
     (if list_all (\<lambda>s. s \<le> serial) (enqueued q)
      then Inr \<lparr> items = items q @ [(item, serial)], enqueued = enqueued q @ [serial] \<rparr>
      else Inl AssertionFailed)"

definition IterateUpTo :: "Serial \<Rightarrow> 'a SerialQueue \<Rightarrow> 'a list" where
  "IterateUpTo serial q = map fst (filter (\<lambda>(item, s). s \<le> serial) (items q))"

definition ClearUpTo :: "Serial \<Rightarrow> 'a SerialQueue \<Rightarrow> 'a SerialQueue" where
  "ClearUpTo serial q = q\<lparr> items := filter (\<lambda>(item, s). \<not> s \<le> serial) (items q) \<rparr>"

text \<open>A request: the buffer (by address), the serial of the map call, the mapped data.\<close>

record Request =
  buffer :: nat
  mapSerial :: u32
  data :: nat

datatype nxtBufferMapReadStatus =
  NXT_BUFFER_MAP_READ_STATUS_SUCCESS | NXT_BUFFER_MAP_READ_STATUS_ERROR

text \<open>
  \<open>Buffer::OnMapReadCommandSerialFinished\<close> calls \<open>CallMapReadCallback\<close> of the base
  class; the model records the call.
\<close>

datatype MapReadCallback = CallMapReadCallback nat u32 nxtBufferMapReadStatus nat

definition OnMapReadCommandSerialFinished :: "nat \<Rightarrow> u32 \<Rightarrow> nat \<Rightarrow> MapReadCallback" where
  "OnMapReadCommandSerialFinished this mapSerial' data' =
     CallMapReadCallback this mapSerial' NXT_BUFFER_MAP_READ_STATUS_SUCCESS data'"

record MapReadRequestTracker =
  mInflightRequests :: "Request SerialQueue"

definition MapReadRequestTracker_ctor :: MapReadRequestTracker where
  "MapReadRequestTracker_ctor = \<lparr> mInflightRequests = SerialQueue_new \<rparr>"

text \<open>The destructor: \<open>ASSERT(mInflightRequests.Empty())\<close>.\<close>

definition MapReadRequestTracker_dtor :: "MapReadRequestTracker \<Rightarrow> error + unit" where
  "MapReadRequestTracker_dtor t =
     (if Empty (mInflightRequests t) then Inr () else Inl AssertionFailed)"

text \<open>\<open>Track\<close> enqueues at the device's current serial, \<open>mDevice->GetSerial()\<close>.\<close>

definition Track ::
    "Serial \<Rightarrow> nat \<Rightarrow> u32 \<Rightarrow> nat \<Rightarrow> MapReadRequestTracker \<Rightarrow> error + MapReadRequestTracker" where
  "Track deviceSerial buffer' mapSerial' data' t =
     (let request = \<lparr> buffer = buffer', mapSerial = mapSerial', data = data' \<rparr>
      in case Enqueue request deviceSerial (mInflightRequests t) of
           Inl e \<Rightarrow> Inl e
         | Inr q \<Rightarrow> Inr (t\<lparr> mInflightRequests := q \<rparr>))"

definition Tick ::
    "Serial \<Rightarrow> MapReadRequestTracker \<Rightarrow> MapReadRequestTracker \<times> MapReadCallback list" where
  "Tick finishedSerial t =
     (let callbacks = map (\<lambda>request. OnMapReadCommandSerialFinished
                              (buffer request) (mapSerial request) (data request))
                          (IterateUpTo finishedSerial (mInflightRequests t))
      in (t\<lparr> mInflightRequests := ClearUpTo finishedSerial (mInflightRequests t) \<rparr>,
          callbacks))"

text \<open>The life of a tracker: a sequence of \<open>Track\<close> and \<open>Tick\<close> calls.\<close>

datatype TrackerCall = CallTrack Serial nat u32 nat | CallTick Serial

fun run_tracker ::
    "MapReadRequestTracker \<Rightarrow> TrackerCall list
       \<Rightarrow> error + (MapReadRequestTracker \<times> MapReadCallback list)" where
  "run_tracker t [] = Inr (t, [])"
| "run_tracker t (CallTrack s b m d # calls) =
     (case Track s b m d t of
        Inl e \<Rightarrow> Inl e
      | Inr t' \<Rightarrow> run_tracker t' calls)"
| "run_tracker t (CallTick f # calls) =
     (let (t', callbacks) = Tick f t
      in case run_tracker t' calls of
           Inl e \<Rightarrow> Inl e
         | Inr (t'', later) \<Rightarrow> Inr (t'', callbacks @ later))"

text \<open>A serial has been ticked by the calls when one of them is a \<open>Tick\<close> at or above it.\<close>

fun ticked :: "Serial \<Rightarrow> TrackerCall list \<Rightarrow> bool" where
  "ticked s [] = False"
| "ticked s (CallTick f # calls) = (s \<le> f \<or> ticked s calls)"
| "ticked s (CallTrack s' b m d # calls) = ticked s calls"

text \<open>Every request enqueued by the calls has its serial ticked by a later call.\<close>

fun all_ticked :: "TrackerCall list \<Rightarrow> bool" where
  "all_ticked [] = True"
| "all_ticked (CallTrack s b m d # calls) = (ticked s calls \<and> all_ticked calls)"
| "all_ticked (CallTick f # calls) = all_ticked calls"

section \<open>Vulkan instance and device information (backend/vulkan/VulkanInfo.cpp)\<close>

datatype VkResult =
  VK_SUCCESS | VK_NOT_READY | VK_TIMEOUT | VK_EVENT_SET | VK_EVENT_RESET | VK_INCOMPLETE
  | VK_ERROR_OUT_OF_HOST_MEMORY | VK_ERROR_OUT_OF_DEVICE_MEMORY
  | VK_ERROR_INITIALIZATION_FAILED | VK_ERROR_DEVICE_LOST | VK_ERROR_MEMORY_MAP_FAILED
  | VK_ERROR_LAYER_NOT_PRESENT | VK_ERROR_EXTENSION_NOT_PRESENT
  | VK_ERROR_FEATURE_NOT_PRESENT | VK_ERROR_INCOMPATIBLE_DRIVER | VK_ERROR_TOO_MANY_OBJECTS
  | VK_ERROR_FORMAT_NOT_SUPPORTED | VK_ERROR_FRAGMENTED_POOL

record VkLayerProperties =
  layerName :: string
  layer_specVersion :: u32
  implementationVersion :: u32
  description :: string

record VkExtensionProperties =
  extensionName :: string
  extension_specVersion :: u32

text \<open>
  The structures that the code only copies are kept opaque: a value of each is named by a
  number.
\<close>

type_synonym VkPhysicalDevice = nat
type_synonym VkPhysicalDeviceProperties = nat
type_synonym VkPhysicalDeviceFeatures = nat
type_synonym VkMemoryType = nat
type_synonym VkMemoryHeap = nat
type_synonym VkQueueFamilyProperties = nat

record VkPhysicalDeviceMemoryProperties =
  memoryTypeCount :: u32
  memoryTypes :: "VkMemoryType list"
  memoryHeapCount :: u32
  memoryHeaps :: "VkMemoryHeap list"

text \<open>
  The entry points of the driver, \<open>device.fn\<close>. An enumeration is called twice: with a
  null array, to read the count, and with an array of that many elements, which the driver
  fills. The driver may answer the two calls differently, so each has its own answer:
  the count call gives the result and the count, the data call takes the capacity and
  gives the result and the elements written.
\<close>

record VulkanFunctions =
  EnumerateInstanceLayerProperties_count :: "VkResult \<times> u32"
  EnumerateInstanceLayerProperties_data :: "u32 \<Rightarrow> VkResult \<times> VkLayerProperties list"
  EnumerateInstanceExtensionProperties_count :: "VkResult \<times> u32"
  EnumerateInstanceExtensionProperties_data :: "u32 \<Rightarrow> VkResult \<times> VkExtensionProperties list"
  GetPhysicalDeviceProperties :: "VkPhysicalDevice \<Rightarrow> VkPhysicalDeviceProperties"
  GetPhysicalDeviceFeatures :: "VkPhysicalDevice \<Rightarrow> VkPhysicalDeviceFeatures"
  GetPhysicalDeviceMemoryProperties :: "VkPhysicalDevice \<Rightarrow> VkPhysicalDeviceMemoryProperties"
  GetPhysicalDeviceQueueFamilyProperties_count :: "VkPhysicalDevice \<Rightarrow> u32"
  GetPhysicalDeviceQueueFamilyProperties_data ::
    "VkPhysicalDevice \<Rightarrow> u32 \<Rightarrow> VkQueueFamilyProperties list"
  EnumerateDeviceLayerProperties_count :: "VkPhysicalDevice \<Rightarrow> VkResult \<times> u32"
  EnumerateDeviceLayerProperties_data ::
    "VkPhysicalDevice \<Rightarrow> u32 \<Rightarrow> VkResult \<times> VkLayerProperties list"
  EnumerateDeviceExtensionProperties_count :: "VkPhysicalDevice \<Rightarrow> VkResult \<times> u32"
  EnumerateDeviceExtensionProperties_data ::
    "VkPhysicalDevice \<Rightarrow> u32 \<Rightarrow> VkResult \<times> VkExtensionProperties list"

text \<open>The calls made to the driver, in order; the flag tells a data call from a count call.\<close>

datatype VkCall =
  Call_EnumerateInstanceLayerProperties bool
  | Call_EnumerateInstanceExtensionProperties bool
  | Call_GetPhysicalDeviceProperties
  | Call_GetPhysicalDeviceFeatures
  | Call_GetPhysicalDeviceMemoryProperties
  | Call_GetPhysicalDeviceQueueFamilyProperties bool
  | Call_EnumerateDeviceLayerProperties bool
  | Call_EnumerateDeviceExtensionProperties bool

text \<open>
  \<open>v.resize(count)\<close> followed by a call that writes into \<open>v.data()\<close>: the vector keeps
  the elements it held, cut or filled up with zero-initialised ones to \<open>count\<close> elements,
  and the elements the driver wrote replace those at the front.
\<close>

definition resized :: "u32 \<Rightarrow> 'a \<Rightarrow> 'a list \<Rightarrow> 'a list \<Rightarrow> 'a list" where
  "resized count zero held written =
     (let fresh = take (unat count) (held @ replicate (unat count) zero);
          front = take (unat count) written
      in front @ drop (length front) fresh)"

definition VkLayerProperties_zero :: VkLayerProperties where
  "VkLayerProperties_zero =
     \<lparr> layerName = [], layer_specVersion = 0, implementationVersion = 0, description = [] \<rparr>"

definition VkExtensionProperties_zero :: VkExtensionProperties where
  "VkExtensionProperties_zero = \<lparr> extensionName = [], extension_specVersion = 0 \<rparr>"

definition VK_MAX_EXTENSION_NAME_SIZE :: nat where
  "VK_MAX_EXTENSION_NAME_SIZE = 256"

text \<open>
  \<open>strncmp(a, b, n) == 0\<close> on strings held without their terminator: the first \<open>n\<close>
  characters agree.
\<close>

definition IsLayerName :: "VkLayerProperties \<Rightarrow> string \<Rightarrow> bool" where
  "IsLayerName layer name =
     (take VK_MAX_EXTENSION_NAME_SIZE (layerName layer) = take VK_MAX_EXTENSION_NAME_SIZE name)"

definition IsExtensionName :: "VkExtensionProperties \<Rightarrow> string \<Rightarrow> bool" where
  "IsExtensionName extension name =
     (take VK_MAX_EXTENSION_NAME_SIZE (extensionName extension)
        = take VK_MAX_EXTENSION_NAME_SIZE name)"

definition kLayerNameLunargStandardValidation :: string where
  "kLayerNameLunargStandardValidation = ''VK_LAYER_LUNARG_standard_validation''"

definition kExtensionNameExtDebugReport :: string where
  "kExtensionNameExtDebugReport = ''VK_EXT_debug_report''"

definition kExtensionNameKhrSurface :: string where
  "kExtensionNameKhrSurface = ''VK_KHR_surface''"

definition kExtensionNameKhrSwapchain :: string where
  "kExtensionNameKhrSwapchain = ''VK_KHR_swapchain''"

record VulkanGlobalInfo =
  global_layers :: "VkLayerProperties list"
  global_extensions :: "VkExtensionProperties list"
  standardValidation :: bool
  debugReport :: bool
  surface :: bool

record VulkanDeviceInfo =
  properties :: VkPhysicalDeviceProperties
  features :: VkPhysicalDeviceFeatures
  info_memoryTypes :: "VkMemoryType list"
  info_memoryHeaps :: "VkMemoryHeap list"
  queueFamilies :: "VkQueueFamilyProperties list"
  device_layers :: "VkLayerProperties list"
  device_extensions :: "VkExtensionProperties list"
  swapchain :: bool

text \<open>
  Both functions return the bool, the \<open>info\<close> structure as they leave it, and the calls
  they made to the driver.
\<close>

definition GatherGlobalInfo ::
    "VulkanFunctions \<Rightarrow> VulkanGlobalInfo \<Rightarrow> bool \<times> VulkanGlobalInfo \<times> VkCall list" where
  "GatherGlobalInfo fn info =
     (let (result, count) = EnumerateInstanceLayerProperties_count fn;
          calls = [Call_EnumerateInstanceLayerProperties False]
      in if result \<noteq> VK_SUCCESS \<and> result \<noteq> VK_INCOMPLETE then (False, info, calls)
      else
      let (result, written) = EnumerateInstanceLayerProperties_data fn count;
          info = info\<lparr> global_layers := resized count VkLayerProperties_zero (global_layers info) written \<rparr>;
          calls = calls @ [Call_EnumerateInstanceLayerProperties True]
      in if result \<noteq> VK_SUCCESS then (False, info, calls)
      else
      let info = foldl (\<lambda>info layer.
                   if IsLayerName layer kLayerNameLunargStandardValidation
                   then info\<lparr> standardValidation := True \<rparr> else info)
                 info (global_layers info);
          (result, count) = EnumerateInstanceExtensionProperties_count fn;
          calls = calls @ [Call_EnumerateInstanceExtensionProperties False]
      in if result \<noteq> VK_SUCCESS \<and> result \<noteq> VK_INCOMPLETE then (False, info, calls)
      else
      let (result, written) = EnumerateInstanceExtensionProperties_data fn count;
          info = info\<lparr> global_extensions :=
                   resized count VkExtensionProperties_zero (global_extensions info) written \<rparr>;
          calls = calls @ [Call_EnumerateInstanceExtensionProperties True]
      in if result \<noteq> VK_SUCCESS then (False, info, calls)
      else
      let info = foldl (\<lambda>info extension.
                   let info = (if IsExtensionName extension kExtensionNameExtDebugReport
                               then info\<lparr> debugReport := True \<rparr> else info);
                       info = (if IsExtensionName extension kExtensionNameKhrSurface
                               then info\<lparr> surface := True \<rparr> else info)
                   in info)
                 info (global_extensions info)
      in (True, info, calls))"

definition GatherDeviceInfo ::
    "VulkanFunctions \<Rightarrow> VkPhysicalDevice \<Rightarrow> VulkanDeviceInfo
       \<Rightarrow> bool \<times> VulkanDeviceInfo \<times> VkCall list" where
  "GatherDeviceInfo fn physicalDevice info =
     (let info = info\<lparr> properties := GetPhysicalDeviceProperties fn physicalDevice \<rparr>;
          info = info\<lparr> features := GetPhysicalDeviceFeatures fn physicalDevice \<rparr>;
          memory = GetPhysicalDeviceMemoryProperties fn physicalDevice;
          info = info\<lparr> info_memoryTypes := take (unat (memoryTypeCount memory)) (memoryTypes memory) \<rparr>;
          info = info\<lparr> info_memoryHeaps := take (unat (memoryHeapCount memory)) (memoryHeaps memory) \<rparr>;
          count = GetPhysicalDeviceQueueFamilyProperties_count fn physicalDevice;
          info = info\<lparr> queueFamilies := resized count 0 (queueFamilies info)
                   (GetPhysicalDeviceQueueFamilyProperties_data fn physicalDevice count) \<rparr>;
          calls = [Call_GetPhysicalDeviceProperties, Call_GetPhysicalDeviceFeatures,
                   Call_GetPhysicalDeviceMemoryProperties,
                   Call_GetPhysicalDeviceQueueFamilyProperties False,
                   Call_GetPhysicalDeviceQueueFamilyProperties True];
          (result, count) = EnumerateDeviceLayerProperties_count fn physicalDevice;
          calls = calls @ [Call_EnumerateDeviceLayerProperties False]
      in if result \<noteq> VK_SUCCESS \<and> result \<noteq> VK_INCOMPLETE then (False, info, calls)
      else
      let (result, written) = EnumerateDeviceLayerProperties_data fn physicalDevice count;
          info = info\<lparr> device_layers := resized count VkLayerProperties_zero (device_layers info) written \<rparr>;
          calls = calls @ [Call_EnumerateDeviceLayerProperties True]
      in if result \<noteq> VK_SUCCESS then (False, info, calls)
      else
      let (result, count) = EnumerateDeviceExtensionProperties_count fn physicalDevice;
          calls = calls @ [Call_EnumerateDeviceExtensionProperties False]
      in if result \<noteq> VK_SUCCESS \<and> result \<noteq> VK_INCOMPLETE then (False, info, calls)
      else
      let (result, written) = EnumerateDeviceExtensionProperties_data fn physicalDevice count;
          info = info\<lparr> device_extensions :=
                   resized count VkExtensionProperties_zero (device_extensions info) written \<rparr>;
          calls = calls @ [Call_EnumerateDeviceExtensionProperties True]
      in if result \<noteq> VK_SUCCESS then (False, info, calls)
      else
      let info = foldl (\<lambda>info extension.
                   if IsExtensionName extension kExtensionNameKhrSwapchain
                   then info\<lparr> swapchain := True \<rparr> else info)
                 info (device_extensions info)
      in (True, info, calls))"

text \<open>A count call succeeds with \<open>VK_SUCCESS\<close> or \<open>VK_INCOMPLETE\<close>.\<close>

definition count_ok :: "VkResult \<Rightarrow> bool" where
  "count_ok result = (result = VK_SUCCESS \<or> result = VK_INCOMPLETE)"

definition global_results :: "VulkanFunctions \<Rightarrow> VkResult \<times> VkResult \<times> VkResult \<times> VkResult" where
  "global_results fn =
     (fst (EnumerateInstanceLayerProperties_count fn),
      fst (EnumerateInstanceLayerProperties_data fn
             (snd (EnumerateInstanceLayerProperties_count fn))),
      fst (EnumerateInstanceExtensionProperties_count fn),
      fst (EnumerateInstanceExtensionProperties_data fn
             (snd (EnumerateInstanceExtensionProperties_count fn))))"

definition device_results ::
    "VulkanFunctions \<Rightarrow> VkPhysicalDevice \<Rightarrow> VkResult \<times> VkResult \<times> VkResult \<times> VkResult" where
  "device_results fn pd =
     (fst (EnumerateDeviceLayerProperties_count fn pd),
      fst (EnumerateDeviceLayerProperties_data fn pd
             (snd (EnumerateDeviceLayerProperties_count fn pd))),
      fst (EnumerateDeviceExtensionProperties_count fn pd),
      fst (EnumerateDeviceExtensionProperties_data fn pd
             (snd (EnumerateDeviceExtensionProperties_count fn pd))))"


definition global_calls :: "nat \<Rightarrow> VkCall list" where
  "global_calls n = take n
     [Call_EnumerateInstanceLayerProperties False, Call_EnumerateInstanceLayerProperties True,
      Call_EnumerateInstanceExtensionProperties False,
      Call_EnumerateInstanceExtensionProperties True]"

definition device_calls :: "nat \<Rightarrow> VkCall list" where
  "device_calls n =
     [Call_GetPhysicalDeviceProperties, Call_GetPhysicalDeviceFeatures,
      Call_GetPhysicalDeviceMemoryProperties,
      Call_GetPhysicalDeviceQueueFamilyProperties False,
      Call_GetPhysicalDeviceQueueFamilyProperties True]
     @ take n
     [Call_EnumerateDeviceLayerProperties False, Call_EnumerateDeviceLayerProperties True,
      Call_EnumerateDeviceExtensionProperties False,
      Call_EnumerateDeviceExtensionProperties True]"

text \<open>
  How far four enumeration calls with these results get: the number of calls made when each
  is made only after the ones before it succeeded.
\<close>

definition calls_made :: "VkResult \<times> VkResult \<times> VkResult \<times> VkResult \<Rightarrow> nat" where
  "calls_made rs =
     (case rs of (r1, r2, r3, r4) \<Rightarrow>
        if \<not> count_ok r1 then 1
        else if r2 \<noteq> VK_SUCCESS then 2
        else if \<not> count_ok r3 then 3
        else 4)"

definition all_succeeded :: "VkResult \<times> VkResult \<times> VkResult \<times> VkResult \<Rightarrow> bool" where
  "all_succeeded rs =
     (case rs of (r1, r2, r3, r4) \<Rightarrow>
        count_ok r1 \<and> r2 = VK_SUCCESS \<and> count_ok r3 \<and> r4 = VK_SUCCESS)"


text \<open>
  Two drivers to evaluate the functions on: one reports one layer and two extensions and
  succeeds throughout; the other fills the instance layers with \<open>VK_INCOMPLETE\<close> and fails
  the count of the device extensions.
\<close>

definition driver_ok :: VulkanFunctions where
  "driver_ok =
     \<lparr> EnumerateInstanceLayerProperties_count = (VK_SUCCESS, 1),
       EnumerateInstanceLayerProperties_data = (\<lambda>n. (VK_SUCCESS,
          [\<lparr> layerName = ''VK_LAYER_LUNARG_standard_validation'', layer_specVersion = 1,
             implementationVersion = 1, description = ''validation'' \<rparr>])),
       EnumerateInstanceExtensionProperties_count = (VK_INCOMPLETE, 2),
       EnumerateInstanceExtensionProperties_data = (\<lambda>n. (VK_SUCCESS,
          [\<lparr> extensionName = ''VK_KHR_surface'', extension_specVersion = 25 \<rparr>,
           \<lparr> extensionName = ''VK_EXT_debug_report'', extension_specVersion = 8 \<rparr>])),
       GetPhysicalDeviceProperties = (\<lambda>pd. 7),
       GetPhysicalDeviceFeatures = (\<lambda>pd. 8),
       GetPhysicalDeviceMemoryProperties = (\<lambda>pd.
          \<lparr> memoryTypeCount = 2, memoryTypes = [1, 2, 0, 0], memoryHeapCount = 1,
            memoryHeaps = [5, 0] \<rparr>),
       GetPhysicalDeviceQueueFamilyProperties_count = (\<lambda>pd. 1),
       GetPhysicalDeviceQueueFamilyProperties_data = (\<lambda>pd n. [9]),
       EnumerateDeviceLayerProperties_count = (\<lambda>pd. (VK_SUCCESS, 0)),
       EnumerateDeviceLayerProperties_data = (\<lambda>pd n. (VK_SUCCESS, [])),
       EnumerateDeviceExtensionProperties_count = (\<lambda>pd. (VK_INCOMPLETE, 1)),
       EnumerateDeviceExtensionProperties_data = (\<lambda>pd n. (VK_SUCCESS,
          [\<lparr> extensionName = ''VK_KHR_swapchain'', extension_specVersion = 68 \<rparr>])) \<rparr>"

definition driver_failing :: VulkanFunctions where
  "driver_failing =
     driver_ok
       \<lparr> EnumerateInstanceLayerProperties_data := (\<lambda>n. (VK_INCOMPLETE, [])),
         EnumerateDeviceExtensionProperties_count :=
           (\<lambda>pd. (VK_ERROR_OUT_OF_HOST_MEMORY, 0)) \<rparr>"

definition VulkanGlobalInfo_new :: VulkanGlobalInfo where
  "VulkanGlobalInfo_new =
     \<lparr> global_layers = [], global_extensions = [], standardValidation = False,
       debugReport = False, surface = False \<rparr>"

definition VulkanDeviceInfo_new :: VulkanDeviceInfo where
  "VulkanDeviceInfo_new =
     \<lparr> properties = 0, features = 0, info_memoryTypes = [], info_memoryHeaps = [],
       queueFamilies = [], device_layers = [], device_extensions = [], swapchain = False \<rparr>"
section \<open>OpenGL command buffer (backend/opengl/CommandBufferGL.cpp): data\<close>

subsection \<open>Bit sets and the environment\<close>

text \<open>
  A \<open>std::bitset<N>\<close> is the number whose binary digits are its bits. Its size \<open>N\<close> is
  one of the constants of common/Constants.h, which is not among the source files: the
  sizes are parameters. So are the helpers of other files that the command buffer calls
  (\<open>VertexFormatNumComponents\<close>, \<open>IndexFormatSize\<close>, \<open>TextureFormatHasDepth\<close>,
  \<open>TextureFormatHasStencil\<close>, \<open>TextureFormatPixelSize\<close>), the names the driver returns from
  \<open>glGenFramebuffers\<close> (the n-th call returns \<open>genFramebuffer n\<close>) and the content of the
  push constant values before the first pass (the array is not initialised).
\<close>

type_synonym bitset = nat

type_synonym GLuint = u32
type_synonym GLint = u32
type_synonym GLfloat = u32

text \<open>
  A \<open>GLint\<close> is held as its two's complement bit pattern and a \<open>GLfloat\<close> as its IEEE-754
  bit pattern: the code passes these values on and never computes with them (the constant
  \<open>0\<close> of \<open>glBlendColor(0, 0, 0, 0)\<close> is the pattern 0).
\<close>

datatype PushConstantType = PushConstantType_Int | PushConstantType_UInt | PushConstantType_Float

datatype ShaderStage = ShaderStage_Vertex | ShaderStage_Fragment | ShaderStage_Compute

datatype LoadOp = LoadOp_Clear | LoadOp_Load

datatype TextureFormat = R8G8B8A8Unorm | D32FloatS8Uint | TextureFormat_other nat

datatype TextureDimension = e2D | TextureDimension_other nat

datatype IndexFormat = IndexFormat_Uint16 | IndexFormat_Uint32 | IndexFormat_other nat

datatype VertexFormat =
  FloatR32G32B32A32 | FloatR32G32B32 | FloatR32G32 | FloatR32 | VertexFormat_other nat

datatype BindingType =
  BindingType_UniformBuffer | BindingType_Sampler | BindingType_SampledTexture
  | BindingType_StorageBuffer

record Environment =
  kMaxPushConstants :: nat
  kMaxVertexInputs :: nat
  kMaxVertexAttributes :: nat
  kMaxColorAttachments :: nat
  kMaxBindingsPerGroup :: nat
  VertexFormatNumComponents :: "VertexFormat \<Rightarrow> u32"
  IndexFormatSize :: "IndexFormat \<Rightarrow> u64"
  TextureFormatHasDepth :: "TextureFormat \<Rightarrow> bool"
  TextureFormatHasStencil :: "TextureFormat \<Rightarrow> bool"
  TextureFormatPixelSize :: "TextureFormat \<Rightarrow> u32"
  genFramebuffer :: "nat \<Rightarrow> GLuint"
  uninitialisedValues :: "ShaderStage \<Rightarrow> nat \<Rightarrow> u32"

text \<open>
  Modelled from the spec: \<open>IterateBitSet\<close> (common/BitSetIterator.h) is not among the
  sources. A flush is described as acting on exactly the slots of a mask, once each; so the
  iteration is taken to visit the indices of the bits that are set, below the size of the
  bit set, each once. That it visits them in ascending order is a choice made here, which
  the description does not give.
\<close>

definition IterateBitSet :: "nat \<Rightarrow> bitset \<Rightarrow> nat list" where
  "IterateBitSet n bits = filter (bit bits) [0..<n]"

text \<open>
  The mask \<open>((1ull << count) - 1ull) << offset\<close>, computed on 64 bits and converted to a
  bit set of \<open>n\<close> bits, which keeps its low \<open>n\<close> bits.
\<close>

definition rangeMask :: "nat \<Rightarrow> nat \<Rightarrow> nat \<Rightarrow> bitset" where
  "rangeMask n count offset =
     take_bit n (unat (push_bit offset (push_bit count (1 :: u64) - 1)))"

text \<open>
  Modelled from the spec: \<open>IterateStages\<close> and \<open>kAllStages\<close> (backend/PerStage.h) are not
  among the sources. \<open>nxt::ShaderStageBit\<close> is a set of stages, and the trackers keep one
  value array and one mask for each stage; so the iteration is taken to visit each stage of
  the set once. The order (vertex, fragment, compute) is a choice made here.
\<close>

definition kAllStages :: "ShaderStage set" where
  "kAllStages = {ShaderStage_Vertex, ShaderStage_Fragment, ShaderStage_Compute}"

definition IterateStages :: "ShaderStage set \<Rightarrow> ShaderStage list" where
  "IterateStages stages =
     filter (\<lambda>stage. stage \<in> stages) [ShaderStage_Vertex, ShaderStage_Fragment, ShaderStage_Compute]"

subsection \<open>The calls the command buffer makes\<close>

text \<open>
  The values of the GL enumerators are those of the GL headers; the model keeps them
  symbolic. \<open>GL_COLOR_ATTACHMENT0_plus n\<close> is \<open>GL_COLOR_ATTACHMENT0 + n\<close>, \<open>GL_TEXTURE0_plus n\<close>
  is \<open>GL_TEXTURE0 + n\<close>; \<open>GLenum_value\<close> holds a value that another class supplies (a texture
  target, a pixel format, a primitive topology).
\<close>

datatype GLenum =
  GL_NONE | GL_UNSIGNED_SHORT | GL_UNSIGNED_INT | GL_FLOAT
  | GL_ELEMENT_ARRAY_BUFFER | GL_ARRAY_BUFFER | GL_PIXEL_PACK_BUFFER | GL_PIXEL_UNPACK_BUFFER
  | GL_UNIFORM_BUFFER | GL_SHADER_STORAGE_BUFFER
  | GL_READ_FRAMEBUFFER | GL_DRAW_FRAMEBUFFER
  | GL_COLOR_ATTACHMENT0_plus nat | GL_DEPTH_STENCIL_ATTACHMENT | GL_DEPTH_ATTACHMENT
  | GL_STENCIL_ATTACHMENT
  | GL_TEXTURE_2D | GL_TEXTURE0_plus nat
  | GL_COLOR | GL_DEPTH_STENCIL | GL_DEPTH | GL_STENCIL
  | GL_UNPACK_ROW_LENGTH | GL_PACK_ROW_LENGTH
  | GL_ALL_BARRIER_BITS
  | GLenum_value nat

text \<open>
  A call of the GL, with its arguments in the order of the GL function (a count of 1
  before a single name is left out, and a pointer argument is the array or the offset it
  stands for). The last six are calls into classes of other files, whose effect on the GL
  is not in this file.
\<close>

datatype GLCall =
  glUniform1i GLint GLint
  | glUniform1ui GLint GLuint
  | glUniform1f GLint GLfloat
  | glBindBuffer GLenum GLuint
  | glVertexAttribPointer nat u32 GLenum bool u32 u32
  | glBindFramebuffer GLenum GLuint
  | glGenFramebuffers GLuint
  | glDeleteFramebuffers GLuint
  | glFramebufferTexture2D GLenum GLenum GLenum GLuint u32
  | glDrawBuffers nat "GLenum list"
  | glClearBufferfv GLenum nat "GLfloat list"
  | glClearBufferfi GLenum nat GLfloat GLint
  | glClearBufferiv GLenum nat "GLint list"
  | glBlendColor GLfloat GLfloat GLfloat GLfloat
  | glViewport u32 u32 u32 u32
  | glCopyBufferSubData GLenum GLenum u32 u32 u32
  | glActiveTexture GLenum
  | glBindTexture GLenum GLuint
  | glPixelStorei GLenum u32
  | glTexSubImage2D GLenum u32 u32 u32 u32 u32 GLenum GLenum u32
  | glReadPixels u32 u32 u32 u32 GLenum GLenum u32
  | glDispatchCompute u32 u32 u32
  | glMemoryBarrier GLenum
  | glDrawArraysInstancedBaseInstance GLenum u32 u32 u32 u32
  | glDrawArraysInstanced GLenum u32 u32 u32
  | glDrawElementsInstancedBaseInstance GLenum u32 GLenum u64 u32 u32
  | glDrawElementsInstanced GLenum u32 GLenum u64 u32
  | glBindBufferRange GLenum GLuint GLuint u32 u32
  | glBindSampler GLuint GLuint
  | PersistentPipelineState_SetDefaultState
  | PersistentPipelineState_SetStencilReference u32
  | ComputePipeline_ApplyNow nat
  | RenderPipeline_ApplyNow nat
  | Buffer_UpdateUsageInternal nat u32
  | Texture_UpdateUsageInternal nat u32

subsection \<open>The objects the commands refer to\<close>

text \<open>
  Each object is the record of what the command buffer reads from it; an object that the
  code compares by address or hands to another class carries its address.
\<close>

record BufferGL =
  Buffer_address :: nat
  Buffer_GetHandle :: GLuint

record TextureGL =
  Texture_address :: nat
  Texture_GetHandle :: GLuint
  GetGLTarget :: GLenum
  GetGLFormat_format :: GLenum
  GetGLFormat_type :: GLenum
  Texture_GetFormat :: TextureFormat
  GetDimension :: TextureDimension

record TextureViewGL =
  GetTexture :: TextureGL

record BufferViewGL =
  GetBuffer :: BufferGL
  BufferView_GetOffset :: u32
  BufferView_GetSize :: u32

record SamplerGL =
  Sampler_GetHandle :: GLuint

record PushConstantInfo =
  mask :: bitset
  types :: "nat \<Rightarrow> PushConstantType"

text \<open>
  A pipeline, as \<open>PipelineBase\<close> and \<open>PipelineGL\<close> show it. \<open>GetBindingIndexInfo\<close> is that
  of its layout.
\<close>

record PipelineGL =
  Pipeline_address :: nat
  GetPushConstants :: "ShaderStage \<Rightarrow> PushConstantInfo"
  GetGLPushConstants :: "ShaderStage \<Rightarrow> nat \<Rightarrow> GLint"
  GetBindingIndexInfo :: "nat \<Rightarrow> nat \<Rightarrow> GLuint"
  GetTextureUnitsForSampler :: "GLuint \<Rightarrow> GLuint list"
  GetTextureUnitsForTexture :: "GLuint \<Rightarrow> GLuint list"

record AttributeInfo =
  attribute_format :: VertexFormat
  attribute_offset :: u32

record InputInfo =
  stride :: u32

record InputStateGL =
  InputState_address :: nat
  GetInputsSetMask :: bitset
  GetAttributesUsingInput :: "nat \<Rightarrow> bitset"
  GetAttribute :: "nat \<Rightarrow> AttributeInfo"
  GetInput :: "nat \<Rightarrow> InputInfo"

record RenderPipelineGL =
  pipeline :: PipelineGL
  GetInputState :: InputStateGL
  GetGLPrimitiveTopology :: GLenum
  GetIndexFormat :: IndexFormat

record AttachmentInfo =
  attachment_format :: TextureFormat
  colorLoadOp :: LoadOp
  depthLoadOp :: LoadOp
  stencilLoadOp :: LoadOp
  firstSubpass :: u32

record SubpassInfo =
  colorAttachmentsSet :: bitset
  colorAttachments :: "nat \<Rightarrow> u32"
  depthStencilAttachmentSet :: bool
  depthStencilAttachment :: u32

record RenderPassGL =
  GetSubpassInfo :: "u32 \<Rightarrow> SubpassInfo"
  GetAttachmentInfo :: "u32 \<Rightarrow> AttachmentInfo"

record ClearDepthStencil =
  depth :: GLfloat
  stencil :: u32

record FramebufferGL =
  GetTextureView :: "u32 \<Rightarrow> TextureViewGL"
  GetClearColor :: "nat \<Rightarrow> GLfloat list"
  GetClearDepthStencil :: "u32 \<Rightarrow> ClearDepthStencil"
  GetWidth :: u32
  GetHeight :: u32

text \<open>
  A bind group with the binding info of its layout (\<open>layout_mask\<close>, \<open>layout_types\<close>).
\<close>

record BindGroupGL =
  layout_mask :: bitset
  layout_types :: "nat \<Rightarrow> BindingType"
  GetBindingAsBufferView :: "nat \<Rightarrow> BufferViewGL"
  GetBindingAsSampler :: "nat \<Rightarrow> SamplerGL"
  GetBindingAsTextureView :: "nat \<Rightarrow> TextureViewGL"

record BufferCopyLocation =
  copy_buffer :: BufferGL
  copy_offset :: u32

record TextureCopyLocation =
  copy_texture :: TextureGL
  copy_x :: u32
  copy_y :: u32
  copy_z :: u32
  copy_width :: u32
  copy_height :: u32
  copy_depth :: u32
  copy_level :: u32

text \<open>
  The command records, with their fields in the order the comments give. The array
  that follows a record in the stream holds as many elements as its \<open>count\<close> field says:
  the model keeps the array, and \<open>count\<close> is its length.
\<close>

datatype Command =
  BeginComputePass
  | BeginRenderPass RenderPassGL FramebufferGL
  | BeginRenderSubpass
  | CopyBufferToBuffer BufferCopyLocation BufferCopyLocation u32
    \<comment> \<open>source, destination, size\<close>
  | CopyBufferToTexture BufferCopyLocation TextureCopyLocation u32
    \<comment> \<open>source, destination, rowPitch\<close>
  | CopyTextureToBuffer TextureCopyLocation BufferCopyLocation u32
    \<comment> \<open>source, destination, rowPitch\<close>
  | Dispatch u32 u32 u32
    \<comment> \<open>x, y, z\<close>
  | DrawArrays u32 u32 u32 u32
    \<comment> \<open>vertexCount, instanceCount, firstVertex, firstInstance\<close>
  | DrawElements u32 u32 u32 u32
    \<comment> \<open>indexCount, instanceCount, firstIndex, firstInstance\<close>
  | EndComputePass
  | EndRenderPass
  | EndRenderSubpass
  | SetComputePipeline PipelineGL
  | SetRenderPipeline RenderPipelineGL
  | SetPushConstants "ShaderStage set" nat "u32 list"
    \<comment> \<open>stages, offset, data\<close>
  | SetStencilReference u32
  | SetBlendColor GLfloat GLfloat GLfloat GLfloat
  | SetBindGroup nat BindGroupGL
    \<comment> \<open>index, group\<close>
  | SetIndexBuffer BufferGL u32
    \<comment> \<open>buffer, offset\<close>
  | SetVertexBuffers nat "BufferGL list" "u32 list"
    \<comment> \<open>startSlot, buffers, offsets\<close>
  | TransitionBufferUsage BufferGL u32
  | TransitionTextureUsage TextureGL u32

text \<open>Running a function that may fail over a list, stopping at the first failure.\<close>

fun traverse :: "('a \<Rightarrow> error + 'b) \<Rightarrow> 'a list \<Rightarrow> error + 'b list" where
  "traverse f [] = Inr []"
| "traverse f (x # xs) =
     (case f x of
        Inl e \<Rightarrow> Inl e
      | Inr y \<Rightarrow> (case traverse f xs of Inl e \<Rightarrow> Inl e | Inr ys \<Rightarrow> Inr (y # ys)))"

section \<open>OpenGL command buffer: the trackers and Execute\<close>

fun foldl_result :: "('s \<Rightarrow> 'a \<Rightarrow> error + 's) \<Rightarrow> 's \<Rightarrow> 'a list \<Rightarrow> error + 's" where
  "foldl_result f s [] = Inr s"
| "foldl_result f s (x # xs) =
     (case f s x of Inl e \<Rightarrow> Inl e | Inr s' \<Rightarrow> foldl_result f s' xs)"

text \<open>The \<open>default\<close> branch of both switches is \<open>UNREACHABLE()\<close>.\<close>

definition IndexFormatType :: "IndexFormat \<Rightarrow> error + GLenum" where
  "IndexFormatType format =
     (case format of
        IndexFormat_Uint16 \<Rightarrow> Inr GL_UNSIGNED_SHORT
      | IndexFormat_Uint32 \<Rightarrow> Inr GL_UNSIGNED_INT
      | IndexFormat_other n \<Rightarrow> Inl Unreachable)"

definition VertexFormatType :: "VertexFormat \<Rightarrow> error + GLenum" where
  "VertexFormatType format =
     (case format of
        FloatR32G32B32A32 \<Rightarrow> Inr GL_FLOAT
      | FloatR32G32B32 \<Rightarrow> Inr GL_FLOAT
      | FloatR32G32 \<Rightarrow> Inr GL_FLOAT
      | FloatR32 \<Rightarrow> Inr GL_FLOAT
      | VertexFormat_other n \<Rightarrow> Inl Unreachable)"

subsection \<open>PushConstantTracker\<close>

text \<open>
  \<open>mValues\<close> and \<open>mDirtyBits\<close> are arrays indexed by the stage; an array of values is a
  function of the index. A bit set is created empty.
\<close>

record PushConstantTracker =
  mValues :: "ShaderStage \<Rightarrow> nat \<Rightarrow> u32"
  mDirtyBits :: "ShaderStage \<Rightarrow> bitset"

definition PushConstantTracker_new :: "Environment \<Rightarrow> PushConstantTracker" where
  "PushConstantTracker_new env =
     \<lparr> mValues = uninitialisedValues env, mDirtyBits = (\<lambda>stage. 0) \<rparr>"

definition PushConstantTracker_OnBeginPass :: "PushConstantTracker \<Rightarrow> PushConstantTracker" where
  "PushConstantTracker_OnBeginPass t =
     foldl (\<lambda>t stage. t\<lparr> mValues := (mValues t)(stage := (\<lambda>i. 0)) \<rparr>)
       t (IterateStages kAllStages)"

text \<open>
  The \<open>memcpy\<close> writes \<open>count\<close> values from \<open>offset\<close> on; writing past the end of the array
  or reading past the end of the data is an access out of bounds.
\<close>

definition PushConstantTracker_OnSetPushConstants ::
    "Environment \<Rightarrow> ShaderStage set \<Rightarrow> nat \<Rightarrow> nat \<Rightarrow> u32 list \<Rightarrow> PushConstantTracker
       \<Rightarrow> error + PushConstantTracker" where
  "PushConstantTracker_OnSetPushConstants env stages count offset data' t =
     foldl_result
       (\<lambda>t stage.
          if kMaxPushConstants env < offset + count \<or> length data' < count then Inl OutOfBounds
          else Inr (t\<lparr> mValues := (mValues t)(stage :=
                          (\<lambda>i. if offset \<le> i \<and> i < offset + count then data' ! (i - offset)
                                else mValues t stage i)),
                        mDirtyBits := (mDirtyBits t)(stage :=
                          mDirtyBits t stage OR rangeMask (kMaxPushConstants env) count offset) \<rparr>))
       t (IterateStages stages)"

definition PushConstantTracker_OnSetPipeline ::
    "PipelineGL \<Rightarrow> PushConstantTracker \<Rightarrow> PushConstantTracker" where
  "PushConstantTracker_OnSetPipeline pipeline' t =
     foldl (\<lambda>t stage. t\<lparr> mDirtyBits := (mDirtyBits t)(stage :=
                                mask (GetPushConstants pipeline' stage)) \<rparr>)
       t (IterateStages kAllStages)"

text \<open>
  The body of the inner loop of \<open>Apply\<close>: the call that writes one constant of a stage.
\<close>

definition PushConstantTracker_ApplyConstant ::
    "PipelineGL \<Rightarrow> PipelineGL \<Rightarrow> PushConstantTracker \<Rightarrow> ShaderStage \<Rightarrow> nat \<Rightarrow> GLCall" where
  "PushConstantTracker_ApplyConstant pipeline' glPipeline t stage constant =
     (let pushConstants' = GetPushConstants pipeline' stage;
          glPushConstants = GetGLPushConstants glPipeline stage;
          location = glPushConstants constant
      in case types pushConstants' constant of
           PushConstantType_Int \<Rightarrow> glUniform1i location (mValues t stage constant)
         | PushConstantType_UInt \<Rightarrow> glUniform1ui location (mValues t stage constant)
         | PushConstantType_Float \<Rightarrow> glUniform1f location (mValues t stage constant))"

text \<open>The body of the outer loop of \<open>Apply\<close>: the calls of one stage, then the reset.\<close>

definition PushConstantTracker_ApplyStage ::
    "Environment \<Rightarrow> PipelineGL \<Rightarrow> PipelineGL \<Rightarrow> PushConstantTracker \<Rightarrow> ShaderStage
       \<Rightarrow> PushConstantTracker \<times> GLCall list" where
  "PushConstantTracker_ApplyStage env pipeline' glPipeline t stage =
     (let pushConstants' = GetPushConstants pipeline' stage;
          calls = map (PushConstantTracker_ApplyConstant pipeline' glPipeline t stage)
                    (IterateBitSet (kMaxPushConstants env)
                       (mDirtyBits t stage AND mask pushConstants'))
      in (t\<lparr> mDirtyBits := (mDirtyBits t)(stage := 0) \<rparr>, calls))"

definition PushConstantTracker_Apply ::
    "Environment \<Rightarrow> PipelineGL \<Rightarrow> PipelineGL \<Rightarrow> PushConstantTracker
       \<Rightarrow> PushConstantTracker \<times> GLCall list" where
  "PushConstantTracker_Apply env pipeline' glPipeline t =
     foldl (\<lambda>(t, calls) stage.
              let (t', stageCalls) = PushConstantTracker_ApplyStage env pipeline' glPipeline t stage
              in (t', calls @ stageCalls))
       (t, []) (IterateStages kAllStages)"

subsection \<open>InputBufferTracker\<close>

text \<open>
  A pointer that may be null is an option. The elements of \<open>mVertexBuffers\<close> are not
  initialised: an element is \<open>None\<close> until a buffer is assigned to it, and using it then
  is the use of an invalid pointer.
\<close>

record InputBufferTracker =
  mIndexBufferDirty :: bool
  mIndexBuffer :: "BufferGL option"
  mDirtyVertexBuffers :: bitset
  mVertexBuffers :: "nat \<Rightarrow> BufferGL option"
  mVertexBufferOffsets :: "nat \<Rightarrow> u32"
  mLastInputState :: "InputStateGL option"

definition InputBufferTracker_new :: InputBufferTracker where
  "InputBufferTracker_new =
     \<lparr> mIndexBufferDirty = False, mIndexBuffer = None, mDirtyVertexBuffers = 0,
       mVertexBuffers = (\<lambda>slot. None), mVertexBufferOffsets = (\<lambda>slot. 0),
       mLastInputState = None \<rparr>"

definition InputBufferTracker_OnBeginPass :: "InputBufferTracker \<Rightarrow> InputBufferTracker" where
  "InputBufferTracker_OnBeginPass t = t\<lparr> mLastInputState := None \<rparr>"

definition InputBufferTracker_OnSetIndexBuffer ::
    "BufferGL \<Rightarrow> InputBufferTracker \<Rightarrow> InputBufferTracker" where
  "InputBufferTracker_OnSetIndexBuffer buffer' t =
     t\<lparr> mIndexBufferDirty := True, mIndexBuffer := Some buffer' \<rparr>"

definition InputBufferTracker_OnSetVertexBuffers ::
    "Environment \<Rightarrow> nat \<Rightarrow> nat \<Rightarrow> BufferGL list \<Rightarrow> u32 list \<Rightarrow> InputBufferTracker
       \<Rightarrow> error + InputBufferTracker" where
  "InputBufferTracker_OnSetVertexBuffers env startSlot count buffers offsets t =
     (if (0 < count \<and> kMaxVertexInputs env < startSlot + count)
         \<or> length buffers < count \<or> length offsets < count
      then Inl OutOfBounds
      else
        let t = foldl (\<lambda>t i.
                  let slot = startSlot + i
                  in t\<lparr> mVertexBuffers := (mVertexBuffers t)(slot := Some (buffers ! i)),
                        mVertexBufferOffsets := (mVertexBufferOffsets t)(slot := offsets ! i) \<rparr>)
                t [0..<count]
        in Inr (t\<lparr> mDirtyVertexBuffers :=
                   mDirtyVertexBuffers t OR rangeMask (kMaxVertexInputs env) count startSlot \<rparr>))"

text \<open>\<open>mLastInputState == inputState\<close> compares two pointers: the addresses.\<close>

definition InputBufferTracker_OnSetPipeline ::
    "RenderPipelineGL \<Rightarrow> InputBufferTracker \<Rightarrow> InputBufferTracker" where
  "InputBufferTracker_OnSetPipeline pipeline' t =
     (let inputState = GetInputState pipeline'
      in if map_option InputState_address (mLastInputState t)
              = Some (InputState_address inputState)
         then t
         else t\<lparr> mIndexBufferDirty := True,
                 mDirtyVertexBuffers := mDirtyVertexBuffers t OR GetInputsSetMask inputState,
                 mLastInputState := Some inputState \<rparr>)"

text \<open>The body of the inner loop of \<open>Apply\<close>: the two calls for one attribute of a slot.\<close>

definition InputBufferTracker_ApplyAttribute ::
    "Environment \<Rightarrow> InputBufferTracker \<Rightarrow> InputStateGL \<Rightarrow> nat \<Rightarrow> nat \<Rightarrow> error + GLCall list" where
  "InputBufferTracker_ApplyAttribute env t inputState slot location =
     (let attribute = GetAttribute inputState location
      in case mVertexBuffers t slot of
           None \<Rightarrow> Inl InvalidPointer
         | Some vertexBuffer \<Rightarrow>
             let buffer' = Buffer_GetHandle vertexBuffer;
                 offset = mVertexBufferOffsets t slot;
                 input = GetInput inputState slot;
                 components = VertexFormatNumComponents env (attribute_format attribute)
             in case VertexFormatType (attribute_format attribute) of
                  Inl e \<Rightarrow> Inl e
                | Inr formatType \<Rightarrow>
                    Inr [glBindBuffer GL_ARRAY_BUFFER buffer',
                         glVertexAttribPointer location components formatType False
                           (stride input) (offset + attribute_offset attribute)])"

definition InputBufferTracker_ApplySlot ::
    "Environment \<Rightarrow> InputBufferTracker \<Rightarrow> InputStateGL \<Rightarrow> nat \<Rightarrow> error + GLCall list" where
  "InputBufferTracker_ApplySlot env t inputState slot =
     (case traverse (InputBufferTracker_ApplyAttribute env t inputState slot)
             (IterateBitSet (kMaxVertexAttributes env)
                (GetAttributesUsingInput inputState slot)) of
        Inl e \<Rightarrow> Inl e
      | Inr calls \<Rightarrow> Inr (concat calls))"

definition InputBufferTracker_Apply ::
    "Environment \<Rightarrow> InputBufferTracker \<Rightarrow> error + (InputBufferTracker \<times> GLCall list)" where
  "InputBufferTracker_Apply env t =
     (let (t, indexCalls) =
            (case mIndexBuffer t of
               Some indexBuffer \<Rightarrow>
                 if mIndexBufferDirty t
                 then (t\<lparr> mIndexBufferDirty := False \<rparr>,
                       [glBindBuffer GL_ELEMENT_ARRAY_BUFFER (Buffer_GetHandle indexBuffer)])
                 else (t, [])
             | None \<Rightarrow> (t, []))
      in case mLastInputState t of
           None \<Rightarrow> Inl NullDereference
         | Some inputState \<Rightarrow>
             (case traverse (InputBufferTracker_ApplySlot env t inputState)
                     (IterateBitSet (kMaxVertexInputs env)
                        (mDirtyVertexBuffers t AND GetInputsSetMask inputState)) of
                Inl e \<Rightarrow> Inl e
              | Inr calls \<Rightarrow>
                  Inr (t\<lparr> mDirtyVertexBuffers := 0 \<rparr>, indexCalls @ concat calls)))"

subsection \<open>CommandBuffer::Execute\<close>

text \<open>
  The local variables of \<open>Execute\<close>. \<open>lastPipeline\<close> and \<open>lastGLPipeline\<close> are two pointers
  to the same object, always assigned together: one field. \<open>generated\<close> counts the calls of
  \<open>glGenFramebuffers\<close>.
\<close>

record ExecuteState =
  lastPipeline :: "PipelineGL option"
  lastRenderPipeline :: "RenderPipelineGL option"
  indexBufferOffset :: u32
  pushConstants :: PushConstantTracker
  inputBuffers :: InputBufferTracker
  currentRenderPass :: "RenderPassGL option"
  currentFramebuffer :: "FramebufferGL option"
  currentSubpass :: u32
  currentFBO :: GLuint
  generated :: nat

definition ExecuteState_new :: "Environment \<Rightarrow> ExecuteState" where
  "ExecuteState_new env =
     \<lparr> lastPipeline = None, lastRenderPipeline = None, indexBufferOffset = 0,
       pushConstants = PushConstantTracker_new env, inputBuffers = InputBufferTracker_new,
       currentRenderPass = None, currentFramebuffer = None, currentSubpass = 0,
       currentFBO = 0, generated = 0 \<rparr>"

text \<open>
  \<open>BeginRenderSubpass\<close>, "Construct GL framebuffer": the loop over the color attachments
  attaches each texture, fills \<open>drawBuffers\<close> and \<open>attachmentCount\<close>, and asserts the format.
\<close>

definition BeginRenderSubpass_attachColor ::
    "Environment \<Rightarrow> FramebufferGL \<Rightarrow> SubpassInfo
       \<Rightarrow> error + (GLCall list \<times> (nat \<Rightarrow> GLenum) \<times> nat)" where
  "BeginRenderSubpass_attachColor env framebuffer subpass =
     foldl_result
       (\<lambda>(calls, drawBuffers, attachmentCount) location.
          let attachment = colorAttachments subpass location;
              textureView = GetTextureView framebuffer attachment;
              texture = Texture_GetHandle (GetTexture textureView);
              calls = calls @ [glFramebufferTexture2D GL_DRAW_FRAMEBUFFER
                                 (GL_COLOR_ATTACHMENT0_plus location) GL_TEXTURE_2D texture 0];
              drawBuffers = drawBuffers(location := GL_COLOR_ATTACHMENT0_plus location);
              attachmentCount = location + 1
          in if Texture_GetFormat (GetTexture textureView) = R8G8B8A8Unorm
             then Inr (calls, drawBuffers, attachmentCount)
             else Inl AssertionFailed)
       ([], (\<lambda>location. GL_NONE), 0)
       (IterateBitSet (kMaxColorAttachments env) (colorAttachmentsSet subpass))"

definition BeginRenderSubpass_attachDepthStencil ::
    "Environment \<Rightarrow> FramebufferGL \<Rightarrow> SubpassInfo \<Rightarrow> error + GLCall list" where
  "BeginRenderSubpass_attachDepthStencil env framebuffer subpass =
     (if depthStencilAttachmentSet subpass then
        let attachmentSlot = depthStencilAttachment subpass;
            textureView = GetTextureView framebuffer attachmentSlot;
            texture = Texture_GetHandle (GetTexture textureView);
            format = Texture_GetFormat (GetTexture textureView);
            glAttachment =
              (if TextureFormatHasDepth env format then
                 (if TextureFormatHasStencil env format then GL_DEPTH_STENCIL_ATTACHMENT
                  else GL_DEPTH_ATTACHMENT)
               else GL_STENCIL_ATTACHMENT)
        in if format = D32FloatS8Uint
           then Inr [glFramebufferTexture2D GL_DRAW_FRAMEBUFFER glAttachment GL_TEXTURE_2D
                       texture 0]
           else Inl AssertionFailed
      else Inr [])"

text \<open>"Clear framebuffer attachments as needed": the load operations of the subpass.\<close>

definition BeginRenderSubpass_colorLoadOps ::
    "Environment \<Rightarrow> RenderPassGL \<Rightarrow> FramebufferGL \<Rightarrow> u32 \<Rightarrow> SubpassInfo \<Rightarrow> GLCall list" where
  "BeginRenderSubpass_colorLoadOps env renderPass framebuffer currentSubpass' subpass =
     concat (map (\<lambda>location.
        let attachmentSlot = colorAttachments subpass location;
            attachmentInfo = GetAttachmentInfo renderPass attachmentSlot
        in if firstSubpass attachmentInfo = currentSubpass' then
             (if colorLoadOp attachmentInfo = LoadOp_Clear
              then [glClearBufferfv GL_COLOR location (GetClearColor framebuffer location)]
              else [])
           else [])
       (IterateBitSet (kMaxColorAttachments env) (colorAttachmentsSet subpass)))"

definition BeginRenderSubpass_depthStencilLoadOps ::
    "Environment \<Rightarrow> RenderPassGL \<Rightarrow> FramebufferGL \<Rightarrow> u32 \<Rightarrow> SubpassInfo \<Rightarrow> GLCall list" where
  "BeginRenderSubpass_depthStencilLoadOps env renderPass framebuffer currentSubpass' subpass =
     (if depthStencilAttachmentSet subpass then
        let attachmentSlot = depthStencilAttachment subpass;
            attachmentInfo = GetAttachmentInfo renderPass attachmentSlot
        in if firstSubpass attachmentInfo = currentSubpass' then
             let clear = GetClearDepthStencil framebuffer (depthStencilAttachment subpass);
                 doDepthClear = (TextureFormatHasDepth env (attachment_format attachmentInfo)
                                 \<and> depthLoadOp attachmentInfo = LoadOp_Clear);
                 doStencilClear = (TextureFormatHasStencil env (attachment_format attachmentInfo)
                                   \<and> stencilLoadOp attachmentInfo = LoadOp_Clear)
             in if doDepthClear \<and> doStencilClear
                then [glClearBufferfi GL_DEPTH_STENCIL 0 (depth clear) (stencil clear)]
                else if doDepthClear then [glClearBufferfv GL_DEPTH 0 [depth clear]]
                else if doStencilClear then [glClearBufferiv GL_STENCIL 0 [stencil clear]]
                else []
           else []
      else [])"

definition Execute_BeginRenderSubpass ::
    "Environment \<Rightarrow> ExecuteState \<Rightarrow> error + (ExecuteState \<times> GLCall list)" where
  "Execute_BeginRenderSubpass env s =
     (let s = s\<lparr> pushConstants := PushConstantTracker_OnBeginPass (pushConstants s),
                 inputBuffers := InputBufferTracker_OnBeginPass (inputBuffers s) \<rparr>;
          fbo = genFramebuffer env (generated s);
          s = s\<lparr> currentFBO := fbo, generated := generated s + 1 \<rparr>;
          calls = [glBindFramebuffer GL_READ_FRAMEBUFFER 0, glGenFramebuffers fbo,
                   glBindFramebuffer GL_DRAW_FRAMEBUFFER fbo]
      in case (currentRenderPass s, currentFramebuffer s) of
           (Some renderPass, Some framebuffer) \<Rightarrow>
             let subpass = GetSubpassInfo renderPass (currentSubpass s)
             in (case BeginRenderSubpass_attachColor env framebuffer subpass of
                   Inl e \<Rightarrow> Inl e
                 | Inr (attachCalls, drawBuffers, attachmentCount) \<Rightarrow>
                     (case BeginRenderSubpass_attachDepthStencil env framebuffer subpass of
                        Inl e \<Rightarrow> Inl e
                      | Inr depthStencilCalls \<Rightarrow>
                          Inr (s, calls @ attachCalls
                                  @ [glDrawBuffers attachmentCount
                                       (map drawBuffers [0..<attachmentCount])]
                                  @ depthStencilCalls
                                  @ BeginRenderSubpass_colorLoadOps env renderPass framebuffer
                                      (currentSubpass s) subpass
                                  @ BeginRenderSubpass_depthStencilLoadOps env renderPass
                                      framebuffer (currentSubpass s) subpass
                                  @ [glBlendColor 0 0 0 0,
                                     glViewport 0 0 (GetWidth framebuffer)
                                       (GetHeight framebuffer)])))
         | _ \<Rightarrow> Inl NullDereference)"

text \<open>
  The copies. A division by a pixel size of zero has no defined result; the helper that
  gives the size is a parameter, so the case is a failure of its own.
\<close>

definition Execute_CopyBufferToBuffer ::
    "BufferCopyLocation \<Rightarrow> BufferCopyLocation \<Rightarrow> u32 \<Rightarrow> GLCall list" where
  "Execute_CopyBufferToBuffer src dst size' =
     [glBindBuffer GL_PIXEL_PACK_BUFFER (Buffer_GetHandle (copy_buffer src)),
      glBindBuffer GL_PIXEL_UNPACK_BUFFER (Buffer_GetHandle (copy_buffer dst)),
      glCopyBufferSubData GL_PIXEL_PACK_BUFFER GL_PIXEL_UNPACK_BUFFER (copy_offset src)
        (copy_offset dst) size',
      glBindBuffer GL_PIXEL_PACK_BUFFER 0,
      glBindBuffer GL_PIXEL_UNPACK_BUFFER 0]"

definition Execute_CopyBufferToTexture ::
    "Environment \<Rightarrow> BufferCopyLocation \<Rightarrow> TextureCopyLocation \<Rightarrow> u32 \<Rightarrow> error + GLCall list" where
  "Execute_CopyBufferToTexture env src dst rowPitch =
     (let buffer' = copy_buffer src;
          texture = copy_texture dst;
          target = GetGLTarget texture
      in if GetDimension texture \<noteq> e2D then Inl AssertionFailed
         else if TextureFormatPixelSize env (Texture_GetFormat texture) = 0 then Inl DivisionByZero
         else Inr
           [glBindBuffer GL_PIXEL_UNPACK_BUFFER (Buffer_GetHandle buffer'),
            glActiveTexture (GL_TEXTURE0_plus 0),
            glBindTexture target (Texture_GetHandle texture),
            glPixelStorei GL_UNPACK_ROW_LENGTH
              (rowPitch div TextureFormatPixelSize env (Texture_GetFormat texture)),
            glTexSubImage2D target (copy_level dst) (copy_x dst) (copy_y dst) (copy_width dst)
              (copy_height dst) (GetGLFormat_format texture) (GetGLFormat_type texture)
              (copy_offset src),
            glPixelStorei GL_UNPACK_ROW_LENGTH 0,
            glBindBuffer GL_PIXEL_UNPACK_BUFFER 0])"

definition Execute_CopyTextureToBuffer ::
    "Environment \<Rightarrow> ExecuteState \<Rightarrow> TextureCopyLocation \<Rightarrow> BufferCopyLocation \<Rightarrow> u32
       \<Rightarrow> error + (ExecuteState \<times> GLCall list)" where
  "Execute_CopyTextureToBuffer env s src dst rowPitch =
     (let texture = copy_texture src;
          buffer' = copy_buffer dst;
          readFBO = genFramebuffer env (generated s)
      in if GetDimension texture \<noteq> e2D then Inl AssertionFailed
         else if TextureFormatPixelSize env (Texture_GetFormat texture) = 0 then Inl DivisionByZero
         else if \<not> (copy_depth src = 1 \<and> copy_z src = 0) then Inl AssertionFailed
         else Inr (s\<lparr> generated := generated s + 1 \<rparr>,
           [glBindTexture GL_TEXTURE_2D (Texture_GetHandle texture),
            glGenFramebuffers readFBO,
            glBindFramebuffer GL_READ_FRAMEBUFFER readFBO,
            glFramebufferTexture2D GL_READ_FRAMEBUFFER (GL_COLOR_ATTACHMENT0_plus 0) GL_TEXTURE_2D
              (Texture_GetHandle texture) (copy_level src),
            glBindBuffer GL_PIXEL_PACK_BUFFER (Buffer_GetHandle buffer'),
            glPixelStorei GL_PACK_ROW_LENGTH
              (rowPitch div TextureFormatPixelSize env (Texture_GetFormat texture)),
            glReadPixels (copy_x src) (copy_y src) (copy_width src) (copy_height src)
              (GetGLFormat_format texture) (GetGLFormat_type texture) (copy_offset dst),
            glPixelStorei GL_PACK_ROW_LENGTH 0,
            glBindBuffer GL_PIXEL_PACK_BUFFER 0,
            glDeleteFramebuffers readFBO]))"

text \<open>\<open>Dispatch\<close>: the push constants are applied, then the dispatch and the barrier.\<close>

definition Execute_Dispatch ::
    "Environment \<Rightarrow> ExecuteState \<Rightarrow> u32 \<Rightarrow> u32 \<Rightarrow> u32 \<Rightarrow> error + (ExecuteState \<times> GLCall list)" where
  "Execute_Dispatch env s x y z =
     (case lastPipeline s of
        None \<Rightarrow> Inl NullDereference
      | Some lastPipeline' \<Rightarrow>
          let (tracker, calls) =
                PushConstantTracker_Apply env lastPipeline' lastPipeline' (pushConstants s)
          in Inr (s\<lparr> pushConstants := tracker \<rparr>,
                  calls @ [glDispatchCompute x y z, glMemoryBarrier GL_ALL_BARRIER_BITS]))"

text \<open>
  The two draws start alike: both trackers are applied, and the render pipeline is read.
\<close>

definition Execute_ApplyForDraw ::
    "Environment \<Rightarrow> ExecuteState
       \<Rightarrow> error + (ExecuteState \<times> GLCall list \<times> RenderPipelineGL)" where
  "Execute_ApplyForDraw env s =
     (case lastPipeline s of
        None \<Rightarrow> Inl NullDereference
      | Some lastPipeline' \<Rightarrow>
          let (tracker, calls) =
                PushConstantTracker_Apply env lastPipeline' lastPipeline' (pushConstants s)
          in case InputBufferTracker_Apply env (inputBuffers s) of
               Inl e \<Rightarrow> Inl e
             | Inr (inputs, inputCalls) \<Rightarrow>
                 (case lastRenderPipeline s of
                    None \<Rightarrow> Inl NullDereference
                  | Some lastRenderPipeline' \<Rightarrow>
                      Inr (s\<lparr> pushConstants := tracker, inputBuffers := inputs \<rparr>,
                           calls @ inputCalls, lastRenderPipeline')))"

definition Execute_DrawArrays ::
    "Environment \<Rightarrow> ExecuteState \<Rightarrow> u32 \<Rightarrow> u32 \<Rightarrow> u32 \<Rightarrow> u32
       \<Rightarrow> error + (ExecuteState \<times> GLCall list)" where
  "Execute_DrawArrays env s vertexCount instanceCount firstVertex firstInstance =
     (case Execute_ApplyForDraw env s of
        Inl e \<Rightarrow> Inl e
      | Inr (s, calls, lastRenderPipeline') \<Rightarrow>
          Inr (s, calls @
            (if 0 < firstInstance
             then [glDrawArraysInstancedBaseInstance (GetGLPrimitiveTopology lastRenderPipeline')
                     firstVertex vertexCount instanceCount firstInstance]
             else [glDrawArraysInstanced (GetGLPrimitiveTopology lastRenderPipeline')
                     firstVertex vertexCount instanceCount])))"

definition Execute_DrawElements ::
    "Environment \<Rightarrow> ExecuteState \<Rightarrow> u32 \<Rightarrow> u32 \<Rightarrow> u32 \<Rightarrow> u32
       \<Rightarrow> error + (ExecuteState \<times> GLCall list)" where
  "Execute_DrawElements env s indexCount instanceCount firstIndex firstInstance =
     (case Execute_ApplyForDraw env s of
        Inl e \<Rightarrow> Inl e
      | Inr (s, calls, lastRenderPipeline') \<Rightarrow>
          let indexFormat = GetIndexFormat lastRenderPipeline';
              formatSize = IndexFormatSize env indexFormat
          in case IndexFormatType indexFormat of
               Inl e \<Rightarrow> Inl e
             | Inr formatType \<Rightarrow>
                 Inr (s, calls @
                   (if 0 < firstInstance
                    then [glDrawElementsInstancedBaseInstance
                            (GetGLPrimitiveTopology lastRenderPipeline') indexCount formatType
                            (ucast firstIndex * formatSize + ucast (indexBufferOffset s))
                            instanceCount firstInstance]
                    else [glDrawElementsInstanced
                            (GetGLPrimitiveTopology lastRenderPipeline') indexCount formatType
                            (ucast firstIndex * formatSize + ucast (indexBufferOffset s))
                            instanceCount])))"

text \<open>\<open>SetBindGroup\<close>: the calls for one binding of the group.\<close>

definition Execute_SetBinding ::
    "PipelineGL \<Rightarrow> nat \<Rightarrow> BindGroupGL \<Rightarrow> nat \<Rightarrow> GLCall list" where
  "Execute_SetBinding lastPipeline' groupIndex group' binding =
     (let indices = GetBindingIndexInfo lastPipeline' groupIndex
      in case layout_types group' binding of
           BindingType_UniformBuffer \<Rightarrow>
             let view = GetBindingAsBufferView group' binding;
                 buffer' = Buffer_GetHandle (GetBuffer view);
                 uboIndex = indices binding
             in [glBindBufferRange GL_UNIFORM_BUFFER uboIndex buffer' (BufferView_GetOffset view)
                   (BufferView_GetSize view)]
         | BindingType_Sampler \<Rightarrow>
             let sampler = Sampler_GetHandle (GetBindingAsSampler group' binding);
                 samplerIndex = indices binding
             in map (\<lambda>unit. glBindSampler unit sampler)
                  (GetTextureUnitsForSampler lastPipeline' samplerIndex)
         | BindingType_SampledTexture \<Rightarrow>
             let view = GetBindingAsTextureView group' binding;
                 texture = GetTexture view;
                 handle = Texture_GetHandle texture;
                 target = GetGLTarget texture;
                 textureIndex = indices binding
             in concat (map (\<lambda>unit. [glActiveTexture (GL_TEXTURE0_plus (unat unit)),
                                       glBindTexture target handle])
                  (GetTextureUnitsForTexture lastPipeline' textureIndex))
         | BindingType_StorageBuffer \<Rightarrow>
             let view = GetBindingAsBufferView group' binding;
                 buffer' = Buffer_GetHandle (GetBuffer view);
                 ssboIndex = indices binding
             in [glBindBufferRange GL_SHADER_STORAGE_BUFFER ssboIndex buffer'
                   (BufferView_GetOffset view) (BufferView_GetSize view)])"

definition Execute_SetBindGroup ::
    "Environment \<Rightarrow> ExecuteState \<Rightarrow> nat \<Rightarrow> BindGroupGL \<Rightarrow> error + GLCall list" where
  "Execute_SetBindGroup env s groupIndex group' =
     (case lastPipeline s of
        None \<Rightarrow> Inl NullDereference
      | Some lastPipeline' \<Rightarrow>
          Inr (concat (map (Execute_SetBinding lastPipeline' groupIndex group')
                 (IterateBitSet (kMaxBindingsPerGroup env) (layout_mask group')))))"

text \<open>
  One turn of the loop of \<open>Execute\<close>: the command is read and carried out. The result is
  the new state and the calls made, or what stopped the program.
\<close>

fun Execute_command ::
    "Environment \<Rightarrow> ExecuteState \<Rightarrow> Command \<Rightarrow> error + (ExecuteState \<times> GLCall list)" where
  "Execute_command env s BeginComputePass =
     Inr (s\<lparr> pushConstants := PushConstantTracker_OnBeginPass (pushConstants s) \<rparr>, [])"
| "Execute_command env s (BeginRenderPass renderPass framebuffer) =
     Inr (s\<lparr> currentRenderPass := Some renderPass, currentFramebuffer := Some framebuffer,
             currentSubpass := 0 \<rparr>, [])"
| "Execute_command env s BeginRenderSubpass = Execute_BeginRenderSubpass env s"
| "Execute_command env s (CopyBufferToBuffer src dst size') =
     Inr (s, Execute_CopyBufferToBuffer src dst size')"
| "Execute_command env s (CopyBufferToTexture src dst rowPitch) =
     (case Execute_CopyBufferToTexture env src dst rowPitch of
        Inl e \<Rightarrow> Inl e
      | Inr calls \<Rightarrow> Inr (s, calls))"
| "Execute_command env s (CopyTextureToBuffer src dst rowPitch) =
     Execute_CopyTextureToBuffer env s src dst rowPitch"
| "Execute_command env s (Dispatch x y z) = Execute_Dispatch env s x y z"
| "Execute_command env s (DrawArrays vertexCount instanceCount firstVertex firstInstance) =
     Execute_DrawArrays env s vertexCount instanceCount firstVertex firstInstance"
| "Execute_command env s (DrawElements indexCount instanceCount firstIndex firstInstance) =
     Execute_DrawElements env s indexCount instanceCount firstIndex firstInstance"
| "Execute_command env s EndComputePass = Inr (s, [])"
| "Execute_command env s EndRenderPass = Inr (s, [])"
| "Execute_command env s EndRenderSubpass =
     Inr (s\<lparr> currentFBO := 0, currentSubpass := currentSubpass s + 1 \<rparr>,
          [glDeleteFramebuffers (currentFBO s)])"
| "Execute_command env s (SetComputePipeline pipeline') =
     Inr (s\<lparr> lastPipeline := Some pipeline',
             pushConstants := PushConstantTracker_OnSetPipeline pipeline' (pushConstants s) \<rparr>,
          [ComputePipeline_ApplyNow (Pipeline_address pipeline')])"
| "Execute_command env s (SetRenderPipeline pipeline') =
     Inr (s\<lparr> lastRenderPipeline := Some pipeline',
             lastPipeline := Some (pipeline pipeline'),
             pushConstants :=
               PushConstantTracker_OnSetPipeline (pipeline pipeline') (pushConstants s),
             inputBuffers := InputBufferTracker_OnSetPipeline pipeline' (inputBuffers s) \<rparr>,
          [RenderPipeline_ApplyNow (Pipeline_address (pipeline pipeline'))])"
| "Execute_command env s (SetPushConstants stages offset data') =
     (case PushConstantTracker_OnSetPushConstants env stages (length data') offset data'
             (pushConstants s) of
        Inl e \<Rightarrow> Inl e
      | Inr tracker \<Rightarrow> Inr (s\<lparr> pushConstants := tracker \<rparr>, []))"
| "Execute_command env s (SetStencilReference reference) =
     Inr (s, [PersistentPipelineState_SetStencilReference reference])"
| "Execute_command env s (SetBlendColor r g b a) = Inr (s, [glBlendColor r g b a])"
| "Execute_command env s (SetBindGroup index group') =
     (case Execute_SetBindGroup env s index group' of
        Inl e \<Rightarrow> Inl e
      | Inr calls \<Rightarrow> Inr (s, calls))"
| "Execute_command env s (SetIndexBuffer buffer' offset) =
     Inr (s\<lparr> indexBufferOffset := offset,
             inputBuffers := InputBufferTracker_OnSetIndexBuffer buffer' (inputBuffers s) \<rparr>, [])"
| "Execute_command env s (SetVertexBuffers startSlot buffers offsets) =
     (case InputBufferTracker_OnSetVertexBuffers env startSlot (length buffers) buffers offsets
             (inputBuffers s) of
        Inl e \<Rightarrow> Inl e
      | Inr inputs \<Rightarrow> Inr (s\<lparr> inputBuffers := inputs \<rparr>, []))"
| "Execute_command env s (TransitionBufferUsage buffer' usage) =
     Inr (s, [Buffer_UpdateUsageInternal (Buffer_address buffer') usage])"
| "Execute_command env s (TransitionTextureUsage texture usage) =
     Inr (s, [Texture_UpdateUsageInternal (Texture_address texture) usage])"

text \<open>
  The loop of \<open>Execute\<close>. It returns, for each command carried out, the calls the command
  made, in order; the state it ends in; and what stopped it, if it did not reach the end of
  the stream. The calls of a command that stops the program are not kept.
\<close>

fun Execute_loop ::
    "Environment \<Rightarrow> ExecuteState \<Rightarrow> Command list
       \<Rightarrow> GLCall list list \<times> ExecuteState \<times> error option" where
  "Execute_loop env s [] = ([], s, None)"
| "Execute_loop env s (command # commands) =
     (case Execute_command env s command of
        Inl e \<Rightarrow> ([], s, Some e)
      | Inr (s', calls) \<Rightarrow>
          (let (later, s'', stopped) = Execute_loop env s' commands
           in (calls # later, s'', stopped)))"

text \<open>
  \<open>Execute\<close>: the default state is set, the loop runs, and the sampler of unit 0 is
  unbound. The result is the sequence of all calls, and what stopped the program if
  something did.
\<close>

definition Execute :: "Environment \<Rightarrow> Command list \<Rightarrow> GLCall list \<times> error option" where
  "Execute env commands =
     (let (calls, s, stopped) = Execute_loop env (ExecuteState_new env) commands
      in ([PersistentPipelineState_SetDefaultState] @ concat calls
            @ (if stopped = None then [glBindSampler 0 0] else []),
          stopped))"

section \<open>OpenGL command buffer: reading the calls\<close>

text \<open>The buffers bound to \<open>GL_ARRAY_BUFFER\<close> by a sequence of calls, in order.\<close>

definition arrayBufferBinds :: "GLCall list \<Rightarrow> GLuint list" where
  "arrayBufferBinds calls =
     concat (map (\<lambda>call. case call of
                     glBindBuffer target buffer' \<Rightarrow>
                       if target = GL_ARRAY_BUFFER then [buffer'] else []
                   | _ \<Rightarrow> []) calls)"

definition isDispatchCall :: "GLCall \<Rightarrow> bool" where
  "isDispatchCall call = (case call of glDispatchCompute x y z \<Rightarrow> True | _ \<Rightarrow> False)"

definition isDispatchCommand :: "Command \<Rightarrow> bool" where
  "isDispatchCommand command = (case command of Dispatch x y z \<Rightarrow> True | _ \<Rightarrow> False)"

definition isClearCall :: "GLCall \<Rightarrow> bool" where
  "isClearCall call =
     (case call of
        glClearBufferfv buffer' drawbuffer values \<Rightarrow> True
      | glClearBufferfi buffer' drawbuffer depth' stencil' \<Rightarrow> True
      | glClearBufferiv buffer' drawbuffer values \<Rightarrow> True
      | _ \<Rightarrow> False)"

text \<open>A call is plain when it is neither a dispatch nor a clear.\<close>

definition plainCall :: "GLCall \<Rightarrow> bool" where
  "plainCall call = (\<not> isDispatchCall call \<and> \<not> isClearCall call)"

text \<open>
  The uniform writes of \<open>PushConstantTracker::Apply\<close> for one stage: one call for each
  constant that is both dirty and in the mask of the pipeline, as the iteration visits them.
\<close>

definition PushConstant_writes ::
    "Environment \<Rightarrow> PipelineGL \<Rightarrow> PipelineGL \<Rightarrow> PushConstantTracker \<Rightarrow> ShaderStage
       \<Rightarrow> GLCall list" where
  "PushConstant_writes env pipeline' glPipeline t stage =
     map (PushConstantTracker_ApplyConstant pipeline' glPipeline t stage)
       (IterateBitSet (kMaxPushConstants env)
          (mDirtyBits t stage AND mask (GetPushConstants pipeline' stage)))"

text \<open>
  A sequence of calls is fenced when each \<open>glDispatchCompute\<close> in it is followed at once by
  \<open>glMemoryBarrier(GL_ALL_BARRIER_BITS)\<close>.
\<close>

fun fenced :: "GLCall list \<Rightarrow> bool" where
  "fenced [] = True"
| "fenced (call # calls) =
     ((if isDispatchCall call then take 1 calls = [glMemoryBarrier GL_ALL_BARRIER_BITS] else True)
      \<and> fenced calls)"

text \<open>
  The clears of a subpass, read from the calls made while its framebuffer is bound:
  \<open>glClearBufferfv(GL_COLOR, location, ...)\<close> clears the color attachment that the subpass
  has at the location; a clear of \<open>GL_DEPTH_STENCIL\<close>, \<open>GL_DEPTH\<close> or \<open>GL_STENCIL\<close> acts on
  its depth/stencil attachment.
\<close>

definition colorClearsOf :: "Environment \<Rightarrow> u32 \<Rightarrow> SubpassInfo \<Rightarrow> GLCall list \<Rightarrow> nat" where
  "colorClearsOf env attachmentSlot subpass calls =
     length (filter (\<lambda>call. case call of
        glClearBufferfv buffer' location values \<Rightarrow>
          buffer' = GL_COLOR \<and> location < kMaxColorAttachments env
          \<and> bit (colorAttachmentsSet subpass) location
          \<and> colorAttachments subpass location = attachmentSlot
      | _ \<Rightarrow> False) calls)"

definition depthClearsOf :: "u32 \<Rightarrow> SubpassInfo \<Rightarrow> GLCall list \<Rightarrow> nat" where
  "depthClearsOf attachmentSlot subpass calls =
     (if depthStencilAttachmentSet subpass \<and> depthStencilAttachment subpass = attachmentSlot
      then length (filter (\<lambda>call. case call of
             glClearBufferfi buffer' drawbuffer depth' stencil' \<Rightarrow> buffer' = GL_DEPTH_STENCIL
           | glClearBufferfv buffer' drawbuffer values \<Rightarrow> buffer' = GL_DEPTH
           | _ \<Rightarrow> False) calls)
      else 0)"

definition stencilClearsOf :: "u32 \<Rightarrow> SubpassInfo \<Rightarrow> GLCall list \<Rightarrow> nat" where
  "stencilClearsOf attachmentSlot subpass calls =
     (if depthStencilAttachmentSet subpass \<and> depthStencilAttachment subpass = attachmentSlot
      then length (filter (\<lambda>call. case call of
             glClearBufferfi buffer' drawbuffer depth' stencil' \<Rightarrow> buffer' = GL_DEPTH_STENCIL
           | glClearBufferiv buffer' drawbuffer values \<Rightarrow> buffer' = GL_STENCIL
           | _ \<Rightarrow> False) calls)
      else 0)"

text \<open>The number of locations at which a subpass has the attachment as a color attachment.\<close>

definition colorReferences :: "Environment \<Rightarrow> u32 \<Rightarrow> SubpassInfo \<Rightarrow> nat" where
  "colorReferences env attachmentSlot subpass =
     length (filter (\<lambda>location. colorAttachments subpass location = attachmentSlot)
               (IterateBitSet (kMaxColorAttachments env) (colorAttachmentsSet subpass)))"

text \<open>
  The commands of one render pass: the pass begins, each subpass begins, runs its body and
  ends, the pass ends. A command inside a subpass is none of these four.
\<close>

definition renderPassStream ::
    "RenderPassGL \<Rightarrow> FramebufferGL \<Rightarrow> Command list list \<Rightarrow> Command list" where
  "renderPassStream renderPass framebuffer bodies =
     BeginRenderPass renderPass framebuffer
     # concat (map (\<lambda>body. BeginRenderSubpass # body @ [EndRenderSubpass]) bodies)
     @ [EndRenderPass]"

definition insideSubpass :: "Command \<Rightarrow> bool" where
  "insideSubpass command =
     (case command of
        BeginRenderPass renderPass framebuffer \<Rightarrow> False
      | BeginRenderSubpass \<Rightarrow> False
      | EndRenderSubpass \<Rightarrow> False
      | EndRenderPass \<Rightarrow> False
      | _ \<Rightarrow> True)"

text \<open>
  The clears of a pass, subpass by subpass: for each \<open>BeginRenderSubpass\<close> among the
  commands, in order, what \<open>count\<close> reads in the calls of that command, given the subpass
  it begins (the subpass index starts at the given one and grows at each
  \<open>EndRenderSubpass\<close>). The commands and their calls are walked together.
\<close>

fun clearsBySubpass ::
    "(SubpassInfo \<Rightarrow> GLCall list \<Rightarrow> nat) \<Rightarrow> RenderPassGL \<Rightarrow> u32 \<Rightarrow> Command list
       \<Rightarrow> GLCall list list \<Rightarrow> nat list" where
  "clearsBySubpass count renderPass i (command # commands) (calls # groups) =
     (case command of
        BeginRenderSubpass \<Rightarrow>
          count (GetSubpassInfo renderPass i) calls
          # clearsBySubpass count renderPass i commands groups
      | EndRenderSubpass \<Rightarrow> clearsBySubpass count renderPass (i + 1) commands groups
      | _ \<Rightarrow> clearsBySubpass count renderPass i commands groups)"
| "clearsBySubpass count renderPass i commands groups = []"

text \<open>
  The subpass index at each \<open>BeginRenderSubpass\<close> of a command list, in order, the index
  starting at the given one and growing at each \<open>EndRenderSubpass\<close>.
\<close>

fun subpassesBegun :: "u32 \<Rightarrow> Command list \<Rightarrow> u32 list" where
  "subpassesBegun i [] = []"
| "subpassesBegun i (command # commands) =
     (case command of
        BeginRenderSubpass \<Rightarrow> i # subpassesBegun i commands
      | EndRenderSubpass \<Rightarrow> subpassesBegun (i + 1) commands
      | _ \<Rightarrow> subpassesBegun i commands)"

text \<open>The number of clear calls made by the commands other than \<open>BeginRenderSubpass\<close>.\<close>

fun clearsElsewhere :: "Command list \<Rightarrow> GLCall list list \<Rightarrow> nat" where
  "clearsElsewhere (command # commands) (calls # groups) =
     (case command of
        BeginRenderSubpass \<Rightarrow> clearsElsewhere commands groups
      | _ \<Rightarrow> length (filter isClearCall calls) + clearsElsewhere commands groups)"
| "clearsElsewhere commands groups = 0"

section \<open>OpenGL command buffer: objects and scenarios to evaluate\<close>

text \<open>
  An environment with the sizes of common/Constants.h at 32, 16, 16, 4 and 16.
\<close>

definition env0 :: Environment where
  "env0 =
     \<lparr> kMaxPushConstants = 32, kMaxVertexInputs = 16, kMaxVertexAttributes = 16,
       kMaxColorAttachments = 4, kMaxBindingsPerGroup = 16,
       VertexFormatNumComponents = (\<lambda>format. case format of
          FloatR32G32B32A32 \<Rightarrow> 4 | FloatR32G32B32 \<Rightarrow> 3 | FloatR32G32 \<Rightarrow> 2 | FloatR32 \<Rightarrow> 1
        | VertexFormat_other n \<Rightarrow> 0),
       IndexFormatSize = (\<lambda>format. case format of
          IndexFormat_Uint16 \<Rightarrow> 2 | IndexFormat_Uint32 \<Rightarrow> 4 | IndexFormat_other n \<Rightarrow> 0),
       TextureFormatHasDepth = (\<lambda>format. format = D32FloatS8Uint),
       TextureFormatHasStencil = (\<lambda>format. format = D32FloatS8Uint),
       TextureFormatPixelSize = (\<lambda>format. case format of
          R8G8B8A8Unorm \<Rightarrow> 4 | D32FloatS8Uint \<Rightarrow> 8 | TextureFormat_other n \<Rightarrow> 4),
       genFramebuffer = (\<lambda>n. of_nat n + 1),
       uninitialisedValues = (\<lambda>stage i. 0xDEADBEEF) \<rparr>"

text \<open>
  An input state at the given address whose live slots are those of the mask; the slot
  \<open>i\<close> is read by the attribute \<open>i\<close> alone.
\<close>

definition inputStateOf :: "nat \<Rightarrow> bitset \<Rightarrow> InputStateGL" where
  "inputStateOf address live =
     \<lparr> InputState_address = address, GetInputsSetMask = live,
       GetAttributesUsingInput = (\<lambda>slot. if bit live slot then push_bit slot 1 else 0),
       GetAttribute = (\<lambda>location. \<lparr> attribute_format = FloatR32G32B32A32, attribute_offset = 0 \<rparr>),
       GetInput = (\<lambda>slot. \<lparr> stride = 16 \<rparr>) \<rparr>"

text \<open>
  Push constants consumed by the vertex stage alone: those of the mask. The constant 0 is
  an integer, the constant 1 a float, the others unsigned integers.
\<close>

definition pushConstantsOf :: "bitset \<Rightarrow> ShaderStage \<Rightarrow> PushConstantInfo" where
  "pushConstantsOf consumed stage =
     \<lparr> mask = (if stage = ShaderStage_Vertex then consumed else 0),
       types = (\<lambda>constant. if constant = 0 then PushConstantType_Int
                          else if constant = 1 then PushConstantType_Float
                          else PushConstantType_UInt) \<rparr>"

text \<open>
  A pipeline at the given address whose vertex stage consumes the push constants of the
  mask; the constant \<open>i\<close> is the uniform at location \<open>10 + i\<close>.
\<close>

definition pipelineOf :: "nat \<Rightarrow> bitset \<Rightarrow> PipelineGL" where
  "pipelineOf address consumed =
     \<lparr> Pipeline_address = address,
       GetPushConstants = pushConstantsOf consumed,
       GetGLPushConstants = (\<lambda>stage constant. of_nat constant + 10),
       GetBindingIndexInfo = (\<lambda>groupIndex binding. 0),
       GetTextureUnitsForSampler = (\<lambda>index. []),
       GetTextureUnitsForTexture = (\<lambda>index. []) \<rparr>"

definition renderPipelineOf :: "nat \<Rightarrow> bitset \<Rightarrow> InputStateGL \<Rightarrow> RenderPipelineGL" where
  "renderPipelineOf address consumed inputState =
     \<lparr> pipeline = pipelineOf address consumed, GetInputState = inputState,
       GetGLPrimitiveTopology = GLenum_value 4, GetIndexFormat = IndexFormat_Uint32 \<rparr>"

definition bufferOf :: "nat \<Rightarrow> BufferGL" where
  "bufferOf n = \<lparr> Buffer_address = n, Buffer_GetHandle = of_nat n \<rparr>"

definition and_then :: "error + 'a \<Rightarrow> ('a \<Rightarrow> error + 'b) \<Rightarrow> error + 'b" where
  "and_then r f = (case r of Inl e \<Rightarrow> Inl e | Inr x \<Rightarrow> f x)"

text \<open>
  The scenario of the vertex input tracker: buffers are bound at the slots 0 to 4 and
  flushed under a first layout; then other buffers are bound at the slots 2, 3 and 4. What
  follows is the state of the tracker at that point, before the pipeline is switched.
\<close>

definition vertexInputScenario :: "InputStateGL \<Rightarrow> error + InputBufferTracker" where
  "vertexInputScenario firstLayout =
     and_then (InputBufferTracker_OnSetVertexBuffers env0 0 5
                 [bufferOf 100, bufferOf 101, bufferOf 102, bufferOf 103, bufferOf 104]
                 [0, 0, 0, 0, 0] InputBufferTracker_new) (\<lambda>t.
     and_then (InputBufferTracker_Apply env0
                 (InputBufferTracker_OnSetPipeline (renderPipelineOf 1 0 firstLayout) t))
       (\<lambda>(t, calls).
     InputBufferTracker_OnSetVertexBuffers env0 2 3
       [bufferOf 202, bufferOf 203, bufferOf 204] [0, 0, 0] t))"

text \<open>
  The scenario of the push constant tracker: inside a pass a pipeline is bound whose vertex
  stage consumes the constants of the mask, then the constants 0 and 1 of the vertex stage
  are set to 7 and 9. What follows is the state of the tracker before \<open>Apply\<close>.
\<close>

definition pushConstantScenario :: "bitset \<Rightarrow> error + PushConstantTracker" where
  "pushConstantScenario consumed =
     PushConstantTracker_OnSetPushConstants env0 {ShaderStage_Vertex} 2 0 [7, 9]
       (PushConstantTracker_OnSetPipeline (pipelineOf 1 consumed)
          (PushConstantTracker_OnBeginPass (PushConstantTracker_new env0)))"

text \<open>
  A render pass of two subpasses over three attachments. The attachments 0 and 1 are color
  attachments with load operation Clear, first used in the subpasses 0 and 1; the
  attachment 2 is the depth/stencil attachment of both subpasses, with depth load operation
  Clear. The subpass 0 draws to the attachment 0, the subpass 1 to the attachments 0 and 1.
\<close>

definition renderPass0 :: RenderPassGL where
  "renderPass0 =
     \<lparr> GetSubpassInfo = (\<lambda>i.
          if i = 0
          then \<lparr> colorAttachmentsSet = 1, colorAttachments = (\<lambda>location. 0),
                 depthStencilAttachmentSet = True, depthStencilAttachment = 2 \<rparr>
          else \<lparr> colorAttachmentsSet = 3, colorAttachments = (\<lambda>location. of_nat location),
                 depthStencilAttachmentSet = True, depthStencilAttachment = 2 \<rparr>),
       GetAttachmentInfo = (\<lambda>attachmentSlot.
          if attachmentSlot = 2
          then \<lparr> attachment_format = D32FloatS8Uint, colorLoadOp = LoadOp_Load,
                 depthLoadOp = LoadOp_Clear, stencilLoadOp = LoadOp_Load, firstSubpass = 0 \<rparr>
          else \<lparr> attachment_format = R8G8B8A8Unorm, colorLoadOp = LoadOp_Clear,
                 depthLoadOp = LoadOp_Load, stencilLoadOp = LoadOp_Load,
                 firstSubpass = attachmentSlot \<rparr>) \<rparr>"

definition textureOf :: "nat \<Rightarrow> TextureFormat \<Rightarrow> TextureGL" where
  "textureOf n format =
     \<lparr> Texture_address = n, Texture_GetHandle = of_nat n, GetGLTarget = GL_TEXTURE_2D,
       GetGLFormat_format = GLenum_value 0, GetGLFormat_type = GLenum_value 1,
       Texture_GetFormat = format, GetDimension = e2D \<rparr>"

definition framebuffer0 :: FramebufferGL where
  "framebuffer0 =
     \<lparr> GetTextureView = (\<lambda>attachmentSlot.
          \<lparr> GetTexture = textureOf (300 + unat attachmentSlot)
               (if attachmentSlot = 2 then D32FloatS8Uint else R8G8B8A8Unorm) \<rparr>),
       GetClearColor = (\<lambda>location. [0x3F800000, 0, 0, 0x3F800000]),
       GetClearDepthStencil = (\<lambda>attachmentSlot. \<lparr> depth = 0x3F800000, stencil = 0 \<rparr>),
       GetWidth = 640, GetHeight = 480 \<rparr>"

definition renderStream0 :: "Command list" where
  "renderStream0 =
     renderPassStream renderPass0 framebuffer0
       [[SetRenderPipeline (renderPipelineOf 1 0 (inputStateOf 50 0)), DrawArrays 3 1 0 0],
        [SetRenderPipeline (renderPipelineOf 1 0 (inputStateOf 50 0)), DrawArrays 3 1 0 0]]"

text \<open>
  A render pass of two subpasses that both have the attachment 0 at the color locations 0
  and 1, and no depth/stencil attachment. The load operation of the attachment is Clear and
  its first subpass is the subpass 0.
\<close>

definition renderPass1 :: RenderPassGL where
  "renderPass1 =
     \<lparr> GetSubpassInfo = (\<lambda>i.
          \<lparr> colorAttachmentsSet = 3, colorAttachments = (\<lambda>location. 0),
            depthStencilAttachmentSet = False, depthStencilAttachment = 0 \<rparr>),
       GetAttachmentInfo = (\<lambda>attachmentSlot.
          \<lparr> attachment_format = R8G8B8A8Unorm, colorLoadOp = LoadOp_Clear,
            depthLoadOp = LoadOp_Load, stencilLoadOp = LoadOp_Load, firstSubpass = 0 \<rparr>) \<rparr>"

definition renderStream1 :: "Command list" where
  "renderStream1 =
     renderPassStream renderPass1 framebuffer0
       [[SetRenderPipeline (renderPipelineOf 1 0 (inputStateOf 50 0)), DrawArrays 3 1 0 0],
        [SetRenderPipeline (renderPipelineOf 1 0 (inputStateOf 50 0)), DrawArrays 3 1 0 0]]"

text \<open>A compute pass with two dispatches.\<close>

definition computeStream0 :: "Command list" where
  "computeStream0 =
     [BeginComputePass, SetComputePipeline (pipelineOf 3 1),
      SetPushConstants {ShaderStage_Vertex} 0 [5], Dispatch 8 4 1, Dispatch 1 1 1,
      EndComputePass]"

section \<open>Properties of the D3D12 buffer\<close>

lemma and_or_zero_iff:
  "((a OR b) AND m = (0::u32)) = (a AND m = 0 \<and> b AND m = 0)"
  by (simp add: bit.conj_disj_distrib2 or_eq_0_iff)

lemma D3D12BufferUsage_unfold:
  "D3D12BufferUsage h usage =
     D3D12_RESOURCE_STATE_COMMON h
     OR (if usage AND TransferSrc h \<noteq> 0 then D3D12_RESOURCE_STATE_COPY_SOURCE h else 0)
     OR (if usage AND TransferDst h \<noteq> 0 then D3D12_RESOURCE_STATE_COPY_DEST h else 0)
     OR (if usage AND (Vertex h OR Uniform h) \<noteq> 0
         then D3D12_RESOURCE_STATE_VERTEX_AND_CONSTANT_BUFFER h else 0)
     OR (if usage AND Index h \<noteq> 0 then D3D12_RESOURCE_STATE_INDEX_BUFFER h else 0)
     OR (if usage AND Storage h \<noteq> 0 then D3D12_RESOURCE_STATE_UNORDERED_ACCESS h else 0)"
  by (simp add: D3D12BufferUsage_def Let_def or.assoc)

lemma flag_or_distrib:
  "(if (a OR b) AND m \<noteq> (0::u32) then s else 0) =
     (if a AND m \<noteq> 0 then s else 0) OR (if b AND m \<noteq> 0 then (s::u32) else 0)"
  by (simp add: and_or_zero_iff)

lemma mappable_absorb:
  "(m::u32) AND ((m OR t) AND (m OR w)) = m"
  by (rule bit_eqI) (auto simp add: bit_and_iff bit_or_iff)

lemma mappable_absorb':
  "(w::u32) AND ((w OR t) AND (m OR w)) = w"
  by (rule bit_eqI) (auto simp add: bit_and_iff bit_or_iff)

lemma map_read_is_mappable:
  assumes "MapRead h \<noteq> 0"
  shows "(MapRead h OR TransferDst h) AND (MapRead h OR MapWrite h) \<noteq> 0"
proof
  assume z: "(MapRead h OR TransferDst h) AND (MapRead h OR MapWrite h) = 0"
  have "MapRead h = MapRead h AND ((MapRead h OR TransferDst h) AND (MapRead h OR MapWrite h))"
    by (simp only: mappable_absorb)
  also have "\<dots> = 0" by (simp only: z and_zero_eq)
  finally show False using assms by simp
qed

lemma map_write_is_mappable:
  assumes "MapWrite h \<noteq> 0"
  shows "(MapWrite h OR TransferSrc h) AND (MapRead h OR MapWrite h) \<noteq> 0"
proof
  assume z: "(MapWrite h OR TransferSrc h) AND (MapRead h OR MapWrite h) = 0"
  have "MapWrite h = MapWrite h AND ((MapWrite h OR TransferSrc h) AND (MapRead h OR MapWrite h))"
    by (simp only: mappable_absorb')
  also have "\<dots> = 0" by (simp only: z and_zero_eq)
  finally show False using assms by simp
qed

lemma TransitionUsage_allowed:
  "allowedUsage (fst (TransitionUsage h b usage)) = allowedUsage b"
  by (simp add: TransitionUsage_def)

lemma TransitionUsages_mapped:
  "allowedUsage b AND (MapRead h OR MapWrite h) \<noteq> 0 \<Longrightarrow> snd (TransitionUsages h b usages) = []"
proof (induction usages arbitrary: b)
  case Nil
  show ?case by simp
next
  case (Cons usage rest)
  let ?b' = "b\<lparr>currentUsage := usage\<rparr>"
  have "allowedUsage ?b' AND (MapRead h OR MapWrite h) \<noteq> 0"
    using Cons.prems by simp
  then have "snd (TransitionUsages h ?b' rest) = []"
    by (rule Cons.IH)
  moreover have "TransitionUsageImpl h b (currentUsage b) usage = []"
    using Cons.prems by (simp add: TransitionUsageImpl_def GetResourceTransitionBarrier_def)
  ultimately show ?case
    by (simp add: TransitionUsage_def split: prod.splits)
qed

text \<open>
  C6. The usage-to-state table is a homomorphism for union: the native state of the union
  of two usage bitsets is the union of their native states, whatever the values of the
  header constants.
\<close>

theorem D3D12BufferUsage_union:
  "D3D12BufferUsage h (a OR b) = D3D12BufferUsage h a OR D3D12BufferUsage h b"
  unfolding D3D12BufferUsage_unfold flag_or_distrib
  by (rule bit_eqI) (simp only: bit_or_iff, blast)

text \<open>
  C1 (as stated). On a buffer that is not mappable, two consecutive requests to the same
  target usage would record exactly one barrier. They record none when the usage the buffer
  starts in has the native state of the target: a buffer allowed Vertex and Uniform, in
  usage Vertex, asked twice for Uniform (both map to VERTEX_AND_CONSTANT_BUFFER).
\<close>

theorem two_requests_one_barrier_counterexample:
  "allowedUsage \<lparr> allowedUsage = 96, currentUsage = 32, size = 256, mResource = 1 \<rparr>
       AND (MapRead headers0 OR MapWrite headers0) = 0
   \<and> length (snd (TransitionUsages headers0
         \<lparr> allowedUsage = 96, currentUsage = 32, size = 256, mResource = 1 \<rparr>
         [Uniform headers0, Uniform headers0])) \<noteq> 1"
  by (simp add: headers0_def TransitionUsage_def TransitionUsageImpl_def
      GetResourceTransitionBarrier_def D3D12BufferUsage_def)

text \<open>
  C1 (amended). For a buffer that is not mappable, \<open>GetResourceTransitionBarrier\<close> returns
  true exactly when the native states of the current and the target usage differ, and the
  barrier it fills goes from the one to the other. Hence two usage bitsets with the same
  native state produce no barrier, and of two consecutive requests to the same target the
  second never records a barrier: together they record one barrier when the native state
  of the usage the buffer starts in differs from the target's, and none otherwise.
\<close>

theorem GetResourceTransitionBarrier_iff_states_differ:
  assumes "allowedUsage b AND (MapRead h OR MapWrite h) = 0"
  shows "(GetResourceTransitionBarrier h b cur tgt \<noteq> None)
           = (D3D12BufferUsage h cur \<noteq> D3D12BufferUsage h tgt)
       \<and> (\<forall>barrier. GetResourceTransitionBarrier h b cur tgt = Some barrier \<longrightarrow>
             Transition_StateBefore barrier = D3D12BufferUsage h cur
           \<and> Transition_StateAfter barrier = D3D12BufferUsage h tgt
           \<and> Transition_pResource barrier = mResource b)
       \<and> length (TransitionUsageImpl h b cur tgt)
           = (if D3D12BufferUsage h cur = D3D12BufferUsage h tgt then 0 else 1)
       \<and> TransitionUsageImpl h b tgt tgt = []
       \<and> length (snd (TransitionUsages h b [tgt, tgt]))
           = (if D3D12BufferUsage h (currentUsage b) = D3D12BufferUsage h tgt then 0 else 1)"
  using assms
  by (simp add: GetResourceTransitionBarrier_def TransitionUsageImpl_def TransitionUsage_def
      Let_def)

theorem GetResourceTransitionBarrier_iff_states_differ_witness:
  "allowedUsage \<lparr> allowedUsage = 44, currentUsage = 8, size = 256, mResource = 1 \<rparr>
       AND (MapRead headers0 OR MapWrite headers0) = 0
   \<and> GetResourceTransitionBarrier headers0
        \<lparr> allowedUsage = 44, currentUsage = 8, size = 256, mResource = 1 \<rparr> 8 32
      = Some \<lparr> Type = D3D12_RESOURCE_BARRIER_TYPE_TRANSITION,
               BarrierFlags = D3D12_RESOURCE_BARRIER_FLAG_NONE,
               Transition_pResource = 1, Transition_StateBefore = 0x400,
               Transition_StateAfter = 1, Transition_Subresource = 0 \<rparr>
   \<and> D3D12BufferUsage headers0 8 \<noteq> D3D12BufferUsage headers0 32
   \<and> length (snd (TransitionUsages headers0
        \<lparr> allowedUsage = 44, currentUsage = 8, size = 256, mResource = 1 \<rparr> [32, 32])) = 1"
proof -
  let ?b = "\<lparr> allowedUsage = 44, currentUsage = 8, size = 256, mResource = 1 \<rparr>"
  have nm: "allowedUsage ?b AND (MapRead headers0 OR MapWrite headers0) = 0"
    by (simp add: headers0_def)
  have d: "D3D12BufferUsage headers0 8 \<noteq> D3D12BufferUsage headers0 32"
    by (simp add: headers0_def D3D12BufferUsage_def)
  have g: "GetResourceTransitionBarrier headers0 ?b 8 32
      = Some \<lparr> Type = D3D12_RESOURCE_BARRIER_TYPE_TRANSITION,
               BarrierFlags = D3D12_RESOURCE_BARRIER_FLAG_NONE,
               Transition_pResource = 1, Transition_StateBefore = 0x400,
               Transition_StateAfter = 1, Transition_Subresource = 0 \<rparr>"
    by (simp add: headers0_def GetResourceTransitionBarrier_def D3D12BufferUsage_def)
  from GetResourceTransitionBarrier_iff_states_differ [OF nm, of 8 32] d
  have "length (snd (TransitionUsages headers0 ?b [32, 32])) = 1"
    by simp
  with nm d g show ?thesis by simp
qed

text \<open>
  C2. A buffer whose allowed usage is exactly MapRead with TransferDst, or exactly MapWrite
  with TransferSrc, never transitions: whatever the current and target usage,
  \<open>GetResourceTransitionBarrier\<close> returns false and \<open>TransitionUsageImpl\<close> records no
  barrier, and so does any sequence of transition requests. (MapRead and MapWrite are
  enumerators of a bit mask: they are not zero.)
\<close>

theorem mapped_buffer_never_transitions:
  assumes "MapRead h \<noteq> 0" and "MapWrite h \<noteq> 0"
    and "allowedUsage b = MapRead h OR TransferDst h
       \<or> allowedUsage b = MapWrite h OR TransferSrc h"
  shows "GetResourceTransitionBarrier h b cur tgt = None
       \<and> TransitionUsageImpl h b cur tgt = []
       \<and> snd (TransitionUsages h b usages) = []"
proof -
  have m: "allowedUsage b AND (MapRead h OR MapWrite h) \<noteq> 0"
    using assms map_read_is_mappable [of h] map_write_is_mappable [of h] by auto
  then have "GetResourceTransitionBarrier h b cur tgt = None"
    by (simp add: GetResourceTransitionBarrier_def)
  moreover from this have "TransitionUsageImpl h b cur tgt = []"
    by (simp add: TransitionUsageImpl_def)
  moreover have "snd (TransitionUsages h b usages) = []"
    using m by (rule TransitionUsages_mapped)
  ultimately show ?thesis by simp
qed

theorem mapped_buffer_never_transitions_witness:
  "GetResourceTransitionBarrier headers0
      \<lparr> allowedUsage = 9, currentUsage = 8, size = 256, mResource = 1 \<rparr> 8 32 = None
   \<and> TransitionUsageImpl headers0
      \<lparr> allowedUsage = 9, currentUsage = 8, size = 256, mResource = 1 \<rparr> 8 32 = []
   \<and> snd (TransitionUsages headers0
      \<lparr> allowedUsage = 9, currentUsage = 8, size = 256, mResource = 1 \<rparr> [1, 8, 32, 9]) = []
   \<and> GetResourceTransitionBarrier headers0
      \<lparr> allowedUsage = 6, currentUsage = 4, size = 256, mResource = 2 \<rparr> 4 128 = None"
proof -
  have r: "MapRead headers0 \<noteq> 0" and w: "MapWrite headers0 \<noteq> 0"
    by (simp_all add: headers0_def)
  have a: "allowedUsage \<lparr> allowedUsage = 9, currentUsage = 8, size = 256, mResource = 1 \<rparr>
             = MapRead headers0 OR TransferDst headers0
         \<or> allowedUsage \<lparr> allowedUsage = 9, currentUsage = 8, size = 256, mResource = 1 \<rparr>
             = MapWrite headers0 OR TransferSrc headers0"
    by (simp add: headers0_def)
  have b: "allowedUsage \<lparr> allowedUsage = 6, currentUsage = 4, size = 256, mResource = 2 \<rparr>
             = MapRead headers0 OR TransferDst headers0
         \<or> allowedUsage \<lparr> allowedUsage = 6, currentUsage = 4, size = 256, mResource = 2 \<rparr>
             = MapWrite headers0 OR TransferSrc headers0"
    by (simp add: headers0_def)
  show ?thesis
    using mapped_buffer_never_transitions [OF r w a, of 8 32 "[1, 8, 32, 9]"]
      mapped_buffer_never_transitions [OF r w b, of 4 128 "[]"]
    by simp
qed

text \<open>
  C10. The constructor places a buffer whose allowed usage contains MapRead on the READBACK
  heap, with COPY_DEST added to the state of its current usage (also when MapWrite is
  allowed too); otherwise one whose allowed usage contains MapWrite on the UPLOAD heap,
  with GENERIC_READ added; and any other buffer on the DEFAULT heap, in exactly the state
  of its current usage.
\<close>

theorem Buffer_ctor_heap_and_state:
  "(allowedUsage b AND MapRead h \<noteq> 0 \<longrightarrow>
       heapType (Buffer_ctor h b) = D3D12_HEAP_TYPE_READBACK
     \<and> initialUsage (Buffer_ctor h b)
         = D3D12BufferUsage h (currentUsage b) OR D3D12_RESOURCE_STATE_COPY_DEST h
     \<and> initialUsage (Buffer_ctor h b) AND D3D12_RESOURCE_STATE_COPY_DEST h
         = D3D12_RESOURCE_STATE_COPY_DEST h)
   \<and> (allowedUsage b AND MapRead h = 0 \<and> allowedUsage b AND MapWrite h \<noteq> 0 \<longrightarrow>
       heapType (Buffer_ctor h b) = D3D12_HEAP_TYPE_UPLOAD
     \<and> initialUsage (Buffer_ctor h b)
         = D3D12BufferUsage h (currentUsage b) OR D3D12_RESOURCE_STATE_GENERIC_READ h
     \<and> initialUsage (Buffer_ctor h b) AND D3D12_RESOURCE_STATE_GENERIC_READ h
         = D3D12_RESOURCE_STATE_GENERIC_READ h)
   \<and> (allowedUsage b AND MapRead h = 0 \<and> allowedUsage b AND MapWrite h = 0 \<longrightarrow>
       heapType (Buffer_ctor h b) = D3D12_HEAP_TYPE_DEFAULT
     \<and> initialUsage (Buffer_ctor h b) = D3D12BufferUsage h (currentUsage b))"
proof -
  have incl: "\<And>x s. ((x::u32) OR s) AND s = s"
    by (rule bit_eqI) (auto simp add: bit_and_iff bit_or_iff)
  show ?thesis
    by (simp add: Buffer_ctor_def D3D12HeapType_def Let_def incl)
qed

theorem Buffer_ctor_heap_and_state_witness:
  "heapType (Buffer_ctor headers0
       \<lparr> allowedUsage = 11, currentUsage = 8, size = 100, mResource = 1 \<rparr>)
     = D3D12_HEAP_TYPE_READBACK
   \<and> initialUsage (Buffer_ctor headers0
       \<lparr> allowedUsage = 11, currentUsage = 8, size = 100, mResource = 1 \<rparr>) = 0x400
   \<and> heapType (Buffer_ctor headers0
       \<lparr> allowedUsage = 6, currentUsage = 4, size = 100, mResource = 1 \<rparr>)
     = D3D12_HEAP_TYPE_UPLOAD
   \<and> initialUsage (Buffer_ctor headers0
       \<lparr> allowedUsage = 6, currentUsage = 4, size = 100, mResource = 1 \<rparr>) = 0xAC3
   \<and> heapType (Buffer_ctor headers0
       \<lparr> allowedUsage = 44, currentUsage = 32, size = 100, mResource = 1 \<rparr>)
     = D3D12_HEAP_TYPE_DEFAULT
   \<and> initialUsage (Buffer_ctor headers0
       \<lparr> allowedUsage = 44, currentUsage = 32, size = 100, mResource = 1 \<rparr>) = 1"
  using Buffer_ctor_heap_and_state [of "\<lparr> allowedUsage = 11, currentUsage = 8, size = 100, mResource = 1 \<rparr>" headers0]
    Buffer_ctor_heap_and_state [of "\<lparr> allowedUsage = 6, currentUsage = 4, size = 100, mResource = 1 \<rparr>" headers0]
    Buffer_ctor_heap_and_state [of "\<lparr> allowedUsage = 44, currentUsage = 32, size = 100, mResource = 1 \<rparr>" headers0]
  by (simp add: headers0_def D3D12BufferUsage_def)

section \<open>Properties of the map-read request tracker\<close>

lemma run_tracker_items:
  "run_tracker t calls = Inr (t', cbs) \<Longrightarrow>
     (items (mInflightRequests t') = []) =
       (list_all (\<lambda>(r, s). ticked s calls) (items (mInflightRequests t)) \<and> all_ticked calls)"
proof (induction t calls arbitrary: t' cbs rule: run_tracker.induct)
  case (1 t)
  then show ?case by (cases "items (mInflightRequests t)") auto
next
  case (2 t s b m d calls)
  from "2.prems" obtain t1 where t1: "Track s b m d t = Inr t1"
    and run: "run_tracker t1 calls = Inr (t', cbs)"
    by (auto split: sum.splits)
  from t1 have it: "items (mInflightRequests t1)
      = items (mInflightRequests t) @ [(\<lparr> buffer = b, mapSerial = m, data = d \<rparr>, s)]"
    by (auto simp add: Track_def Enqueue_def Let_def split: if_splits sum.splits)
  from "2.IH" [OF t1 run] it show ?case by auto
next
  case (3 t f calls)
  obtain t1 c1 where tk: "Tick f t = (t1, c1)" by (cases "Tick f t")
  with "3.prems" obtain later where run: "run_tracker t1 calls = Inr (t', later)"
    by (auto split: sum.splits prod.splits)
  from tk have it: "items (mInflightRequests t1)
      = filter (\<lambda>(item, s). \<not> s \<le> f) (items (mInflightRequests t))"
    by (auto simp add: Tick_def ClearUpTo_def Let_def)
  have "list_all (\<lambda>(r, s). ticked s calls) (filter (\<lambda>(item, s). \<not> s \<le> f) xs)
      = list_all (\<lambda>(r, s). ticked s (CallTick f # calls)) xs" for xs :: "(Request \<times> Serial) list"
    by (induction xs) auto
  with "3.IH" [OF tk [symmetric] refl run] it show ?case by simp
qed

text \<open>
  C8. Destroying a tracker that still holds requests (enqueued by \<open>Track\<close> and not yet
  cleared by \<open>Tick\<close>) fails the assertion of the destructor, and only then. After any
  sequence of \<open>Track\<close> and \<open>Tick\<close> calls on a new tracker, the assertion holds exactly when
  the serial of every enqueued request has been ticked by a later call; so it never fires
  when every enqueued serial has been ticked.
\<close>

theorem tracker_destructor_asserts_iff_inflight:
  "(MapReadRequestTracker_dtor t = Inl AssertionFailed) = (\<not> Empty (mInflightRequests t))
   \<and> (run_tracker MapReadRequestTracker_ctor calls = Inr (t', callbacks) \<longrightarrow>
        (MapReadRequestTracker_dtor t' = Inr ()) = all_ticked calls)"
  using run_tracker_items [of MapReadRequestTracker_ctor calls t' callbacks]
  by (auto simp add: MapReadRequestTracker_dtor_def Empty_def MapReadRequestTracker_ctor_def
      SerialQueue_new_def)

theorem tracker_destructor_asserts_iff_inflight_witness:
  "run_tracker MapReadRequestTracker_ctor
      [CallTrack 3 10 1 100, CallTrack 3 11 2 200, CallTick 2, CallTrack 5 10 3 300, CallTick 5]
     = Inr (\<lparr> mInflightRequests = \<lparr> items = [], enqueued = [3, 3, 5] \<rparr> \<rparr>,
            [CallMapReadCallback 10 1 NXT_BUFFER_MAP_READ_STATUS_SUCCESS 100,
             CallMapReadCallback 11 2 NXT_BUFFER_MAP_READ_STATUS_SUCCESS 200,
             CallMapReadCallback 10 3 NXT_BUFFER_MAP_READ_STATUS_SUCCESS 300])
   \<and> all_ticked
      [CallTrack 3 10 1 100, CallTrack 3 11 2 200, CallTick 2, CallTrack 5 10 3 300, CallTick 5]
   \<and> MapReadRequestTracker_dtor
        \<lparr> mInflightRequests = \<lparr> items = [], enqueued = [3, 3, 5] \<rparr> \<rparr> = Inr ()
   \<and> run_tracker MapReadRequestTracker_ctor [CallTrack 3 10 1 100, CallTick 2]
     = Inr (\<lparr> mInflightRequests =
               \<lparr> items = [(\<lparr> buffer = 10, mapSerial = 1, data = 100 \<rparr>, 3)],
                 enqueued = [3] \<rparr> \<rparr>, [])
   \<and> MapReadRequestTracker_dtor
        \<lparr> mInflightRequests =
            \<lparr> items = [(\<lparr> buffer = 10, mapSerial = 1, data = 100 \<rparr>, 3)],
              enqueued = [3] \<rparr> \<rparr> = Inl AssertionFailed"
proof -
  let ?calls = "[CallTrack 3 10 1 100, CallTrack 3 11 2 200, CallTick 2, CallTrack 5 10 3 300,
                 CallTick 5]"
  let ?t = "\<lparr> mInflightRequests = \<lparr> items = [], enqueued = [3, 3, 5] \<rparr> \<rparr>"
  let ?u = "\<lparr> mInflightRequests =
               \<lparr> items = [(\<lparr> buffer = 10, mapSerial = 1, data = 100 \<rparr>, 3)],
                 enqueued = [3] \<rparr> \<rparr>"
  have run: "run_tracker MapReadRequestTracker_ctor ?calls
     = Inr (?t, [CallMapReadCallback 10 1 NXT_BUFFER_MAP_READ_STATUS_SUCCESS 100,
                 CallMapReadCallback 11 2 NXT_BUFFER_MAP_READ_STATUS_SUCCESS 200,
                 CallMapReadCallback 10 3 NXT_BUFFER_MAP_READ_STATUS_SUCCESS 300])"
    by (simp add: MapReadRequestTracker_ctor_def SerialQueue_new_def Track_def Enqueue_def
        Tick_def IterateUpTo_def ClearUpTo_def OnMapReadCommandSerialFinished_def)
  have ticked: "all_ticked ?calls" by simp
  have run': "run_tracker MapReadRequestTracker_ctor [CallTrack 3 10 1 100, CallTick 2]
     = Inr (?u, [])"
    by (simp add: MapReadRequestTracker_ctor_def SerialQueue_new_def Track_def Enqueue_def
        Tick_def IterateUpTo_def ClearUpTo_def OnMapReadCommandSerialFinished_def)
  have inflight: "\<not> Empty (mInflightRequests ?u)" by (simp add: Empty_def)
  from tracker_destructor_asserts_iff_inflight [of ?t ?calls ?t] run ticked
  have "MapReadRequestTracker_dtor ?t = Inr ()" by simp
  moreover from tracker_destructor_asserts_iff_inflight [of ?u "[]" ?u] inflight
  have "MapReadRequestTracker_dtor ?u = Inl AssertionFailed" by simp
  ultimately show ?thesis using run ticked run' by simp
qed
section \<open>Properties of the Vulkan information gathering\<close>

lemma GatherGlobalInfo_result:
  "fst (GatherGlobalInfo fn info) = all_succeeded (global_results fn)
   \<and> snd (snd (GatherGlobalInfo fn info)) = global_calls (calls_made (global_results fn))"
proof -
  obtain r1 c1 where a: "EnumerateInstanceLayerProperties_count fn = (r1, c1)"
    by (cases "EnumerateInstanceLayerProperties_count fn")
  obtain r2 w2 where b: "EnumerateInstanceLayerProperties_data fn c1 = (r2, w2)"
    by (cases "EnumerateInstanceLayerProperties_data fn c1")
  obtain r3 c3 where c: "EnumerateInstanceExtensionProperties_count fn = (r3, c3)"
    by (cases "EnumerateInstanceExtensionProperties_count fn")
  obtain r4 w4 where d: "EnumerateInstanceExtensionProperties_data fn c3 = (r4, w4)"
    by (cases "EnumerateInstanceExtensionProperties_data fn c3")
  have g: "global_results fn = (r1, r2, r3, r4)"
    by (simp add: global_results_def a b c d)
  show ?thesis
    unfolding g GatherGlobalInfo_def
    by (simp add: a b c d Let_def count_ok_def all_succeeded_def calls_made_def global_calls_def)
qed

lemma GatherDeviceInfo_result:
  "fst (GatherDeviceInfo fn pd info) = all_succeeded (device_results fn pd)
   \<and> snd (snd (GatherDeviceInfo fn pd info)) = device_calls (calls_made (device_results fn pd))"
proof -
  obtain r1 c1 where a: "EnumerateDeviceLayerProperties_count fn pd = (r1, c1)"
    by (cases "EnumerateDeviceLayerProperties_count fn pd")
  obtain r2 w2 where b: "EnumerateDeviceLayerProperties_data fn pd c1 = (r2, w2)"
    by (cases "EnumerateDeviceLayerProperties_data fn pd c1")
  obtain r3 c3 where c: "EnumerateDeviceExtensionProperties_count fn pd = (r3, c3)"
    by (cases "EnumerateDeviceExtensionProperties_count fn pd")
  obtain r4 w4 where d: "EnumerateDeviceExtensionProperties_data fn pd c3 = (r4, w4)"
    by (cases "EnumerateDeviceExtensionProperties_data fn pd c3")
  have g: "device_results fn pd = (r1, r2, r3, r4)"
    by (simp add: device_results_def a b c d)
  show ?thesis
    unfolding g GatherDeviceInfo_def
    by (simp add: a b c d Let_def count_ok_def all_succeeded_def calls_made_def device_calls_def)
qed


text \<open>
  C9. \<open>GatherGlobalInfo\<close> and \<open>GatherDeviceInfo\<close> return true exactly when each of their four
  enumeration calls succeeded: the count calls with \<open>VK_SUCCESS\<close> or \<open>VK_INCOMPLETE\<close>, the
  data calls with \<open>VK_SUCCESS\<close>. The calls they make are the calls up to and including the
  first one that failed, each made once: a failure ends the function at once, and no call
  is made again.
\<close>

theorem Gather_info_never_swallows_failure:
  "fst (GatherGlobalInfo fn ginfo) = all_succeeded (global_results fn)
   \<and> snd (snd (GatherGlobalInfo fn ginfo)) = global_calls (calls_made (global_results fn))
   \<and> fst (GatherDeviceInfo fn pd dinfo) = all_succeeded (device_results fn pd)
   \<and> snd (snd (GatherDeviceInfo fn pd dinfo))
       = device_calls (calls_made (device_results fn pd))
   \<and> distinct (global_calls (calls_made (global_results fn)))
   \<and> distinct (device_calls (calls_made (device_results fn pd)))"
proof -
  have "distinct (global_calls n)" for n
    unfolding global_calls_def by (rule distinct_take) simp
  moreover have "distinct (device_calls n)" for n
  proof -
    have "set (take n [Call_EnumerateDeviceLayerProperties False,
        Call_EnumerateDeviceLayerProperties True, Call_EnumerateDeviceExtensionProperties False,
        Call_EnumerateDeviceExtensionProperties True])
      \<subseteq> {Call_EnumerateDeviceLayerProperties False,
        Call_EnumerateDeviceLayerProperties True, Call_EnumerateDeviceExtensionProperties False,
        Call_EnumerateDeviceExtensionProperties True}"
      using set_take_subset [of n "[Call_EnumerateDeviceLayerProperties False,
        Call_EnumerateDeviceLayerProperties True, Call_EnumerateDeviceExtensionProperties False,
        Call_EnumerateDeviceExtensionProperties True]"] by simp
    moreover have "distinct (take n [Call_EnumerateDeviceLayerProperties False,
        Call_EnumerateDeviceLayerProperties True, Call_EnumerateDeviceExtensionProperties False,
        Call_EnumerateDeviceExtensionProperties True])"
      by (rule distinct_take) simp
    ultimately show ?thesis
      unfolding device_calls_def by (simp only: distinct_append) auto
  qed
  ultimately show ?thesis
    using GatherGlobalInfo_result [of fn ginfo] GatherDeviceInfo_result [of fn pd dinfo]
    by simp
qed

theorem Gather_info_never_swallows_failure_witness:
  "fst (GatherGlobalInfo driver_ok VulkanGlobalInfo_new)
   \<and> snd (snd (GatherGlobalInfo driver_ok VulkanGlobalInfo_new))
       = [Call_EnumerateInstanceLayerProperties False, Call_EnumerateInstanceLayerProperties True,
          Call_EnumerateInstanceExtensionProperties False,
          Call_EnumerateInstanceExtensionProperties True]
   \<and> fst (GatherDeviceInfo driver_ok 2 VulkanDeviceInfo_new)
   \<and> \<not> fst (GatherGlobalInfo driver_failing VulkanGlobalInfo_new)
   \<and> snd (snd (GatherGlobalInfo driver_failing VulkanGlobalInfo_new))
       = [Call_EnumerateInstanceLayerProperties False, Call_EnumerateInstanceLayerProperties True]
   \<and> \<not> fst (GatherDeviceInfo driver_failing 2 VulkanDeviceInfo_new)
   \<and> snd (snd (GatherDeviceInfo driver_failing 2 VulkanDeviceInfo_new))
       = [Call_GetPhysicalDeviceProperties, Call_GetPhysicalDeviceFeatures,
          Call_GetPhysicalDeviceMemoryProperties,
          Call_GetPhysicalDeviceQueueFamilyProperties False,
          Call_GetPhysicalDeviceQueueFamilyProperties True,
          Call_EnumerateDeviceLayerProperties False, Call_EnumerateDeviceLayerProperties True,
          Call_EnumerateDeviceExtensionProperties False]"
proof -
  have ok: "global_results driver_ok = (VK_SUCCESS, VK_SUCCESS, VK_INCOMPLETE, VK_SUCCESS)"
    "device_results driver_ok 2 = (VK_SUCCESS, VK_SUCCESS, VK_INCOMPLETE, VK_SUCCESS)"
    by (simp_all add: global_results_def device_results_def driver_ok_def)
  have failing:
    "global_results driver_failing = (VK_SUCCESS, VK_INCOMPLETE, VK_INCOMPLETE, VK_SUCCESS)"
    "device_results driver_failing 2
       = (VK_SUCCESS, VK_SUCCESS, VK_ERROR_OUT_OF_HOST_MEMORY, VK_SUCCESS)"
    by (simp_all add: global_results_def device_results_def driver_failing_def driver_ok_def)
  show ?thesis
    using Gather_info_never_swallows_failure
        [of driver_ok VulkanGlobalInfo_new 2 VulkanDeviceInfo_new]
      Gather_info_never_swallows_failure
        [of driver_failing VulkanGlobalInfo_new 2 VulkanDeviceInfo_new]
    by (simp add: ok failing all_succeeded_def calls_made_def count_ok_def global_calls_def
        device_calls_def)
qed
section \<open>Properties of the OpenGL trackers\<close>


lemma IterateStages_all:
  "IterateStages kAllStages = [ShaderStage_Vertex, ShaderStage_Fragment, ShaderStage_Compute]"
  by (simp add: IterateStages_def kAllStages_def)

lemma all_stages_fun:
  "f(ShaderStage_Vertex := a ShaderStage_Vertex, ShaderStage_Fragment := a ShaderStage_Fragment,
     ShaderStage_Compute := a ShaderStage_Compute) = a"
proof
  fix stage show "(f(ShaderStage_Vertex := a ShaderStage_Vertex,
      ShaderStage_Fragment := a ShaderStage_Fragment,
      ShaderStage_Compute := a ShaderStage_Compute)) stage = a stage"
    by (cases stage) simp_all
qed

lemma PushConstantTracker_OnBeginPass_eq:
  "PushConstantTracker_OnBeginPass t = t\<lparr> mValues := (\<lambda>stage i. 0) \<rparr>"
  using all_stages_fun [of "mValues t" "\<lambda>stage i. 0"]
  by (simp add: PushConstantTracker_OnBeginPass_def IterateStages_all)

lemma PushConstantTracker_OnSetPipeline_eq:
  "PushConstantTracker_OnSetPipeline p t
     = t\<lparr> mDirtyBits := (\<lambda>stage. mask (GetPushConstants p stage)) \<rparr>"
  using all_stages_fun [of "mDirtyBits t" "\<lambda>stage. mask (GetPushConstants p stage)"]
  by (simp add: PushConstantTracker_OnSetPipeline_def IterateStages_all)

lemma PushConstantTracker_ApplyStage_eq:
  "PushConstantTracker_ApplyStage env p g t stage
     = (t\<lparr> mDirtyBits := (mDirtyBits t)(stage := 0) \<rparr>, PushConstant_writes env p g t stage)"
  by (simp add: PushConstantTracker_ApplyStage_def PushConstant_writes_def Let_def)

lemma PushConstant_writes_cong:
  "mValues t' = mValues t \<Longrightarrow> mDirtyBits t' stage = mDirtyBits t stage \<Longrightarrow>
     PushConstant_writes env p g t' stage = PushConstant_writes env p g t stage"
  by (simp add: PushConstant_writes_def PushConstantTracker_ApplyConstant_def Let_def
      split: PushConstantType.splits)

lemma PushConstantTracker_Apply_eq:
  "PushConstantTracker_Apply env p g t
     = (t\<lparr> mDirtyBits := (\<lambda>stage. 0) \<rparr>,
        PushConstant_writes env p g t ShaderStage_Vertex
        @ PushConstant_writes env p g t ShaderStage_Fragment
        @ PushConstant_writes env p g t ShaderStage_Compute)"
proof -
  let ?t1 = "t\<lparr> mDirtyBits := (mDirtyBits t)(ShaderStage_Vertex := 0) \<rparr>"
  let ?t2 = "?t1\<lparr> mDirtyBits := (mDirtyBits ?t1)(ShaderStage_Fragment := 0) \<rparr>"
  have w1: "PushConstant_writes env p g ?t1 ShaderStage_Fragment
      = PushConstant_writes env p g t ShaderStage_Fragment"
    by (rule PushConstant_writes_cong) simp_all
  have w2: "PushConstant_writes env p g ?t2 ShaderStage_Compute
      = PushConstant_writes env p g t ShaderStage_Compute"
    by (rule PushConstant_writes_cong) simp_all
  have z: "(mDirtyBits t)(ShaderStage_Vertex := 0, ShaderStage_Fragment := 0,
      ShaderStage_Compute := 0) = (\<lambda>stage. 0)"
    using all_stages_fun [of "mDirtyBits t" "\<lambda>stage. 0"] by simp
  show ?thesis
    using w1 w2
    by (simp add: PushConstantTracker_Apply_def IterateStages_all
        PushConstantTracker_ApplyStage_eq z)
qed

lemma IterateBitSet_set:
  "set (IterateBitSet n bits) = {i. i < n \<and> bit bits i}"
  by (auto simp add: IterateBitSet_def)

lemma IterateBitSet_sorted: "sorted (IterateBitSet n bits)"
  by (simp add: IterateBitSet_def sorted_wrt_filter)

lemma IterateBitSet_distinct: "distinct (IterateBitSet n bits)"
  by (simp add: IterateBitSet_def)

lemma IterateBitSet_and:
  "set (IterateBitSet n (a AND b)) = {i. i < n \<and> bit a i \<and> bit b i}"
  by (auto simp add: IterateBitSet_set bit_and_iff)

lemma rangeMask_bit:
  assumes "offset + count \<le> n" and "n \<le> 63"
  shows "bit (rangeMask n count offset) i = (offset \<le> i \<and> i < offset + count)"
proof -
  have m: "push_bit count (1 :: u64) - 1 = Bit_Operations.mask count"
    by (simp add: mask_eq_exp_minus_1 push_bit_eq_mult)
  have "bit (rangeMask n count offset) i
      = (i < n \<and> bit (push_bit offset (Bit_Operations.mask count :: u64)) i)"
    unfolding rangeMask_def m by (simp add: bit_take_bit_iff bit_unsigned_iff)
  also have "\<dots> = (i < n \<and> offset \<le> i \<and> i < 64 \<and> i - offset < count)"
    by (auto simp add: bit_push_bit_iff bit_mask_iff)
  also have "\<dots> = (offset \<le> i \<and> i < offset + count)"
    using assms by auto
  finally show ?thesis .
qed


lemma IterateStages_set: "set (IterateStages stages) = stages"
proof -
  have "set [ShaderStage_Vertex, ShaderStage_Fragment, ShaderStage_Compute] = UNIV"
    using ShaderStage.exhaust by auto
  then show ?thesis
    unfolding IterateStages_def set_filter by simp
qed

lemma IterateStages_distinct: "distinct (IterateStages stages)"
  by (simp add: IterateStages_def)

lemma OnSetPushConstants_fold:
  assumes "foldl_result
       (\<lambda>t stage.
          if kMaxPushConstants env < offset + count \<or> length data' < count then Inl OutOfBounds
          else Inr (t\<lparr> mValues := (mValues t)(stage :=
                          (\<lambda>i. if offset \<le> i \<and> i < offset + count then data' ! (i - offset)
                                else mValues t stage i)),
                        mDirtyBits := (mDirtyBits t)(stage :=
                          mDirtyBits t stage OR rangeMask (kMaxPushConstants env) count offset) \<rparr>))
       t xs = Inr t1" and "distinct xs"
  shows "mValues t1 stage i =
           (if stage \<in> set xs \<and> offset \<le> i \<and> i < offset + count then data' ! (i - offset)
            else mValues t stage i)
       \<and> mDirtyBits t1 stage =
           (if stage \<in> set xs
            then mDirtyBits t stage OR rangeMask (kMaxPushConstants env) count offset
            else mDirtyBits t stage)"
  using assms
proof (induction xs arbitrary: t)
  case Nil
  then show ?case by simp
next
  case (Cons x xs)
  then show ?case
    by (auto split: if_splits)
qed

lemma PushConstantTracker_OnSetPushConstants_Inr:
  assumes "PushConstantTracker_OnSetPushConstants env stages count offset data' t = Inr t1"
  shows "mValues t1 stage i =
           (if stage \<in> stages \<and> offset \<le> i \<and> i < offset + count then data' ! (i - offset)
            else mValues t stage i)"
    and "mDirtyBits t1 stage =
           (if stage \<in> stages
            then mDirtyBits t stage OR rangeMask (kMaxPushConstants env) count offset
            else mDirtyBits t stage)"
  using OnSetPushConstants_fold [OF assms [unfolded PushConstantTracker_OnSetPushConstants_def]
      IterateStages_distinct, of stage i]
  by (simp_all add: IterateStages_set)

lemma PushConstantTracker_OnSetPushConstants_ok:
  assumes "offset + count \<le> kMaxPushConstants env" and "count \<le> length data'"
  shows "\<exists>t1. PushConstantTracker_OnSetPushConstants env stages count offset data' t = Inr t1"
proof -
  have "\<exists>t1. foldl_result
       (\<lambda>t stage.
          if kMaxPushConstants env < offset + count \<or> length data' < count then Inl OutOfBounds
          else Inr (t\<lparr> mValues := (mValues t)(stage :=
                          (\<lambda>i. if offset \<le> i \<and> i < offset + count then data' ! (i - offset)
                                else mValues t stage i)),
                        mDirtyBits := (mDirtyBits t)(stage :=
                          mDirtyBits t stage OR rangeMask (kMaxPushConstants env) count offset) \<rparr>))
       t xs = Inr t1" for xs
    using assms by (induction xs arbitrary: t) auto
  then show ?thesis unfolding PushConstantTracker_OnSetPushConstants_def by blast
qed


lemma arrayBufferBinds_append:
  "arrayBufferBinds (xs @ ys) = arrayBufferBinds xs @ arrayBufferBinds ys"
  by (simp add: arrayBufferBinds_def)

lemma arrayBufferBinds_concat:
  "arrayBufferBinds (concat xss) = concat (map arrayBufferBinds xss)"
  by (induction xss) (simp_all add: arrayBufferBinds_append, simp add: arrayBufferBinds_def)

lemma traverse_Inr:
  "traverse f xs = Inr ys \<Longrightarrow> length ys = length xs \<and> (\<forall>i < length xs. f (xs ! i) = Inr (ys ! i))"
proof (induction xs arbitrary: ys)
  case Nil
  then show ?case by simp
next
  case (Cons x xs)
  from Cons.prems obtain y ys' where y: "f x = Inr y" and r: "traverse f xs = Inr ys'"
    and ys: "ys = y # ys'"
    by (auto split: sum.splits)
  from Cons.IH [OF r] y ys show ?case
    by (auto simp add: nth_Cons split: nat.splits)
qed

lemma traverse_map:
  assumes "traverse f xs = Inr ys" and "\<And>x y. x \<in> set xs \<Longrightarrow> f x = Inr y \<Longrightarrow> g y = h x"
  shows "map g ys = map h xs"
  using assms
proof (induction xs arbitrary: ys)
  case Nil
  then show ?case by simp
next
  case (Cons x xs)
  from Cons.prems(1) obtain y ys' where y: "f x = Inr y" and r: "traverse f xs = Inr ys'"
    and ys: "ys = y # ys'"
    by (auto split: sum.splits)
  have "map g ys' = map h xs"
    using r Cons.prems(2) by (intro Cons.IH) auto
  moreover have "g y = h x" using y Cons.prems(2) by simp
  ultimately show ?case using ys by simp
qed

lemma concat_map_singleton:
  "concat (map (\<lambda>x. [h]) xs) = replicate (length xs) h"
  by (induction xs) simp_all

lemma InputBufferTracker_ApplyAttribute_binds:
  "InputBufferTracker_ApplyAttribute env t inputState slot location = Inr calls \<Longrightarrow>
     arrayBufferBinds calls = [Buffer_GetHandle (the (mVertexBuffers t slot))]"
  by (auto simp add: InputBufferTracker_ApplyAttribute_def arrayBufferBinds_def Let_def
      split: option.splits sum.splits)

lemma InputBufferTracker_ApplySlot_binds:
  assumes "InputBufferTracker_ApplySlot env t inputState slot = Inr calls"
  shows "arrayBufferBinds calls =
     replicate (length (IterateBitSet (kMaxVertexAttributes env)
                  (GetAttributesUsingInput inputState slot)))
       (Buffer_GetHandle (the (mVertexBuffers t slot)))"
proof -
  let ?locs = "IterateBitSet (kMaxVertexAttributes env) (GetAttributesUsingInput inputState slot)"
  from assms obtain css where
    tr: "traverse (InputBufferTracker_ApplyAttribute env t inputState slot) ?locs = Inr css"
    and calls: "calls = concat css"
    by (auto simp add: InputBufferTracker_ApplySlot_def split: sum.splits)
  have "map arrayBufferBinds css
      = map (\<lambda>location. [Buffer_GetHandle (the (mVertexBuffers t slot))]) ?locs"
    using tr by (rule traverse_map) (rule InputBufferTracker_ApplyAttribute_binds)
  then have "arrayBufferBinds calls
      = concat (map (\<lambda>location. [Buffer_GetHandle (the (mVertexBuffers t slot))]) ?locs)"
    by (simp add: calls arrayBufferBinds_concat)
  also have "\<dots> = replicate (length ?locs) (Buffer_GetHandle (the (mVertexBuffers t slot)))"
    by (rule concat_map_singleton)
  finally show ?thesis .
qed

lemma InputBufferTracker_Apply_binds:
  assumes "InputBufferTracker_Apply env t = Inr (t', calls)"
    and "mLastInputState t = Some inputState"
  shows "arrayBufferBinds calls =
     concat (map (\<lambda>slot.
        replicate (length (IterateBitSet (kMaxVertexAttributes env)
                     (GetAttributesUsingInput inputState slot)))
          (Buffer_GetHandle (the (mVertexBuffers t slot))))
       (IterateBitSet (kMaxVertexInputs env)
          (mDirtyVertexBuffers t AND GetInputsSetMask inputState)))"
    and "mDirtyVertexBuffers t' = 0"
proof -
  let ?slots = "IterateBitSet (kMaxVertexInputs env)
          (mDirtyVertexBuffers t AND GetInputsSetMask inputState)"
  define t0 where "t0 = (if mIndexBufferDirty t \<and> mIndexBuffer t \<noteq> None
     then t\<lparr> mIndexBufferDirty := False \<rparr> else t)"
  define indexCalls where "indexCalls = (if mIndexBufferDirty t \<and> mIndexBuffer t \<noteq> None
     then [glBindBuffer GL_ELEMENT_ARRAY_BUFFER (Buffer_GetHandle (the (mIndexBuffer t)))] else [])"
  have same: "mVertexBuffers t0 = mVertexBuffers t" "mDirtyVertexBuffers t0 = mDirtyVertexBuffers t"
    "mLastInputState t0 = mLastInputState t"
    by (simp_all add: t0_def)
  have unfold: "InputBufferTracker_Apply env t =
     (case traverse (InputBufferTracker_ApplySlot env t0 inputState) ?slots of
        Inl e \<Rightarrow> Inl e
      | Inr calls \<Rightarrow> Inr (t0\<lparr> mDirtyVertexBuffers := 0 \<rparr>, indexCalls @ concat calls))"
    using assms(2)
    by (auto simp add: InputBufferTracker_Apply_def t0_def indexCalls_def Let_def
        split: option.splits sum.splits)
  from assms(1) obtain css where
    tr: "traverse (InputBufferTracker_ApplySlot env t0 inputState) ?slots = Inr css"
    and t': "t' = t0\<lparr> mDirtyVertexBuffers := 0 \<rparr>" and calls: "calls = indexCalls @ concat css"
    unfolding unfold by (auto split: sum.splits)
  show "mDirtyVertexBuffers t' = 0" by (simp add: t')
  have "map arrayBufferBinds css = map (\<lambda>slot.
        replicate (length (IterateBitSet (kMaxVertexAttributes env)
                     (GetAttributesUsingInput inputState slot)))
          (Buffer_GetHandle (the (mVertexBuffers t0 slot)))) ?slots"
    using tr by (rule traverse_map) (rule InputBufferTracker_ApplySlot_binds)
  moreover have "arrayBufferBinds indexCalls = []"
    by (simp add: indexCalls_def arrayBufferBinds_def)
  ultimately show "arrayBufferBinds calls =
     concat (map (\<lambda>slot.
        replicate (length (IterateBitSet (kMaxVertexAttributes env)
                     (GetAttributesUsingInput inputState slot)))
          (Buffer_GetHandle (the (mVertexBuffers t slot)))) ?slots)"
    by (simp add: calls arrayBufferBinds_append arrayBufferBinds_concat same)
qed

lemmas pushConstant_eval =
  PushConstantTracker_OnSetPushConstants_def PushConstantTracker_OnSetPipeline_eq
  PushConstantTracker_OnBeginPass_eq PushConstantTracker_new_def PushConstantTracker_Apply_eq
  PushConstant_writes_def PushConstantTracker_ApplyConstant_def IterateStages_def
  IterateBitSet_def rangeMask_def env0_def pipelineOf_def pushConstantsOf_def upt_rec
  bit_Suc_0_iff Let_def

text \<open>
  C3 (as stated). After \<open>Apply\<close> the dirty bits of the constants that the pipeline does not
  consume would remain set. They do not: \<open>Apply\<close> ends each stage with
  \<open>mDirtyBits[stage].reset()\<close>. In the scenario, with a pipeline whose vertex stage consumes
  the constant 0 alone, the constant 1 is dirty and not consumed before \<open>Apply\<close>; \<open>Apply\<close>
  writes the constant 0, and the constant 1 is no longer dirty afterwards.
\<close>

theorem unconsumed_dirty_bits_counterexample:
  "(case pushConstantScenario 1 of
      Inl e \<Rightarrow> False
    | Inr t \<Rightarrow>
        bit (mDirtyBits t ShaderStage_Vertex) 1
        \<and> \<not> bit (mask (GetPushConstants (pipelineOf 1 1) ShaderStage_Vertex)) 1
        \<and> snd (PushConstantTracker_Apply env0 (pipelineOf 1 1) (pipelineOf 1 1) t)
            = [glUniform1i 10 7]
        \<and> \<not> bit (mDirtyBits (fst (PushConstantTracker_Apply env0 (pipelineOf 1 1)
                   (pipelineOf 1 1) t)) ShaderStage_Vertex) 1)"
  by (simp add: pushConstantScenario_def pushConstant_eval)

text \<open>
  C3 (amended). For every state of the tracker and every pipeline, \<open>Apply\<close> writes, for
  each stage, exactly the constants that are both dirty and in the mask of the pipeline for
  the stage, each once: the call is \<open>glUniform1i\<close>, \<open>glUniform1ui\<close> or \<open>glUniform1f\<close> after
  the type of the constant, at the location the pipeline gives for it, with the value the
  tracker holds, which is the value set last (after \<open>OnSetPushConstants\<close> the constant
  \<open>offset + i\<close> of each stage named holds \<open>data[i]\<close>). Nothing is said of the order of the
  writes. \<open>Apply\<close> changes no value, and after it no dirty bit is left in any stage, for a
  consumed constant or not. The constants of a later pipeline are written because
  \<open>OnSetPipeline\<close> makes the dirty bits of each stage the mask of the new pipeline.
\<close>

theorem PushConstantTracker_Apply_writes_and_resets:
  "(\<exists>stages slots.
       distinct stages \<and> set stages = UNIV
     \<and> (\<forall>stage. distinct (slots stage)
            \<and> set (slots stage)
                = {constant. constant < kMaxPushConstants env
                     \<and> bit (mDirtyBits t stage) constant
                     \<and> bit (mask (GetPushConstants p stage)) constant})
     \<and> snd (PushConstantTracker_Apply env p g t)
         = concat (map (\<lambda>stage. map
               (\<lambda>constant. case types (GetPushConstants p stage) constant of
                     PushConstantType_Int \<Rightarrow>
                       glUniform1i (GetGLPushConstants g stage constant)
                         (mValues t stage constant)
                   | PushConstantType_UInt \<Rightarrow>
                       glUniform1ui (GetGLPushConstants g stage constant)
                         (mValues t stage constant)
                   | PushConstantType_Float \<Rightarrow>
                       glUniform1f (GetGLPushConstants g stage constant)
                         (mValues t stage constant))
               (slots stage)) stages))
   \<and> mDirtyBits (fst (PushConstantTracker_Apply env p g t)) stage = 0
   \<and> mValues (fst (PushConstantTracker_Apply env p g t)) = mValues t
   \<and> mDirtyBits (PushConstantTracker_OnSetPipeline q t') stage = mask (GetPushConstants q stage)
   \<and> (PushConstantTracker_OnSetPushConstants env stages count offset data' t0 = Inr t \<longrightarrow>
        stage \<in> stages \<longrightarrow> i < count \<longrightarrow> mValues t stage (offset + i) = data' ! i)"
proof -
  let ?stages = "[ShaderStage_Vertex, ShaderStage_Fragment, ShaderStage_Compute]"
  let ?slots = "\<lambda>stage. IterateBitSet (kMaxPushConstants env)
      (mDirtyBits t stage AND mask (GetPushConstants p stage))"
  have all: "set ?stages = UNIV"
    using ShaderStage.exhaust by auto
  have stages: "distinct ?stages"
    by simp
  have slots: "\<forall>stage. distinct (?slots stage)
      \<and> set (?slots stage)
          = {constant. constant < kMaxPushConstants env
               \<and> bit (mDirtyBits t stage) constant
               \<and> bit (mask (GetPushConstants p stage)) constant}"
    by (simp add: IterateBitSet_distinct IterateBitSet_and)
  have calls: "snd (PushConstantTracker_Apply env p g t)
      = concat (map (\<lambda>stage. map
               (\<lambda>constant. case types (GetPushConstants p stage) constant of
                     PushConstantType_Int \<Rightarrow>
                       glUniform1i (GetGLPushConstants g stage constant)
                         (mValues t stage constant)
                   | PushConstantType_UInt \<Rightarrow>
                       glUniform1ui (GetGLPushConstants g stage constant)
                         (mValues t stage constant)
                   | PushConstantType_Float \<Rightarrow>
                       glUniform1f (GetGLPushConstants g stage constant)
                         (mValues t stage constant))
               (?slots stage)) ?stages)"
    by (simp add: PushConstantTracker_Apply_eq PushConstant_writes_def
        PushConstantTracker_ApplyConstant_def Let_def)
  have writes: "(\<exists>stages slots.
       distinct stages \<and> set stages = UNIV
     \<and> (\<forall>stage. distinct (slots stage)
            \<and> set (slots stage)
                = {constant. constant < kMaxPushConstants env
                     \<and> bit (mDirtyBits t stage) constant
                     \<and> bit (mask (GetPushConstants p stage)) constant})
     \<and> snd (PushConstantTracker_Apply env p g t)
         = concat (map (\<lambda>stage. map
               (\<lambda>constant. case types (GetPushConstants p stage) constant of
                     PushConstantType_Int \<Rightarrow>
                       glUniform1i (GetGLPushConstants g stage constant)
                         (mValues t stage constant)
                   | PushConstantType_UInt \<Rightarrow>
                       glUniform1ui (GetGLPushConstants g stage constant)
                         (mValues t stage constant)
                   | PushConstantType_Float \<Rightarrow>
                       glUniform1f (GetGLPushConstants g stage constant)
                         (mValues t stage constant))
               (slots stage)) stages))"
    by (rule exI [where x = ?stages], rule exI [where x = ?slots])
      (intro conjI stages all slots calls)
  have reset: "mDirtyBits (fst (PushConstantTracker_Apply env p g t)) stage = 0"
    and kept: "mValues (fst (PushConstantTracker_Apply env p g t)) = mValues t"
    and switch: "mDirtyBits (PushConstantTracker_OnSetPipeline q t') stage
      = mask (GetPushConstants q stage)"
    by (simp_all add: PushConstantTracker_Apply_eq PushConstantTracker_OnSetPipeline_eq)
  have "mValues t stage (offset + i) = data' ! i"
    if "PushConstantTracker_OnSetPushConstants env stages count offset data' t0 = Inr t"
      and "stage \<in> stages" and "i < count"
    using PushConstantTracker_OnSetPushConstants_Inr(1) [OF that(1), of stage "offset + i"]
      that(2,3)
    by simp
  then have last: "PushConstantTracker_OnSetPushConstants env stages count offset data' t0 = Inr t
      \<longrightarrow> stage \<in> stages \<longrightarrow> i < count \<longrightarrow> mValues t stage (offset + i) = data' ! i"
    by simp
  show ?thesis
    by (intro conjI writes reset kept switch last)
qed

theorem PushConstantTracker_Apply_writes_and_resets_witness:
  "snd (PushConstantTracker_Apply env0 (pipelineOf 1 7) (pipelineOf 1 7)
          (projr (pushConstantScenario 7)))
     = [glUniform1i 10 7, glUniform1f 11 9, glUniform1ui 12 0]
   \<and> mDirtyBits (projr (pushConstantScenario 7)) ShaderStage_Vertex = 7
   \<and> mDirtyBits (fst (PushConstantTracker_Apply env0 (pipelineOf 1 7) (pipelineOf 1 7)
          (projr (pushConstantScenario 7)))) ShaderStage_Vertex = 0
   \<and> mValues (projr (pushConstantScenario 7)) ShaderStage_Vertex 0 = 7
   \<and> mValues (projr (pushConstantScenario 7)) ShaderStage_Vertex 1 = 9
   \<and> (\<exists>stages slots.
       distinct stages \<and> set stages = UNIV
     \<and> (\<forall>stage. distinct (slots stage)
            \<and> set (slots stage)
                = {constant. constant < kMaxPushConstants env0
                     \<and> bit (mDirtyBits (projr (pushConstantScenario 7)) stage) constant
                     \<and> bit (mask (GetPushConstants (pipelineOf 1 7) stage)) constant})
     \<and> snd (PushConstantTracker_Apply env0 (pipelineOf 1 7) (pipelineOf 1 7) (projr (pushConstantScenario 7)))
         = concat (map (\<lambda>stage. map
               (\<lambda>constant. case types (GetPushConstants (pipelineOf 1 7) stage) constant of
                     PushConstantType_Int \<Rightarrow>
                       glUniform1i (GetGLPushConstants (pipelineOf 1 7) stage constant)
                         (mValues (projr (pushConstantScenario 7)) stage constant)
                   | PushConstantType_UInt \<Rightarrow>
                       glUniform1ui (GetGLPushConstants (pipelineOf 1 7) stage constant)
                         (mValues (projr (pushConstantScenario 7)) stage constant)
                   | PushConstantType_Float \<Rightarrow>
                       glUniform1f (GetGLPushConstants (pipelineOf 1 7) stage constant)
                         (mValues (projr (pushConstantScenario 7)) stage constant))
               (slots stage)) stages))"
proof -
  let ?start = "PushConstantTracker_OnSetPipeline (pipelineOf 1 7)
          (PushConstantTracker_OnBeginPass (PushConstantTracker_new env0))"
  let ?t = "projr (pushConstantScenario 7)"
  have run: "PushConstantTracker_OnSetPushConstants env0 {ShaderStage_Vertex} 2 0 [7, 9] ?start
      = Inr ?t"
    by (simp add: pushConstantScenario_def pushConstant_eval)
  have calls: "snd (PushConstantTracker_Apply env0 (pipelineOf 1 7) (pipelineOf 1 7) ?t)
      = [glUniform1i 10 7, glUniform1f 11 9, glUniform1ui 12 0]"
    and dirty: "mDirtyBits ?t ShaderStage_Vertex = 7"
    by (simp_all add: pushConstantScenario_def pushConstant_eval)
  note written = PushConstantTracker_Apply_writes_and_resets
    [where env = env0 and p = "pipelineOf 1 7" and g = "pipelineOf 1 7" and t = ?t
      and stage = ShaderStage_Vertex and stages = "{ShaderStage_Vertex}" and count = 2
      and offset = 0 and data' = "[7, 9]" and ?t0.0 = ?start]
  from written [where i = 0] have writes: "(\<exists>stages slots.
       distinct stages \<and> set stages = UNIV
     \<and> (\<forall>stage. distinct (slots stage)
            \<and> set (slots stage)
                = {constant. constant < kMaxPushConstants env0
                     \<and> bit (mDirtyBits (projr (pushConstantScenario 7)) stage) constant
                     \<and> bit (mask (GetPushConstants (pipelineOf 1 7) stage)) constant})
     \<and> snd (PushConstantTracker_Apply env0 (pipelineOf 1 7) (pipelineOf 1 7) (projr (pushConstantScenario 7)))
         = concat (map (\<lambda>stage. map
               (\<lambda>constant. case types (GetPushConstants (pipelineOf 1 7) stage) constant of
                     PushConstantType_Int \<Rightarrow>
                       glUniform1i (GetGLPushConstants (pipelineOf 1 7) stage constant)
                         (mValues (projr (pushConstantScenario 7)) stage constant)
                   | PushConstantType_UInt \<Rightarrow>
                       glUniform1ui (GetGLPushConstants (pipelineOf 1 7) stage constant)
                         (mValues (projr (pushConstantScenario 7)) stage constant)
                   | PushConstantType_Float \<Rightarrow>
                       glUniform1f (GetGLPushConstants (pipelineOf 1 7) stage constant)
                         (mValues (projr (pushConstantScenario 7)) stage constant))
               (slots stage)) stages))"
    by (rule conjunct1)
  from written [where i = 0, THEN conjunct2]
  have reset: "mDirtyBits (fst (PushConstantTracker_Apply env0 (pipelineOf 1 7)
      (pipelineOf 1 7) ?t)) ShaderStage_Vertex = 0"
    by (rule conjunct1)
  from written [where i = 0, THEN conjunct2, THEN conjunct2, THEN conjunct2, THEN conjunct2]
    run
  have zero: "mValues ?t ShaderStage_Vertex 0 = 7"
    by simp
  from written [where i = 1, THEN conjunct2, THEN conjunct2, THEN conjunct2, THEN conjunct2]
    run
  have one: "mValues ?t ShaderStage_Vertex 1 = 9"
    by simp
  show ?thesis
    by (intro conjI calls dirty reset zero one writes)
qed

subsection \<open>The vertex input tracker\<close>

lemmas vertexInput_eval =
  vertexInputScenario_def and_then_def InputBufferTracker_OnSetVertexBuffers_def env0_def
  InputBufferTracker_new_def rangeMask_def InputBufferTracker_OnSetPipeline_def
  renderPipelineOf_def inputStateOf_def InputBufferTracker_Apply_def IterateBitSet_def upt_rec
  InputBufferTracker_ApplySlot_def InputBufferTracker_ApplyAttribute_def bufferOf_def
  VertexFormatType_def arrayBufferBinds_def Let_def bit_Suc_0_iff

text \<open>
  C4 (as stated). After vertex buffers are bound at the slots 2, 3 and 4 and the pipeline is
  switched to a layout that uses the slots 0, 2 and 4, \<open>Apply\<close> would bind exactly the slots
  2 and 4. The switch itself marks the slots 0, 2 and 4 dirty, so \<open>Apply\<close> binds the slot 0
  as well: in the scenario the slots 0 to 4 hold the buffers 100 to 104, flushed under a
  first layout, the slots 2, 3 and 4 then receive the buffers 202, 203 and 204 (dirty mask
  28, slot 0 not dirty), and after the switch \<open>Apply\<close> binds 100, 202 and 204.
\<close>

theorem layout_switch_rebinds_counterexample:
  "(case vertexInputScenario (inputStateOf 50 31) of
      Inl e \<Rightarrow> False
    | Inr t \<Rightarrow>
        mDirtyVertexBuffers t = 28
        \<and> \<not> bit (mDirtyVertexBuffers t) 0
        \<and> map_sum id (\<lambda>(t', calls). arrayBufferBinds calls)
            (InputBufferTracker_Apply env0
               (InputBufferTracker_OnSetPipeline
                  (renderPipelineOf 2 0 (inputStateOf 51 21)) t))
          = Inr [100, 202, 204])"
  by (simp add: vertexInput_eval)

text \<open>
  C4 (amended). A pipeline switch whose input layout differs from the cached one marks the
  index buffer dirty, caches the layout and adds to the dirty slots every slot the new
  layout declares live (a slot is dirty afterwards exactly when it was dirty before or is
  live in the new layout); a switch to the cached layout changes nothing. \<open>Apply\<close> then
  binds exactly the slots that are both dirty and live in the cached layout, in increasing
  order, each once for each attribute that reads it, and leaves no slot dirty. Hence after
  vertex buffers are bound at the slots 2, 3 and 4, \<open>Apply\<close> binds the slots 2 and 4 when
  the layout using the slots 0, 2 and 4 is the one already cached, and the slots 0, 2 and 4
  when the pipeline switch changes the layout to it.
\<close>

theorem InputBufferTracker_switch_and_apply:
  "(map_option InputState_address (mLastInputState t)
        \<noteq> Some (InputState_address (GetInputState p)) \<longrightarrow>
      mIndexBufferDirty (InputBufferTracker_OnSetPipeline p t)
    \<and> mLastInputState (InputBufferTracker_OnSetPipeline p t) = Some (GetInputState p)
    \<and> mDirtyVertexBuffers (InputBufferTracker_OnSetPipeline p t)
        = mDirtyVertexBuffers t OR GetInputsSetMask (GetInputState p)
    \<and> bit (mDirtyVertexBuffers (InputBufferTracker_OnSetPipeline p t)) slot
        = (bit (mDirtyVertexBuffers t) slot \<or> bit (GetInputsSetMask (GetInputState p)) slot))
   \<and> (map_option InputState_address (mLastInputState t)
        = Some (InputState_address (GetInputState p)) \<longrightarrow>
      InputBufferTracker_OnSetPipeline p t = t)
   \<and> (InputBufferTracker_Apply env t = Inr (t', calls) \<longrightarrow>
      mLastInputState t = Some inputState \<longrightarrow>
        arrayBufferBinds calls
          = concat (map (\<lambda>slot.
              replicate (length (IterateBitSet (kMaxVertexAttributes env)
                           (GetAttributesUsingInput inputState slot)))
                (Buffer_GetHandle (the (mVertexBuffers t slot))))
              (IterateBitSet (kMaxVertexInputs env)
                 (mDirtyVertexBuffers t AND GetInputsSetMask inputState)))
      \<and> set (IterateBitSet (kMaxVertexInputs env)
                 (mDirtyVertexBuffers t AND GetInputsSetMask inputState))
          = {slot. slot < kMaxVertexInputs env \<and> bit (mDirtyVertexBuffers t) slot
                   \<and> bit (GetInputsSetMask inputState) slot}
      \<and> sorted (IterateBitSet (kMaxVertexInputs env)
                 (mDirtyVertexBuffers t AND GetInputsSetMask inputState))
      \<and> distinct (IterateBitSet (kMaxVertexInputs env)
                 (mDirtyVertexBuffers t AND GetInputsSetMask inputState))
      \<and> mDirtyVertexBuffers t' = 0)"
proof (intro conjI impI)
  assume "map_option InputState_address (mLastInputState t)
      \<noteq> Some (InputState_address (GetInputState p))"
  then have switch: "InputBufferTracker_OnSetPipeline p t
      = t\<lparr> mIndexBufferDirty := True,
            mDirtyVertexBuffers := mDirtyVertexBuffers t OR GetInputsSetMask (GetInputState p),
            mLastInputState := Some (GetInputState p) \<rparr>"
    by (simp only: InputBufferTracker_OnSetPipeline_def Let_def if_False)
  show "mIndexBufferDirty (InputBufferTracker_OnSetPipeline p t)"
    and "mLastInputState (InputBufferTracker_OnSetPipeline p t) = Some (GetInputState p)"
    and "mDirtyVertexBuffers (InputBufferTracker_OnSetPipeline p t)
        = mDirtyVertexBuffers t OR GetInputsSetMask (GetInputState p)"
    and "bit (mDirtyVertexBuffers (InputBufferTracker_OnSetPipeline p t)) slot
        = (bit (mDirtyVertexBuffers t) slot \<or> bit (GetInputsSetMask (GetInputState p)) slot)"
    unfolding switch by (simp_all add: bit_or_iff)
next
  assume "map_option InputState_address (mLastInputState t)
      = Some (InputState_address (GetInputState p))"
  then show "InputBufferTracker_OnSetPipeline p t = t"
    by (simp add: InputBufferTracker_OnSetPipeline_def Let_def)
next
  assume "InputBufferTracker_Apply env t = Inr (t', calls)"
    and "mLastInputState t = Some inputState"
  then show "arrayBufferBinds calls
          = concat (map (\<lambda>slot.
              replicate (length (IterateBitSet (kMaxVertexAttributes env)
                           (GetAttributesUsingInput inputState slot)))
                (Buffer_GetHandle (the (mVertexBuffers t slot))))
              (IterateBitSet (kMaxVertexInputs env)
                 (mDirtyVertexBuffers t AND GetInputsSetMask inputState)))"
    and "mDirtyVertexBuffers t' = 0"
    by (rule InputBufferTracker_Apply_binds)+
qed (simp_all add: IterateBitSet_and IterateBitSet_sorted IterateBitSet_distinct)

theorem InputBufferTracker_switch_and_apply_witness:
  "map_sum id (\<lambda>(t', calls). arrayBufferBinds calls)
     (InputBufferTracker_Apply env0
        (InputBufferTracker_OnSetPipeline (renderPipelineOf 2 0 (inputStateOf 51 21))
           (projr (vertexInputScenario (inputStateOf 51 21)))))
     = Inr [202, 204]
   \<and> InputBufferTracker_OnSetPipeline (renderPipelineOf 2 0 (inputStateOf 51 21))
        (projr (vertexInputScenario (inputStateOf 51 21)))
     = projr (vertexInputScenario (inputStateOf 51 21))
   \<and> mDirtyVertexBuffers (InputBufferTracker_OnSetPipeline
        (renderPipelineOf 2 0 (inputStateOf 51 21))
        (projr (vertexInputScenario (inputStateOf 50 31)))) = 29"
proof -
  let ?same = "projr (vertexInputScenario (inputStateOf 51 21))"
  let ?other = "projr (vertexInputScenario (inputStateOf 50 31))"
  let ?p = "renderPipelineOf 2 0 (inputStateOf 51 21)"
  have cached: "map_option InputState_address (mLastInputState ?same)
      = Some (InputState_address (GetInputState ?p))"
    by (simp add: vertexInput_eval)
  have differs: "map_option InputState_address (mLastInputState ?other)
      \<noteq> Some (InputState_address (GetInputState ?p))"
    by (simp add: vertexInput_eval)
  have dirty: "mDirtyVertexBuffers ?other = 28" "GetInputsSetMask (GetInputState ?p) = 21"
    by (simp_all add: vertexInput_eval)
  have binds: "map_sum id (\<lambda>(t', calls). arrayBufferBinds calls)
      (InputBufferTracker_Apply env0 ?same) = Inr [202, 204]"
    by (simp add: vertexInput_eval)
  from InputBufferTracker_switch_and_apply [of ?same ?p] cached
  have same: "InputBufferTracker_OnSetPipeline ?p ?same = ?same"
    by simp
  from InputBufferTracker_switch_and_apply [of ?other ?p] differs dirty
  have "mDirtyVertexBuffers (InputBufferTracker_OnSetPipeline ?p ?other) = 29"
    by simp
  with same binds show ?thesis by simp
qed
section \<open>Properties of Execute\<close>

lemma traverse_all:
  assumes "traverse f xs = Inr ys" and "\<And>x y. f x = Inr y \<Longrightarrow> P y"
  shows "\<forall>y\<in>set ys. P y"
  using assms
proof (induction xs arbitrary: ys)
  case Nil
  then show ?case by simp
next
  case (Cons x xs)
  from Cons.prems(1) obtain y ys' where y: "f x = Inr y" and r: "traverse f xs = Inr ys'"
    and ys: "ys = y # ys'"
    by (auto split: sum.splits)
  from Cons.IH [OF r Cons.prems(2)] Cons.prems(2) [OF y] ys show ?case by simp
qed

lemma foldl_result_invariant:
  assumes "foldl_result f s xs = Inr s'" and "I s"
    and "\<And>s x s'. I s \<Longrightarrow> f s x = Inr s' \<Longrightarrow> I s'"
  shows "I s'"
  using assms
proof (induction xs arbitrary: s)
  case Nil
  then show ?case by simp
next
  case (Cons x xs)
  from Cons.prems(1) obtain s1 where s1: "f s x = Inr s1" and r: "foldl_result f s1 xs = Inr s'"
    by (auto split: sum.splits)
  have "I s1" using Cons.prems(2) s1 by (rule Cons.prems(3))
  with r show ?case using Cons.prems(3) by (rule Cons.IH)
qed

lemma plain_ApplyConstant: "plainCall (PushConstantTracker_ApplyConstant p g t stage constant)"
  by (simp add: PushConstantTracker_ApplyConstant_def plainCall_def isDispatchCall_def
      isClearCall_def Let_def split: PushConstantType.splits)

lemma plain_PushConstantTracker_Apply:
  "\<forall>call\<in>set (snd (PushConstantTracker_Apply env p g t)). plainCall call"
  by (auto simp add: PushConstantTracker_Apply_eq PushConstant_writes_def plain_ApplyConstant)

lemma plain_ApplyAttribute:
  "InputBufferTracker_ApplyAttribute env t inputState slot location = Inr calls \<Longrightarrow>
     \<forall>call\<in>set calls. plainCall call"
  by (auto simp add: InputBufferTracker_ApplyAttribute_def plainCall_def isDispatchCall_def
      isClearCall_def Let_def split: option.splits sum.splits)

lemma plain_ApplySlot:
  assumes "InputBufferTracker_ApplySlot env t inputState slot = Inr calls"
  shows "\<forall>call\<in>set calls. plainCall call"
proof -
  from assms obtain css where
    tr: "traverse (InputBufferTracker_ApplyAttribute env t inputState slot)
           (IterateBitSet (kMaxVertexAttributes env) (GetAttributesUsingInput inputState slot))
         = Inr css"
    and calls: "calls = concat css"
    by (auto simp add: InputBufferTracker_ApplySlot_def split: sum.splits)
  have "\<forall>cs\<in>set css. \<forall>call\<in>set cs. plainCall call"
    using tr by (rule traverse_all) (rule plain_ApplyAttribute)
  then show ?thesis by (auto simp add: calls)
qed

lemma InputBufferTracker_Apply_None:
  "mLastInputState t = None \<Longrightarrow> InputBufferTracker_Apply env t = Inl NullDereference"
  by (cases "mIndexBuffer t"; cases "mIndexBufferDirty t")
    (simp_all add: InputBufferTracker_Apply_def Let_def)

lemma plain_InputBufferTracker_Apply:
  assumes "InputBufferTracker_Apply env t = Inr (t', calls)"
  shows "\<forall>call\<in>set calls. plainCall call"
proof (cases "mLastInputState t")
  case None
  with assms show ?thesis
    by (simp add: InputBufferTracker_Apply_None)
next
  case (Some inputState)
  define t0 where "t0 = (if mIndexBufferDirty t \<and> mIndexBuffer t \<noteq> None
     then t\<lparr> mIndexBufferDirty := False \<rparr> else t)"
  define indexCalls where "indexCalls = (if mIndexBufferDirty t \<and> mIndexBuffer t \<noteq> None
     then [glBindBuffer GL_ELEMENT_ARRAY_BUFFER (Buffer_GetHandle (the (mIndexBuffer t)))] else [])"
  let ?slots = "IterateBitSet (kMaxVertexInputs env)
          (mDirtyVertexBuffers t AND GetInputsSetMask inputState)"
  have unfold: "InputBufferTracker_Apply env t =
     (case traverse (InputBufferTracker_ApplySlot env t0 inputState) ?slots of
        Inl e \<Rightarrow> Inl e
      | Inr calls \<Rightarrow> Inr (t0\<lparr> mDirtyVertexBuffers := 0 \<rparr>, indexCalls @ concat calls))"
    using Some
    by (auto simp add: InputBufferTracker_Apply_def t0_def indexCalls_def Let_def
        split: option.splits sum.splits)
  from assms obtain css where
    tr: "traverse (InputBufferTracker_ApplySlot env t0 inputState) ?slots = Inr css"
    and calls: "calls = indexCalls @ concat css"
    unfolding unfold by (auto split: sum.splits)
  have "\<forall>cs\<in>set css. \<forall>call\<in>set cs. plainCall call"
    using tr by (rule traverse_all) (rule plain_ApplySlot)
  moreover have "\<forall>call\<in>set indexCalls. plainCall call"
    by (simp add: indexCalls_def plainCall_def isDispatchCall_def isClearCall_def)
  ultimately show ?thesis by (auto simp add: calls)
qed

lemma plain_attachColor:
  assumes "BeginRenderSubpass_attachColor env framebuffer subpass
             = Inr (calls, drawBuffers, attachmentCount)"
  shows "\<forall>call\<in>set calls. plainCall call"
proof -
  have "case (calls, drawBuffers, attachmentCount) of
          (calls, drawBuffers, attachmentCount) \<Rightarrow> \<forall>call\<in>set calls. plainCall call"
    using assms [unfolded BeginRenderSubpass_attachColor_def]
    by (rule foldl_result_invariant)
      (auto simp add: plainCall_def isDispatchCall_def isClearCall_def Let_def
        split: if_splits)
  then show ?thesis by simp
qed

lemma plain_attachDepthStencil:
  "BeginRenderSubpass_attachDepthStencil env framebuffer subpass = Inr calls \<Longrightarrow>
     \<forall>call\<in>set calls. plainCall call"
  by (auto simp add: BeginRenderSubpass_attachDepthStencil_def plainCall_def isDispatchCall_def
      isClearCall_def Let_def split: if_splits)

lemma nodispatch_colorLoadOps:
  "\<forall>call\<in>set (BeginRenderSubpass_colorLoadOps env renderPass framebuffer i subpass).
     \<not> isDispatchCall call"
  by (auto simp add: BeginRenderSubpass_colorLoadOps_def isDispatchCall_def Let_def
      split: if_splits)

lemma nodispatch_depthStencilLoadOps:
  "\<forall>call\<in>set (BeginRenderSubpass_depthStencilLoadOps env renderPass framebuffer i subpass).
     \<not> isDispatchCall call"
  by (auto simp add: BeginRenderSubpass_depthStencilLoadOps_def isDispatchCall_def Let_def
      split: if_splits)

lemma Execute_BeginRenderSubpass_Inr:
  assumes "Execute_BeginRenderSubpass env s = Inr (s', calls)"
  obtains renderPass framebuffer attachCalls drawBuffers attachmentCount depthStencilCalls
  where "currentRenderPass s = Some renderPass"
    and "currentFramebuffer s = Some framebuffer"
    and "BeginRenderSubpass_attachColor env framebuffer
           (GetSubpassInfo renderPass (currentSubpass s))
         = Inr (attachCalls, drawBuffers, attachmentCount)"
    and "BeginRenderSubpass_attachDepthStencil env framebuffer
           (GetSubpassInfo renderPass (currentSubpass s)) = Inr depthStencilCalls"
    and "calls =
           [glBindFramebuffer GL_READ_FRAMEBUFFER 0,
            glGenFramebuffers (genFramebuffer env (generated s)),
            glBindFramebuffer GL_DRAW_FRAMEBUFFER (genFramebuffer env (generated s))]
           @ attachCalls
           @ [glDrawBuffers attachmentCount (map drawBuffers [0..<attachmentCount])]
           @ depthStencilCalls
           @ BeginRenderSubpass_colorLoadOps env renderPass framebuffer (currentSubpass s)
               (GetSubpassInfo renderPass (currentSubpass s))
           @ BeginRenderSubpass_depthStencilLoadOps env renderPass framebuffer
               (currentSubpass s) (GetSubpassInfo renderPass (currentSubpass s))
           @ [glBlendColor 0 0 0 0,
              glViewport 0 0 (GetWidth framebuffer) (GetHeight framebuffer)]"
    and "currentRenderPass s' = currentRenderPass s"
    and "currentFramebuffer s' = currentFramebuffer s"
    and "currentSubpass s' = currentSubpass s"
proof (cases "currentRenderPass s")
  case None
  with assms show ?thesis
    by (simp add: Execute_BeginRenderSubpass_def Let_def)
next
  case rp: (Some renderPass)
  show ?thesis
  proof (cases "currentFramebuffer s")
    case None
    with assms rp show ?thesis
      by (simp add: Execute_BeginRenderSubpass_def Let_def)
  next
    case fb: (Some framebuffer)
    show ?thesis
    proof (cases "BeginRenderSubpass_attachColor env framebuffer
           (GetSubpassInfo renderPass (currentSubpass s))")
      case (Inl e)
      with assms rp fb show ?thesis
        by (simp add: Execute_BeginRenderSubpass_def Let_def)
    next
      case a: (Inr r)
      obtain attachCalls drawBuffers attachmentCount
        where r: "r = (attachCalls, drawBuffers, attachmentCount)"
        by (cases r)
      show ?thesis
      proof (cases "BeginRenderSubpass_attachDepthStencil env framebuffer
           (GetSubpassInfo renderPass (currentSubpass s))")
        case (Inl e)
        with assms rp fb a r show ?thesis
          by (simp add: Execute_BeginRenderSubpass_def Let_def)
      next
        case d: (Inr depthStencilCalls)
        from assms rp fb a r d
        have "calls =
           [glBindFramebuffer GL_READ_FRAMEBUFFER 0,
            glGenFramebuffers (genFramebuffer env (generated s)),
            glBindFramebuffer GL_DRAW_FRAMEBUFFER (genFramebuffer env (generated s))]
           @ attachCalls
           @ [glDrawBuffers attachmentCount (map drawBuffers [0..<attachmentCount])]
           @ depthStencilCalls
           @ BeginRenderSubpass_colorLoadOps env renderPass framebuffer (currentSubpass s)
               (GetSubpassInfo renderPass (currentSubpass s))
           @ BeginRenderSubpass_depthStencilLoadOps env renderPass framebuffer
               (currentSubpass s) (GetSubpassInfo renderPass (currentSubpass s))
           @ [glBlendColor 0 0 0 0,
              glViewport 0 0 (GetWidth framebuffer) (GetHeight framebuffer)]"
          and "currentRenderPass s' = currentRenderPass s"
          and "currentFramebuffer s' = currentFramebuffer s"
          and "currentSubpass s' = currentSubpass s"
          by (auto simp add: Execute_BeginRenderSubpass_def Let_def)
        with rp fb a r d show ?thesis
          by (intro that) simp_all
      qed
    qed
  qed
qed

lemma nodispatch_BeginRenderSubpass:
  assumes "Execute_BeginRenderSubpass env s = Inr (s', calls)"
  shows "\<forall>call\<in>set calls. \<not> isDispatchCall call"
proof -
  from assms obtain renderPass framebuffer attachCalls drawBuffers attachmentCount
      depthStencilCalls where
    a: "BeginRenderSubpass_attachColor env framebuffer
          (GetSubpassInfo renderPass (currentSubpass s))
          = Inr (attachCalls, drawBuffers, attachmentCount)"
    and d: "BeginRenderSubpass_attachDepthStencil env framebuffer
          (GetSubpassInfo renderPass (currentSubpass s)) = Inr depthStencilCalls"
    and calls: "calls =
           [glBindFramebuffer GL_READ_FRAMEBUFFER 0,
            glGenFramebuffers (genFramebuffer env (generated s)),
            glBindFramebuffer GL_DRAW_FRAMEBUFFER (genFramebuffer env (generated s))]
           @ attachCalls
           @ [glDrawBuffers attachmentCount (map drawBuffers [0..<attachmentCount])]
           @ depthStencilCalls
           @ BeginRenderSubpass_colorLoadOps env renderPass framebuffer (currentSubpass s)
               (GetSubpassInfo renderPass (currentSubpass s))
           @ BeginRenderSubpass_depthStencilLoadOps env renderPass framebuffer
               (currentSubpass s) (GetSubpassInfo renderPass (currentSubpass s))
           @ [glBlendColor 0 0 0 0,
              glViewport 0 0 (GetWidth framebuffer) (GetHeight framebuffer)]"
    by (rule Execute_BeginRenderSubpass_Inr)
  show ?thesis
    using plain_attachColor [OF a] plain_attachDepthStencil [OF d]
      nodispatch_colorLoadOps [of env renderPass framebuffer "currentSubpass s"
        "GetSubpassInfo renderPass (currentSubpass s)"]
      nodispatch_depthStencilLoadOps [of env renderPass framebuffer "currentSubpass s"
        "GetSubpassInfo renderPass (currentSubpass s)"]
    unfolding calls by (auto simp add: plainCall_def isDispatchCall_def)
qed

lemma plain_SetBinding: "\<forall>call\<in>set (Execute_SetBinding p groupIndex g binding). plainCall call"
  by (auto simp add: Execute_SetBinding_def plainCall_def isDispatchCall_def isClearCall_def
      Let_def split: BindingType.splits)

lemma plain_SetBindGroup:
  "Execute_SetBindGroup env s groupIndex g = Inr calls \<Longrightarrow> \<forall>call\<in>set calls. plainCall call"
  using plain_SetBinding
  by (auto simp add: Execute_SetBindGroup_def split: option.splits)

lemma plain_ApplyForDraw:
  assumes "Execute_ApplyForDraw env s = Inr (s', calls, rp)"
  shows "\<forall>call\<in>set calls. plainCall call"
proof (cases "lastPipeline s")
  case None
  with assms show ?thesis by (simp add: Execute_ApplyForDraw_def)
next
  case p: (Some p)
  show ?thesis
  proof (cases "InputBufferTracker_Apply env (inputBuffers s)")
    case (Inl e)
    with assms p show ?thesis
      by (simp add: Execute_ApplyForDraw_def split: prod.splits)
  next
    case (Inr r)
    obtain inputs inputCalls where r: "r = (inputs, inputCalls)" by (cases r)
    from assms p Inr r
    have "calls = snd (PushConstantTracker_Apply env p p (pushConstants s)) @ inputCalls"
      by (auto simp add: Execute_ApplyForDraw_def split: prod.splits option.splits)
    then show ?thesis
      using plain_InputBufferTracker_Apply [OF Inr [unfolded r]]
        plain_PushConstantTracker_Apply [of env p p "pushConstants s"]
      by auto
  qed
qed

lemma Execute_Dispatch_Inr:
  assumes "Execute_Dispatch env s x y z = Inr (s', calls)"
  shows "\<exists>uniforms. calls = uniforms @ [glDispatchCompute x y z, glMemoryBarrier GL_ALL_BARRIER_BITS]
           \<and> (\<forall>call\<in>set uniforms. plainCall call)"
proof (cases "lastPipeline s")
  case None
  with assms show ?thesis by (simp add: Execute_Dispatch_def)
next
  case (Some p)
  with assms have "calls = snd (PushConstantTracker_Apply env p p (pushConstants s))
      @ [glDispatchCompute x y z, glMemoryBarrier GL_ALL_BARRIER_BITS]"
    by (auto simp add: Execute_Dispatch_def split: prod.splits)
  then show ?thesis
    using plain_PushConstantTracker_Apply [of env p p "pushConstants s"] by blast
qed

lemma Execute_command_plain:
  assumes "Execute_command env s command = Inr (s', calls)"
    and "\<not> isDispatchCommand command" and "command \<noteq> BeginRenderSubpass"
  shows "\<forall>call\<in>set calls. plainCall call"
proof (cases command)
  case (CopyBufferToTexture src dst rowPitch)
  with assms(1) show ?thesis
    by (auto simp add: Execute_CopyBufferToTexture_def plainCall_def isDispatchCall_def
        isClearCall_def Let_def split: sum.splits if_splits)
next
  case (CopyTextureToBuffer src dst rowPitch)
  with assms(1) show ?thesis
    by (auto simp add: Execute_CopyTextureToBuffer_def plainCall_def isDispatchCall_def
        isClearCall_def Let_def split: if_splits)
next
  case (DrawArrays vertexCount instanceCount firstVertex firstInstance)
  with assms(1) show ?thesis
    by (auto simp add: Execute_DrawArrays_def plainCall_def isDispatchCall_def isClearCall_def
        split: sum.splits if_splits dest!: plain_ApplyForDraw)
next
  case (DrawElements indexCount instanceCount firstIndex firstInstance)
  with assms(1) show ?thesis
    by (auto simp add: Execute_DrawElements_def plainCall_def isDispatchCall_def isClearCall_def
        Let_def split: sum.splits if_splits dest!: plain_ApplyForDraw)
next
  case (SetBindGroup index g)
  with assms(1) show ?thesis
    by (auto split: sum.splits dest!: plain_SetBindGroup)
next
  case (Dispatch x y z)
  with assms(2) show ?thesis by (simp add: isDispatchCommand_def)
next
  case BeginRenderSubpass
  with assms(3) show ?thesis by simp
qed (use assms(1) in \<open>auto simp add: Execute_CopyBufferToBuffer_def plainCall_def
      isDispatchCall_def isClearCall_def split: sum.splits\<close>)

lemma Execute_command_nodispatch:
  assumes "Execute_command env s command = Inr (s', calls)"
    and "\<not> isDispatchCommand command"
  shows "\<forall>call\<in>set calls. \<not> isDispatchCall call"
proof (cases "command = BeginRenderSubpass")
  case True
  with assms(1) show ?thesis by (simp add: nodispatch_BeginRenderSubpass)
next
  case False
  with assms have "\<forall>call\<in>set calls. plainCall call" by (rule Execute_command_plain)
  then show ?thesis by (simp add: plainCall_def)
qed

lemma fenced_nodispatch: "\<forall>call\<in>set calls. \<not> isDispatchCall call \<Longrightarrow> fenced calls"
  by (induction calls) simp_all

lemma fenced_append: "fenced xs \<Longrightarrow> fenced ys \<Longrightarrow> fenced (xs @ ys)"
proof (induction xs)
  case Nil
  then show ?case by simp
next
  case (Cons x xs)
  then show ?case by (cases xs) (auto split: if_splits)
qed

lemma fenced_dispatch:
  "fenced [glDispatchCompute x y z, glMemoryBarrier GL_ALL_BARRIER_BITS]"
  by (simp add: isDispatchCall_def)

lemma Execute_command_fenced:
  assumes "Execute_command env s command = Inr (s', calls)"
  shows "fenced calls"
    and "length (filter isDispatchCall calls) = (if isDispatchCommand command then 1 else 0)"
proof -
  have "fenced calls
      \<and> length (filter isDispatchCall calls) = (if isDispatchCommand command then 1 else 0)"
  proof (cases "isDispatchCommand command")
    case True
    then obtain x y z where c: "command = Dispatch x y z"
      by (cases command) (simp_all add: isDispatchCommand_def)
    with assms obtain uniforms where
      calls: "calls = uniforms @ [glDispatchCompute x y z, glMemoryBarrier GL_ALL_BARRIER_BITS]"
      and plain: "\<forall>call\<in>set uniforms. plainCall call"
      using Execute_Dispatch_Inr [of env s x y z s' calls] by auto
    from plain have nd: "\<forall>call\<in>set uniforms. \<not> isDispatchCall call"
      by (simp add: plainCall_def)
    then have "filter isDispatchCall uniforms = []"
      by (simp add: filter_empty_conv)
    moreover have "fenced calls"
      unfolding calls using nd by (intro fenced_append fenced_nodispatch fenced_dispatch)
    ultimately show ?thesis using True by (simp add: calls isDispatchCall_def)
  next
    case False
    with assms have nd: "\<forall>call\<in>set calls. \<not> isDispatchCall call"
      by (rule Execute_command_nodispatch)
    then have "filter isDispatchCall calls = []" by (simp add: filter_empty_conv)
    with nd False show ?thesis by (simp add: fenced_nodispatch)
  qed
  then show "fenced calls"
    and "length (filter isDispatchCall calls) = (if isDispatchCommand command then 1 else 0)"
    by simp_all
qed

lemma Execute_loop_length:
  assumes "Execute_loop env s commands = (groups, s', stopped)"
  shows "length groups \<le> length commands"
    and "stopped = None \<Longrightarrow> length groups = length commands"
  using assms
proof (induction commands arbitrary: s groups s' stopped)
  case Nil
  { case 1 then show ?case by simp }
  { case 2 then show ?case by simp }
next
  case (Cons command commands)
  { case 1
    then show ?case
      using Cons.IH(1) by (auto split: sum.splits prod.splits) }
  { case 2
    then show ?case
      using Cons.IH(2) by (auto split: sum.splits prod.splits) }
qed

lemma Execute_loop_all2:
  assumes "Execute_loop env s commands = (groups, s', stopped)"
    and "\<And>s command s' calls. Execute_command env s command = Inr (s', calls) \<Longrightarrow> P command calls"
  shows "list_all2 P (take (length groups) commands) groups"
  using assms(1)
proof (induction commands arbitrary: s groups s' stopped)
  case Nil
  then show ?case by simp
next
  case (Cons command commands)
  show ?case
  proof (cases "Execute_command env s command")
    case (Inl e)
    with Cons.prems show ?thesis by simp
  next
    case (Inr r)
    obtain s1 calls where r: "r = (s1, calls)" by (cases r)
    obtain later s2 st where l: "Execute_loop env s1 commands = (later, s2, st)"
      by (cases "Execute_loop env s1 commands")
    from Cons.prems Inr r l have g: "groups = calls # later" by simp
    have "P command calls" using Inr [unfolded r] by (rule assms(2))
    with Cons.IH [OF l] g show ?thesis by simp
  qed
qed

lemma Execute_loop_nth:
  assumes "Execute_loop env s commands = (groups, s', stopped)"
    and "\<And>s command s' calls. Execute_command env s command = Inr (s', calls) \<Longrightarrow> P command calls"
    and "k < length groups"
  shows "P (commands ! k) (groups ! k)"
proof -
  have "list_all2 P (take (length groups) commands) groups"
    using assms(1,2) by (rule Execute_loop_all2)
  from list_all2_nthD2 [OF this assms(3)] assms(3) show ?thesis by simp
qed

lemma fenced_concat: "\<forall>calls\<in>set groups. fenced calls \<Longrightarrow> fenced (concat groups)"
  by (induction groups) (simp_all add: fenced_append)

lemma Execute_loop_fenced:
  assumes "Execute_loop env s commands = (groups, s', stopped)"
  shows "fenced (concat groups)"
proof -
  have "list_all2 (\<lambda>command calls. fenced calls) (take (length groups) commands) groups"
    using assms by (rule Execute_loop_all2) (rule Execute_command_fenced)
  then have "\<forall>calls\<in>set groups. fenced calls"
    by (auto simp add: list_all2_conv_all_nth in_set_conv_nth)
  then show ?thesis by (rule fenced_concat)
qed

lemma Execute_loop_dispatches:
  assumes "Execute_loop env s commands = (groups, s', stopped)"
  shows "length (filter isDispatchCall (concat groups))
           = length (filter isDispatchCommand (take (length groups) commands))"
  using assms
proof (induction commands arbitrary: s groups s' stopped)
  case Nil
  then show ?case by simp
next
  case (Cons command commands)
  show ?case
  proof (cases "Execute_command env s command")
    case (Inl e)
    with Cons.prems show ?thesis by simp
  next
    case (Inr r)
    obtain s1 calls where r: "r = (s1, calls)" by (cases r)
    obtain later s2 st where l: "Execute_loop env s1 commands = (later, s2, st)"
      by (cases "Execute_loop env s1 commands")
    from Cons.prems Inr r l have g: "groups = calls # later" by simp
    from Execute_command_fenced(2) [OF Inr [unfolded r]] Cons.IH [OF l] g
    show ?thesis by simp
  qed
qed

lemma computeStream0_run:
  "fst (Execute_loop env0 (ExecuteState_new env0) computeStream0)
     = [[], [ComputePipeline_ApplyNow 3], [],
        [glUniform1i 10 5, glDispatchCompute 8 4 1, glMemoryBarrier GL_ALL_BARRIER_BITS],
        [glDispatchCompute 1 1 1, glMemoryBarrier GL_ALL_BARRIER_BITS], []]"
  "snd (snd (Execute_loop env0 (ExecuteState_new env0) computeStream0)) = None"
  by (simp_all add: computeStream0_def ExecuteState_new_def Execute_Dispatch_def
      pushConstant_eval)

text \<open>
  C7. Every \<open>Dispatch\<close> command that \<open>Execute\<close> carries out makes, after the uniform writes
  of the push constants, the call \<open>glDispatchCompute\<close> and at once
  \<open>glMemoryBarrier(GL_ALL_BARRIER_BITS)\<close>, before the next command is looked at: the calls
  of the command end with these two. Hence in the whole sequence of calls of \<open>Execute\<close>,
  and of the loop started in any state, each dispatch is followed immediately by the full
  barrier; and when the stream is run to its end there are as many dispatches as \<open>Dispatch\<close>
  commands. (A \<open>Dispatch\<close> with no pipeline bound stops the program before any dispatch.)
\<close>

theorem Dispatch_followed_by_full_barrier:
  "fenced (fst (Execute env commands))
   \<and> (snd (Execute env commands) = None \<longrightarrow>
        length (filter isDispatchCall (fst (Execute env commands)))
          = length (filter isDispatchCommand commands))
   \<and> fenced (concat (fst (Execute_loop env s commands)))
   \<and> length (fst (Execute_loop env s commands)) \<le> length commands
   \<and> (\<forall>k<length (fst (Execute_loop env s commands)). \<forall>x y z.
        commands ! k = Dispatch x y z \<longrightarrow>
          (\<exists>uniforms. fst (Execute_loop env s commands) ! k
             = uniforms @ [glDispatchCompute x y z, glMemoryBarrier GL_ALL_BARRIER_BITS]
           \<and> (\<forall>call\<in>set uniforms. \<not> isDispatchCall call)))"
proof (intro conjI impI allI)
  obtain groups0 s0 stopped0 where
    l: "Execute_loop env (ExecuteState_new env) commands = (groups0, s0, stopped0)"
    by (cases "Execute_loop env (ExecuteState_new env) commands")
  have e: "Execute env commands
      = ([PersistentPipelineState_SetDefaultState] @ concat groups0
           @ (if stopped0 = None then [glBindSampler 0 0] else []), stopped0)"
    by (simp add: Execute_def l)
  have "fenced [PersistentPipelineState_SetDefaultState]"
    and "fenced (if stopped0 = None then [glBindSampler 0 0] else [])"
    by (simp_all add: isDispatchCall_def)
  then show "fenced (fst (Execute env commands))"
    unfolding e fst_conv by (intro fenced_append Execute_loop_fenced [OF l])
  show "length (filter isDispatchCall (fst (Execute env commands)))
          = length (filter isDispatchCommand commands)"
    if "snd (Execute env commands) = None"
  proof -
    from that have "stopped0 = None" by (simp add: e)
    then have "length groups0 = length commands"
      by (rule Execute_loop_length(2) [OF l])
    with Execute_loop_dispatches [OF l] show ?thesis
      by (simp add: e isDispatchCall_def)
  qed
next
  obtain groups s' stopped where
    l: "Execute_loop env s commands = (groups, s', stopped)"
    by (cases "Execute_loop env s commands")
  show "fenced (concat (fst (Execute_loop env s commands)))"
    using Execute_loop_fenced [OF l] by (simp add: l)
  show "length (fst (Execute_loop env s commands)) \<le> length commands"
    using Execute_loop_length(1) [OF l] by (simp add: l)
  fix k x y z
  assume "k < length (fst (Execute_loop env s commands))"
    and c: "commands ! k = Dispatch x y z"
  then have k: "k < length groups" by (simp add: l)
  have "\<forall>x y z. commands ! k = Dispatch x y z \<longrightarrow>
      (\<exists>uniforms. groups ! k
         = uniforms @ [glDispatchCompute x y z, glMemoryBarrier GL_ALL_BARRIER_BITS]
       \<and> (\<forall>call\<in>set uniforms. \<not> isDispatchCall call))"
    using l _ k
  proof (rule Execute_loop_nth)
    fix s1 command s2 calls
    assume "Execute_command env s1 command = Inr (s2, calls)"
    then show "\<forall>x y z. command = Dispatch x y z \<longrightarrow>
      (\<exists>uniforms. calls
         = uniforms @ [glDispatchCompute x y z, glMemoryBarrier GL_ALL_BARRIER_BITS]
       \<and> (\<forall>call\<in>set uniforms. \<not> isDispatchCall call))"
      using Execute_Dispatch_Inr [of env s1 _ _ _ s2 calls]
      by (auto simp add: plainCall_def) blast
  qed
  with c show "\<exists>uniforms. fst (Execute_loop env s commands) ! k
         = uniforms @ [glDispatchCompute x y z, glMemoryBarrier GL_ALL_BARRIER_BITS]
       \<and> (\<forall>call\<in>set uniforms. \<not> isDispatchCall call)"
    by (simp add: l)
qed

theorem Dispatch_followed_by_full_barrier_witness:
  "snd (Execute env0 computeStream0) = None
   \<and> fst (Execute env0 computeStream0)
       = [PersistentPipelineState_SetDefaultState, ComputePipeline_ApplyNow 3,
          glUniform1i 10 5, glDispatchCompute 8 4 1, glMemoryBarrier GL_ALL_BARRIER_BITS,
          glDispatchCompute 1 1 1, glMemoryBarrier GL_ALL_BARRIER_BITS, glBindSampler 0 0]
   \<and> fenced (fst (Execute env0 computeStream0))
   \<and> length (filter isDispatchCall (fst (Execute env0 computeStream0))) = 2
   \<and> computeStream0 ! 3 = Dispatch 8 4 1
   \<and> (\<exists>uniforms. fst (Execute_loop env0 (ExecuteState_new env0) computeStream0) ! 3
         = uniforms @ [glDispatchCompute 8 4 1, glMemoryBarrier GL_ALL_BARRIER_BITS]
       \<and> (\<forall>call\<in>set uniforms. \<not> isDispatchCall call))"
proof -
  have run: "snd (Execute env0 computeStream0) = None"
    and calls: "fst (Execute env0 computeStream0)
       = [PersistentPipelineState_SetDefaultState, ComputePipeline_ApplyNow 3,
          glUniform1i 10 5, glDispatchCompute 8 4 1, glMemoryBarrier GL_ALL_BARRIER_BITS,
          glDispatchCompute 1 1 1, glMemoryBarrier GL_ALL_BARRIER_BITS, glBindSampler 0 0]"
    using computeStream0_run by (simp_all add: Execute_def split_beta)
  have commands: "length (filter isDispatchCommand computeStream0) = 2"
    "computeStream0 ! 3 = Dispatch 8 4 1"
    by (simp_all add: computeStream0_def isDispatchCommand_def)
  have k: "3 < length (fst (Execute_loop env0 (ExecuteState_new env0) computeStream0))"
    by (simp add: computeStream0_run)
  note barrier =
    Dispatch_followed_by_full_barrier [of env0 computeStream0 "ExecuteState_new env0"]
  from barrier have fenced: "fenced (fst (Execute env0 computeStream0))"
    by (rule conjunct1)
  from barrier run
  have "length (filter isDispatchCall (fst (Execute env0 computeStream0)))
      = length (filter isDispatchCommand computeStream0)"
    by blast
  with commands(1)
  have count: "length (filter isDispatchCall (fst (Execute env0 computeStream0))) = 2"
    by simp
  from barrier
  have "\<forall>k<length (fst (Execute_loop env0 (ExecuteState_new env0) computeStream0)).
      \<forall>x y z. computeStream0 ! k = Dispatch x y z \<longrightarrow>
        (\<exists>uniforms. fst (Execute_loop env0 (ExecuteState_new env0) computeStream0) ! k
           = uniforms @ [glDispatchCompute x y z, glMemoryBarrier GL_ALL_BARRIER_BITS]
         \<and> (\<forall>call\<in>set uniforms. \<not> isDispatchCall call))"
    by blast
  with k commands(2)
  have "\<exists>uniforms. fst (Execute_loop env0 (ExecuteState_new env0) computeStream0) ! 3
         = uniforms @ [glDispatchCompute 8 4 1, glMemoryBarrier GL_ALL_BARRIER_BITS]
       \<and> (\<forall>call\<in>set uniforms. \<not> isDispatchCall call)"
    by blast
  with run calls commands fenced count show ?thesis by blast
qed
subsection \<open>The load operations of a render pass\<close>

lemma colorClearsOf_append:
  "colorClearsOf env a subpass (xs @ ys)
     = colorClearsOf env a subpass xs + colorClearsOf env a subpass ys"
  by (simp add: colorClearsOf_def)

lemma depthClearsOf_append:
  "depthClearsOf a subpass (xs @ ys) = depthClearsOf a subpass xs + depthClearsOf a subpass ys"
  by (simp add: depthClearsOf_def)

lemma stencilClearsOf_append:
  "stencilClearsOf a subpass (xs @ ys)
     = stencilClearsOf a subpass xs + stencilClearsOf a subpass ys"
  by (simp add: stencilClearsOf_def)

lemma clears_plain:
  assumes "\<forall>call\<in>set calls. \<not> isClearCall call"
  shows "colorClearsOf env a subpass calls = 0"
    and "depthClearsOf a subpass calls = 0"
    and "stencilClearsOf a subpass calls = 0"
    and "filter isClearCall calls = []"
proof -
  have "\<not> (case call of
          glClearBufferfv buffer' location vals \<Rightarrow> P buffer' location vals
        | glClearBufferfi buffer' drawbuffer depth' stencil' \<Rightarrow>
            Q buffer' drawbuffer depth' stencil'
        | glClearBufferiv buffer' drawbuffer vals \<Rightarrow> R buffer' drawbuffer vals
        | _ \<Rightarrow> False)"
    if "call \<in> set calls" for call P Q R
  proof -
    from that assms have "\<not> isClearCall call" by simp
    then show ?thesis by (cases call) (simp_all add: isClearCall_def)
  qed
  note none = this
  show "colorClearsOf env a subpass calls = 0"
    using none [of _ _ "\<lambda>b d x y. False" "\<lambda>b d v. False"]
    by (simp add: colorClearsOf_def filter_empty_conv split: GLCall.splits) 
  show "depthClearsOf a subpass calls = 0"
    using none [of _ "\<lambda>b d v. b = GL_DEPTH" "\<lambda>b d x y. b = GL_DEPTH_STENCIL" "\<lambda>b d v. False"]
    by (simp add: depthClearsOf_def filter_empty_conv split: GLCall.splits)
  show "stencilClearsOf a subpass calls = 0"
    using none [of _ "\<lambda>b d v. False" "\<lambda>b d x y. b = GL_DEPTH_STENCIL" "\<lambda>b d v. b = GL_STENCIL"]
    by (simp add: stencilClearsOf_def filter_empty_conv split: GLCall.splits)
  show "filter isClearCall calls = []"
    using assms by (simp add: filter_empty_conv)
qed

lemma colorClearsOf_colorLoadOps:
  "colorClearsOf env a subpass
     (BeginRenderSubpass_colorLoadOps env renderPass framebuffer i subpass)
   = (if firstSubpass (GetAttachmentInfo renderPass a) = i
         \<and> colorLoadOp (GetAttachmentInfo renderPass a) = LoadOp_Clear
      then colorReferences env a subpass else 0)"
proof -
  have "length (filter (\<lambda>call. case call of
            glClearBufferfv buffer' location vals \<Rightarrow>
              buffer' = GL_COLOR \<and> location < kMaxColorAttachments env
              \<and> bit (colorAttachmentsSet subpass) location
              \<and> colorAttachments subpass location = a
          | _ \<Rightarrow> False)
        (concat (map (\<lambda>location.
           let attachmentSlot = colorAttachments subpass location;
               attachmentInfo = GetAttachmentInfo renderPass attachmentSlot
           in if firstSubpass attachmentInfo = i then
                (if colorLoadOp attachmentInfo = LoadOp_Clear
                 then [glClearBufferfv GL_COLOR location (GetClearColor framebuffer location)]
                 else [])
              else []) locations)))
      = (if firstSubpass (GetAttachmentInfo renderPass a) = i
            \<and> colorLoadOp (GetAttachmentInfo renderPass a) = LoadOp_Clear
         then length (filter (\<lambda>location. colorAttachments subpass location = a) locations)
         else 0)"
    if "\<forall>location\<in>set locations.
          location < kMaxColorAttachments env \<and> bit (colorAttachmentsSet subpass) location"
    for locations
    using that by (induction locations) (simp_all add: Let_def)
  from this [of "IterateBitSet (kMaxColorAttachments env) (colorAttachmentsSet subpass)"]
  show ?thesis
    by (simp add: colorClearsOf_def BeginRenderSubpass_colorLoadOps_def colorReferences_def
        IterateBitSet_set)
qed

lemma depthStencilClearsOf_colorLoadOps:
  "depthClearsOf a subpass
     (BeginRenderSubpass_colorLoadOps env renderPass framebuffer i subpass) = 0"
  "stencilClearsOf a subpass
     (BeginRenderSubpass_colorLoadOps env renderPass framebuffer i subpass) = 0"
  by (auto simp add: depthClearsOf_def stencilClearsOf_def BeginRenderSubpass_colorLoadOps_def
      filter_empty_conv Let_def split: if_splits)

lemma colorClearsOf_depthStencilLoadOps:
  "colorClearsOf env a subpass
     (BeginRenderSubpass_depthStencilLoadOps env renderPass framebuffer i subpass) = 0"
  by (simp add: colorClearsOf_def BeginRenderSubpass_depthStencilLoadOps_def Let_def)

lemma depthClearsOf_depthStencilLoadOps:
  "depthClearsOf a subpass
     (BeginRenderSubpass_depthStencilLoadOps env renderPass framebuffer i subpass)
   = (if depthStencilAttachmentSet subpass \<and> depthStencilAttachment subpass = a
         \<and> firstSubpass (GetAttachmentInfo renderPass a) = i
         \<and> TextureFormatHasDepth env (attachment_format (GetAttachmentInfo renderPass a))
         \<and> depthLoadOp (GetAttachmentInfo renderPass a) = LoadOp_Clear
      then 1 else 0)"
  by (simp add: depthClearsOf_def BeginRenderSubpass_depthStencilLoadOps_def Let_def)

lemma stencilClearsOf_depthStencilLoadOps:
  "stencilClearsOf a subpass
     (BeginRenderSubpass_depthStencilLoadOps env renderPass framebuffer i subpass)
   = (if depthStencilAttachmentSet subpass \<and> depthStencilAttachment subpass = a
         \<and> firstSubpass (GetAttachmentInfo renderPass a) = i
         \<and> TextureFormatHasStencil env (attachment_format (GetAttachmentInfo renderPass a))
         \<and> stencilLoadOp (GetAttachmentInfo renderPass a) = LoadOp_Clear
      then 1 else 0)"
  by (simp add: stencilClearsOf_def BeginRenderSubpass_depthStencilLoadOps_def Let_def)

text \<open>What \<open>BeginRenderSubpass\<close> clears, for the subpass it begins.\<close>

lemma Execute_BeginRenderSubpass_clears:
  assumes "Execute_BeginRenderSubpass env s = Inr (s', calls)"
    and "currentRenderPass s = Some renderPass"
  shows "colorClearsOf env a (GetSubpassInfo renderPass (currentSubpass s)) calls
       = (if firstSubpass (GetAttachmentInfo renderPass a) = currentSubpass s
             \<and> colorLoadOp (GetAttachmentInfo renderPass a) = LoadOp_Clear
          then colorReferences env a (GetSubpassInfo renderPass (currentSubpass s)) else 0)"
    and "depthClearsOf a (GetSubpassInfo renderPass (currentSubpass s)) calls
       = (if depthStencilAttachmentSet (GetSubpassInfo renderPass (currentSubpass s))
             \<and> depthStencilAttachment (GetSubpassInfo renderPass (currentSubpass s)) = a
             \<and> firstSubpass (GetAttachmentInfo renderPass a) = currentSubpass s
             \<and> TextureFormatHasDepth env (attachment_format (GetAttachmentInfo renderPass a))
             \<and> depthLoadOp (GetAttachmentInfo renderPass a) = LoadOp_Clear
          then 1 else 0)"
    and "stencilClearsOf a (GetSubpassInfo renderPass (currentSubpass s)) calls
       = (if depthStencilAttachmentSet (GetSubpassInfo renderPass (currentSubpass s))
             \<and> depthStencilAttachment (GetSubpassInfo renderPass (currentSubpass s)) = a
             \<and> firstSubpass (GetAttachmentInfo renderPass a) = currentSubpass s
             \<and> TextureFormatHasStencil env (attachment_format (GetAttachmentInfo renderPass a))
             \<and> stencilLoadOp (GetAttachmentInfo renderPass a) = LoadOp_Clear
          then 1 else 0)"
proof -
  from assms(1) obtain renderPass' framebuffer attachCalls drawBuffers attachmentCount
      depthStencilCalls where
    rp: "currentRenderPass s = Some renderPass'"
    and at: "BeginRenderSubpass_attachColor env framebuffer
          (GetSubpassInfo renderPass' (currentSubpass s))
          = Inr (attachCalls, drawBuffers, attachmentCount)"
    and d: "BeginRenderSubpass_attachDepthStencil env framebuffer
          (GetSubpassInfo renderPass' (currentSubpass s)) = Inr depthStencilCalls"
    and calls: "calls =
           [glBindFramebuffer GL_READ_FRAMEBUFFER 0,
            glGenFramebuffers (genFramebuffer env (generated s)),
            glBindFramebuffer GL_DRAW_FRAMEBUFFER (genFramebuffer env (generated s))]
           @ attachCalls
           @ [glDrawBuffers attachmentCount (map drawBuffers [0..<attachmentCount])]
           @ depthStencilCalls
           @ BeginRenderSubpass_colorLoadOps env renderPass' framebuffer (currentSubpass s)
               (GetSubpassInfo renderPass' (currentSubpass s))
           @ BeginRenderSubpass_depthStencilLoadOps env renderPass' framebuffer
               (currentSubpass s) (GetSubpassInfo renderPass' (currentSubpass s))
           @ [glBlendColor 0 0 0 0,
              glViewport 0 0 (GetWidth framebuffer) (GetHeight framebuffer)]"
    by (rule Execute_BeginRenderSubpass_Inr)
  from rp assms(2) have same: "renderPass' = renderPass" by simp
  let ?subpass = "GetSubpassInfo renderPass (currentSubpass s)"
  have p1: "\<forall>call\<in>set [glBindFramebuffer GL_READ_FRAMEBUFFER 0,
            glGenFramebuffers (genFramebuffer env (generated s)),
            glBindFramebuffer GL_DRAW_FRAMEBUFFER (genFramebuffer env (generated s))].
          \<not> isClearCall call"
    and p2: "\<forall>call\<in>set attachCalls. \<not> isClearCall call"
    and p3: "\<forall>call\<in>set [glDrawBuffers attachmentCount (map drawBuffers [0..<attachmentCount])].
          \<not> isClearCall call"
    and p4: "\<forall>call\<in>set depthStencilCalls. \<not> isClearCall call"
    and p5: "\<forall>call\<in>set [glBlendColor 0 0 0 0,
              glViewport 0 0 (GetWidth framebuffer) (GetHeight framebuffer)].
          \<not> isClearCall call"
    using plain_attachColor [OF at] plain_attachDepthStencil [OF d]
    by (simp_all add: isClearCall_def plainCall_def)
  note zero = clears_plain [OF p1] clears_plain [OF p2] clears_plain [OF p3]
    clears_plain [OF p4] clears_plain [OF p5]
  show "colorClearsOf env a ?subpass calls
       = (if firstSubpass (GetAttachmentInfo renderPass a) = currentSubpass s
             \<and> colorLoadOp (GetAttachmentInfo renderPass a) = LoadOp_Clear
          then colorReferences env a ?subpass else 0)"
    unfolding calls same colorClearsOf_append
    by (simp add: zero colorClearsOf_colorLoadOps colorClearsOf_depthStencilLoadOps)
  show "depthClearsOf a ?subpass calls
       = (if depthStencilAttachmentSet ?subpass \<and> depthStencilAttachment ?subpass = a
             \<and> firstSubpass (GetAttachmentInfo renderPass a) = currentSubpass s
             \<and> TextureFormatHasDepth env (attachment_format (GetAttachmentInfo renderPass a))
             \<and> depthLoadOp (GetAttachmentInfo renderPass a) = LoadOp_Clear
          then 1 else 0)"
    unfolding calls same depthClearsOf_append
    by (simp add: zero depthStencilClearsOf_colorLoadOps depthClearsOf_depthStencilLoadOps)
  show "stencilClearsOf a ?subpass calls
       = (if depthStencilAttachmentSet ?subpass \<and> depthStencilAttachment ?subpass = a
             \<and> firstSubpass (GetAttachmentInfo renderPass a) = currentSubpass s
             \<and> TextureFormatHasStencil env (attachment_format (GetAttachmentInfo renderPass a))
             \<and> stencilLoadOp (GetAttachmentInfo renderPass a) = LoadOp_Clear
          then 1 else 0)"
    unfolding calls same stencilClearsOf_append
    by (simp add: zero depthStencilClearsOf_colorLoadOps stencilClearsOf_depthStencilLoadOps)
qed

subsection \<open>The pass and the subpass through the commands\<close>

lemma Execute_ApplyForDraw_pass:
  assumes "Execute_ApplyForDraw env s = Inr (s', calls, p)"
  shows "currentRenderPass s' = currentRenderPass s \<and> currentSubpass s' = currentSubpass s"
  using assms
  by (auto simp add: Execute_ApplyForDraw_def split: option.splits sum.splits prod.splits)

lemma Execute_command_pass:
  assumes "Execute_command env s command = Inr (s', calls)"
    and "\<forall>renderPass framebuffer. command \<noteq> BeginRenderPass renderPass framebuffer"
  shows "currentRenderPass s' = currentRenderPass s
       \<and> currentSubpass s'
           = (if command = EndRenderSubpass then currentSubpass s + 1 else currentSubpass s)"
proof (cases command)
  case (BeginRenderPass renderPass framebuffer)
  with assms(2) show ?thesis by simp
next
  case BeginRenderSubpass
  with assms(1) have "Execute_BeginRenderSubpass env s = Inr (s', calls)" by simp
  then have "currentRenderPass s' = currentRenderPass s"
    and "currentSubpass s' = currentSubpass s"
    by (rule Execute_BeginRenderSubpass_Inr; simp)+
  with BeginRenderSubpass show ?thesis by simp
next
  case (CopyTextureToBuffer src dst rowPitch)
  with assms(1) show ?thesis
    by (auto simp add: Execute_CopyTextureToBuffer_def Let_def split: if_splits)
next
  case (Dispatch x y z)
  with assms(1) show ?thesis
    by (auto simp add: Execute_Dispatch_def split: option.splits prod.splits)
next
  case (DrawArrays vertexCount instanceCount firstVertex firstInstance)
  with assms(1) show ?thesis
    by (auto simp add: Execute_DrawArrays_def split: sum.splits
        dest!: Execute_ApplyForDraw_pass)
next
  case (DrawElements indexCount instanceCount firstIndex firstInstance)
  with assms(1) show ?thesis
    by (auto simp add: Execute_DrawElements_def Let_def split: sum.splits
        dest!: Execute_ApplyForDraw_pass)
qed (use assms(1) in \<open>auto split: sum.splits\<close>)

lemma Execute_command_noclear:
  assumes "Execute_command env s command = Inr (s', calls)"
    and "command \<noteq> BeginRenderSubpass"
  shows "\<forall>call\<in>set calls. \<not> isClearCall call"
proof (cases "isDispatchCommand command")
  case True
  then obtain x y z where "command = Dispatch x y z"
    by (cases command) (simp_all add: isDispatchCommand_def)
  with assms(1) obtain uniforms where
    "calls = uniforms @ [glDispatchCompute x y z, glMemoryBarrier GL_ALL_BARRIER_BITS]"
    and "\<forall>call\<in>set uniforms. plainCall call"
    using Execute_Dispatch_Inr [of env s x y z s' calls] by auto
  then show ?thesis by (auto simp add: plainCall_def isClearCall_def)
next
  case False
  with assms have "\<forall>call\<in>set calls. plainCall call"
    by (intro Execute_command_plain)
  then show ?thesis by (simp add: plainCall_def)
qed

lemma clearsBySubpass_other:
  "command \<noteq> BeginRenderSubpass \<Longrightarrow> command \<noteq> EndRenderSubpass \<Longrightarrow>
     clearsBySubpass count renderPass i (command # commands) (calls # groups)
       = clearsBySubpass count renderPass i commands groups"
  by (cases command) simp_all

lemma subpassesBegun_other:
  "command \<noteq> BeginRenderSubpass \<Longrightarrow> command \<noteq> EndRenderSubpass \<Longrightarrow>
     subpassesBegun i (command # commands) = subpassesBegun i commands"
  by (cases command) simp_all

lemma clearsElsewhere_other:
  "command \<noteq> BeginRenderSubpass \<Longrightarrow>
     clearsElsewhere (command # commands) (calls # groups)
       = length (filter isClearCall calls) + clearsElsewhere commands groups"
  by (cases command) simp_all

lemma Execute_loop_clearsElsewhere:
  assumes "Execute_loop env s commands = (groups, s', stopped)"
  shows "clearsElsewhere commands groups = 0"
  using assms
proof (induction commands arbitrary: s groups s' stopped)
  case Nil
  then show ?case by simp
next
  case (Cons command commands)
  show ?case
  proof (cases "Execute_command env s command")
    case (Inl e)
    with Cons.prems show ?thesis by simp
  next
    case (Inr r)
    obtain s1 calls where r: "r = (s1, calls)" by (cases r)
    obtain later s2 st where l: "Execute_loop env s1 commands = (later, s2, st)"
      by (cases "Execute_loop env s1 commands")
    from Cons.prems Inr r l have g: "groups = calls # later" by simp
    show ?thesis
    proof (cases "command = BeginRenderSubpass")
      case True
      with Cons.IH [OF l] g show ?thesis by simp
    next
      case False
      have "\<forall>call\<in>set calls. \<not> isClearCall call"
        using Inr [unfolded r] False by (rule Execute_command_noclear)
      then have "filter isClearCall calls = []" by (simp add: filter_empty_conv)
      with Cons.IH [OF l] show ?thesis
        unfolding g clearsElsewhere_other [OF False] by simp
    qed
  qed
qed

lemma Execute_loop_clearsBySubpass:
  assumes "Execute_loop env s commands = (groups, s', stopped)"
    and "\<forall>command\<in>set commands. \<forall>renderPass framebuffer.
           command \<noteq> BeginRenderPass renderPass framebuffer"
    and "currentRenderPass s = Some renderPass"
    and count: "\<And>s s' calls. Execute_BeginRenderSubpass env s = Inr (s', calls) \<Longrightarrow>
           currentRenderPass s = Some renderPass \<Longrightarrow>
           count (GetSubpassInfo renderPass (currentSubpass s)) calls = F (currentSubpass s)"
  shows "clearsBySubpass count renderPass (currentSubpass s) commands groups
       = map F (subpassesBegun (currentSubpass s) (take (length groups) commands))"
  using assms(1-3)
proof (induction commands arbitrary: s groups s' stopped)
  case Nil
  then show ?case by simp
next
  case (Cons command commands)
  show ?case
  proof (cases "Execute_command env s command")
    case (Inl e)
    with Cons.prems show ?thesis by simp
  next
    case (Inr r)
    obtain s1 calls where r: "r = (s1, calls)" by (cases r)
    obtain later s2 st where l: "Execute_loop env s1 commands = (later, s2, st)"
      by (cases "Execute_loop env s1 commands")
    from Cons.prems(1) Inr r l have g: "groups = calls # later" by simp
    from Cons.prems(2)
    have c: "\<forall>renderPass framebuffer. command \<noteq> BeginRenderPass renderPass framebuffer"
      and cs: "\<forall>command\<in>set commands. \<forall>renderPass framebuffer.
           command \<noteq> BeginRenderPass renderPass framebuffer"
      by simp_all
    from Execute_command_pass [OF Inr [unfolded r] c] Cons.prems(3)
    have rp: "currentRenderPass s1 = Some renderPass"
      and sub: "currentSubpass s1
           = (if command = EndRenderSubpass then currentSubpass s + 1 else currentSubpass s)"
      by simp_all
    note IH = Cons.IH [OF l cs rp]
    consider (starting) "command = BeginRenderSubpass" | (ending) "command = EndRenderSubpass"
      | (other) "command \<noteq> BeginRenderSubpass" "command \<noteq> EndRenderSubpass"
      by blast
    then show ?thesis
    proof cases
      case starting
      with Inr r have "Execute_BeginRenderSubpass env s = Inr (s1, calls)" by simp
      then have "count (GetSubpassInfo renderPass (currentSubpass s)) calls
          = F (currentSubpass s)"
        using Cons.prems(3) by (rule count)
      with IH sub starting g show ?thesis by simp
    next
      case ending
      with IH sub g show ?thesis by simp
    next
      case other
      with IH sub show ?thesis
        unfolding g length_Cons take_Suc_Cons clearsBySubpass_other [OF other]
          subpassesBegun_other [OF other]
        by simp
    qed
  qed
qed

lemma subpassesBegun_inside:
  "\<forall>command\<in>set body. insideSubpass command \<Longrightarrow>
     subpassesBegun i (body @ commands) = subpassesBegun i commands"
proof (induction body)
  case Nil
  then show ?case by simp
next
  case (Cons command body)
  then have "insideSubpass command" and body: "\<forall>command\<in>set body. insideSubpass command"
    by simp_all
  then have "command \<noteq> BeginRenderSubpass" "command \<noteq> EndRenderSubpass"
    by (auto simp add: insideSubpass_def)
  then have "subpassesBegun i ((command # body) @ commands) = subpassesBegun i (body @ commands)"
    unfolding append_Cons by (rule subpassesBegun_other)
  with Cons.IH [OF body] show ?case by simp
qed

lemma subpassesBegun_bodies:
  assumes "\<forall>body\<in>set bodies. \<forall>command\<in>set body. insideSubpass command"
  shows "subpassesBegun i
           (concat (map (\<lambda>body. BeginRenderSubpass # body @ [EndRenderSubpass]) bodies)
            @ [EndRenderPass])
       = map (\<lambda>j. i + of_nat j) [0..<length bodies]"
  using assms
proof (induction bodies arbitrary: i)
  case Nil
  then show ?case by simp
next
  case (Cons body bodies)
  from Cons.prems have b: "\<forall>command\<in>set body. insideSubpass command"
    and bs: "\<forall>body\<in>set bodies. \<forall>command\<in>set body. insideSubpass command"
    by simp_all
  have "map (\<lambda>j. i + of_nat j) [0..<length (body # bodies)]
      = i # map (\<lambda>j. (i + 1) + of_nat j) [0..<length bodies]"
    by (simp add: map_upt_Suc del: upt_Suc)
  with Cons.IH [OF bs, of "i + 1"] show ?case
    by (simp add: subpassesBegun_inside [OF b])
qed

lemma no_BeginRenderPass_bodies:
  assumes "\<forall>body\<in>set bodies. \<forall>command\<in>set body. insideSubpass command"
  shows "\<forall>command\<in>set (concat (map (\<lambda>body. BeginRenderSubpass # body @ [EndRenderSubpass])
             bodies) @ [EndRenderPass]).
           \<forall>renderPass framebuffer. command \<noteq> BeginRenderPass renderPass framebuffer"
proof -
  have "command \<noteq> BeginRenderPass renderPass framebuffer"
    if "insideSubpass command" for command renderPass framebuffer
    using that by (auto simp add: insideSubpass_def)
  with assms show ?thesis by auto
qed

text \<open>The clears of a render pass run to its end, for any way to count them.\<close>

lemma renderPassStream_clears:
  assumes inside: "\<forall>body\<in>set bodies. \<forall>command\<in>set body. insideSubpass command"
    and complete:
      "snd (snd (Execute_loop env s (renderPassStream renderPass framebuffer bodies))) = None"
    and count: "\<And>s s' calls. Execute_BeginRenderSubpass env s = Inr (s', calls) \<Longrightarrow>
           currentRenderPass s = Some renderPass \<Longrightarrow>
           count (GetSubpassInfo renderPass (currentSubpass s)) calls = F (currentSubpass s)"
  shows "clearsBySubpass count renderPass 0 (renderPassStream renderPass framebuffer bodies)
           (fst (Execute_loop env s (renderPassStream renderPass framebuffer bodies)))
       = map (\<lambda>i. F (of_nat i)) [0..<length bodies]"
proof -
  let ?rest = "concat (map (\<lambda>body. BeginRenderSubpass # body @ [EndRenderSubpass]) bodies)
      @ [EndRenderPass]"
  let ?s1 = "s\<lparr> currentRenderPass := Some renderPass, currentFramebuffer := Some framebuffer,
      currentSubpass := 0 \<rparr>"
  obtain later s2 st where l: "Execute_loop env ?s1 ?rest = (later, s2, st)"
    by (cases "Execute_loop env ?s1 ?rest")
  have run: "Execute_loop env s (renderPassStream renderPass framebuffer bodies)
      = ([] # later, s2, st)"
    by (simp add: renderPassStream_def l)
  with complete have "st = None" by simp
  then have len: "length later = length ?rest"
    by (rule Execute_loop_length(2) [OF l])
  have "clearsBySubpass count renderPass (currentSubpass ?s1) ?rest later
      = map F (subpassesBegun (currentSubpass ?s1) (take (length later) ?rest))"
    using l no_BeginRenderPass_bodies [OF inside] _ count
    by (rule Execute_loop_clearsBySubpass) simp
  then have "clearsBySubpass count renderPass 0 ?rest later
      = map F (map (\<lambda>j. 0 + of_nat j) [0..<length bodies])"
    unfolding len using subpassesBegun_bodies [OF inside, of 0] by simp
  then show ?thesis
    unfolding run by (simp add: renderPassStream_def o_def)
qed

lemma once_at:
  fixes first :: u32 and f :: "nat \<Rightarrow> nat"
  assumes "first = of_nat j" and "j < n" and "n \<le> 2 ^ 32"
    and zero: "\<And>i. first \<noteq> of_nat i \<Longrightarrow> f i = 0"
    and one: "f j = v"
  shows "map f [0..<n] = (replicate n 0)[j := v]"
proof (rule nth_equalityI)
  show "length (map f [0..<n]) = length ((replicate n 0)[j := v])"
    by simp
  fix i
  assume "i < length (map f [0..<n])"
  then have i: "i < n" by simp
  with assms(2,3) have "i < 2 ^ 32" "j < 2 ^ 32" by simp_all
  then have "((of_nat j :: u32) = of_nat i) = (j = i)"
    by (simp add: word_of_nat_eq_iff take_bit_nat_eq_self)
  with assms(1) have "i \<noteq> j \<Longrightarrow> f i = 0"
    by (intro zero) auto
  with i assms(2) one show "map f [0..<n] ! i = (replicate n 0)[j := v] ! i"
    by (cases "i = j") (simp_all add: nth_list_update)
qed

subsection \<open>The render pass of the example\<close>

lemma upt_env0:
  "[0..<4] = [0, 1, 2, 3]"
  "[0..<16] = [0, 1, 2, 3, 4, 5, 6, 7, 8, 9, 10, 11, 12, 13, 14, 15]"
  "[0..<32] = [0, 1, 2, 3, 4, 5, 6, 7, 8, 9, 10, 11, 12, 13, 14, 15, 16, 17, 18,
         19, 20, 21, 22, 23, 24, 25, 26, 27, 28, 29, 30, 31]"
  by (simp_all add: upt_rec)

lemma IterateBitSet_env0:
  "IterateBitSet 4 bits = filter (bit bits) [0, 1, 2, 3]"
  "IterateBitSet 16 bits
     = filter (bit bits) [0, 1, 2, 3, 4, 5, 6, 7, 8, 9, 10, 11, 12, 13, 14, 15]"
  "IterateBitSet 32 bits
     = filter (bit bits) [0, 1, 2, 3, 4, 5, 6, 7, 8, 9, 10, 11, 12, 13, 14, 15, 16, 17, 18,
         19, 20, 21, 22, 23, 24, 25, 26, 27, 28, 29, 30, 31]"
  unfolding IterateBitSet_def upt_env0 by (rule refl)+

lemmas render_eval =
  renderStream0_def renderPassStream_def ExecuteState_new_def Execute_BeginRenderSubpass_def
  BeginRenderSubpass_attachColor_def BeginRenderSubpass_attachDepthStencil_def
  BeginRenderSubpass_colorLoadOps_def BeginRenderSubpass_depthStencilLoadOps_def
  renderPass0_def framebuffer0_def textureOf_def Execute_DrawArrays_def
  Execute_ApplyForDraw_def InputBufferTracker_OnBeginPass_def
  InputBufferTracker_new_def InputBufferTracker_OnSetPipeline_def
  InputBufferTracker_Apply_def InputBufferTracker_ApplySlot_def renderPipelineOf_def
  inputStateOf_def
  PushConstantTracker_OnSetPipeline_eq
  PushConstantTracker_OnBeginPass_eq PushConstantTracker_new_def PushConstantTracker_Apply_eq
  PushConstant_writes_def PushConstantTracker_ApplyConstant_def
  IterateBitSet_env0 env0_def pipelineOf_def pushConstantsOf_def
  bit_Suc_0_iff Let_def

lemma renderStream0_run:
  "snd (snd (Execute_loop env0 (ExecuteState_new env0) renderStream0)) = None"
  by (simp add: render_eval)

text \<open>
  C5 (as stated). Every attachment whose load operation is Clear would be cleared exactly
  once over the whole pass. The loop over the color locations of the subpass clears at each
  location whose attachment is in its first subpass, so an attachment that its first
  subpass has at two locations is cleared twice: with the attachment 0 at the locations 0
  and 1 of both subpasses, the first \<open>BeginRenderSubpass\<close> calls
  \<open>glClearBufferfv(GL_COLOR, 0, ...)\<close> and \<open>glClearBufferfv(GL_COLOR, 1, ...)\<close>, and these
  are the only clears of the pass.
\<close>

theorem attachment_at_two_locations_counterexample:
  "snd (snd (Execute_loop env0 (ExecuteState_new env0) renderStream1)) = None
   \<and> colorLoadOp (GetAttachmentInfo renderPass1 0) = LoadOp_Clear
   \<and> firstSubpass (GetAttachmentInfo renderPass1 0) = 0
   \<and> colorAttachments (GetSubpassInfo renderPass1 0) 0 = 0
   \<and> colorAttachments (GetSubpassInfo renderPass1 0) 1 = 0
   \<and> filter isClearCall
         (concat (fst (Execute_loop env0 (ExecuteState_new env0) renderStream1)))
       = [glClearBufferfv GL_COLOR 0 [0x3F800000, 0, 0, 0x3F800000],
          glClearBufferfv GL_COLOR 1 [0x3F800000, 0, 0, 0x3F800000]]
   \<and> clearsBySubpass (colorClearsOf env0 0) renderPass1 0 renderStream1
         (fst (Execute_loop env0 (ExecuteState_new env0) renderStream1)) = [2, 0]"
  by (simp add: renderStream1_def renderPass1_def isClearCall_def colorClearsOf_def
      render_eval)

text \<open>
  C5 (amended). A render pass is run to its end: \<open>BeginRenderPass\<close>, then for each subpass
  \<open>BeginRenderSubpass\<close>, commands of the subpass and \<open>EndRenderSubpass\<close>, then
  \<open>EndRenderPass\<close>. Then the only clears are those of the \<open>BeginRenderSubpass\<close> commands,
  and the \<open>BeginRenderSubpass\<close> of the subpass \<open>i\<close> clears an attachment only when \<open>i\<close> is the
  \<open>firstSubpass\<close> of the attachment and its load operation is Clear: a color attachment
  once for each location at which the subpass has it, a depth/stencil attachment once if
  the subpass has it as its depth/stencil attachment and its format has the aspect. So over
  the whole pass an attachment whose load operation is Clear is cleared in its first
  subpass \<open>j\<close> alone, as many times as that subpass has it (once when it has it at one
  location, never when it does not have it), and by no subpass that references it later.
\<close>

theorem LoadOp_Clear_once_on_first_subpass:
  assumes "\<forall>body\<in>set bodies. \<forall>command\<in>set body. insideSubpass command"
    and "snd (snd (Execute_loop env s (renderPassStream renderPass framebuffer bodies))) = None"
  shows "clearsBySubpass (colorClearsOf env a) renderPass 0
         (renderPassStream renderPass framebuffer bodies)
         (fst (Execute_loop env s (renderPassStream renderPass framebuffer bodies)))
       = map (\<lambda>i. if firstSubpass (GetAttachmentInfo renderPass a) = of_nat i
                \<and> colorLoadOp (GetAttachmentInfo renderPass a) = LoadOp_Clear
             then colorReferences env a (GetSubpassInfo renderPass (of_nat i)) else 0) [0..<length bodies]
   \<and> clearsBySubpass (depthClearsOf a) renderPass 0
         (renderPassStream renderPass framebuffer bodies)
         (fst (Execute_loop env s (renderPassStream renderPass framebuffer bodies)))
       = map (\<lambda>i. if depthStencilAttachmentSet (GetSubpassInfo renderPass (of_nat i))
                \<and> depthStencilAttachment (GetSubpassInfo renderPass (of_nat i)) = a
                \<and> firstSubpass (GetAttachmentInfo renderPass a) = of_nat i
                \<and> TextureFormatHasDepth env (attachment_format (GetAttachmentInfo renderPass a))
                \<and> depthLoadOp (GetAttachmentInfo renderPass a) = LoadOp_Clear
             then 1 else 0) [0..<length bodies]
   \<and> clearsBySubpass (stencilClearsOf a) renderPass 0
         (renderPassStream renderPass framebuffer bodies)
         (fst (Execute_loop env s (renderPassStream renderPass framebuffer bodies)))
       = map (\<lambda>i. if depthStencilAttachmentSet (GetSubpassInfo renderPass (of_nat i))
                \<and> depthStencilAttachment (GetSubpassInfo renderPass (of_nat i)) = a
                \<and> firstSubpass (GetAttachmentInfo renderPass a) = of_nat i
                \<and> TextureFormatHasStencil env (attachment_format (GetAttachmentInfo renderPass a))
                \<and> stencilLoadOp (GetAttachmentInfo renderPass a) = LoadOp_Clear
             then 1 else 0) [0..<length bodies]
   \<and> clearsElsewhere (renderPassStream renderPass framebuffer bodies)
         (fst (Execute_loop env s (renderPassStream renderPass framebuffer bodies))) = 0
   \<and> (j < length bodies \<and> length bodies \<le> 2 ^ 32
        \<and> firstSubpass (GetAttachmentInfo renderPass a) = of_nat j \<longrightarrow>
        (colorLoadOp (GetAttachmentInfo renderPass a) = LoadOp_Clear \<longrightarrow>
         clearsBySubpass (colorClearsOf env a) renderPass 0
         (renderPassStream renderPass framebuffer bodies)
         (fst (Execute_loop env s (renderPassStream renderPass framebuffer bodies)))
           = (replicate (length bodies) 0)
               [j := colorReferences env a (GetSubpassInfo renderPass (of_nat j))])
      \<and> (depthLoadOp (GetAttachmentInfo renderPass a) = LoadOp_Clear \<longrightarrow>
         clearsBySubpass (depthClearsOf a) renderPass 0
         (renderPassStream renderPass framebuffer bodies)
         (fst (Execute_loop env s (renderPassStream renderPass framebuffer bodies)))
           = (replicate (length bodies) 0)
               [j := (if depthStencilAttachmentSet (GetSubpassInfo renderPass (of_nat j))
                    \<and> depthStencilAttachment (GetSubpassInfo renderPass (of_nat j)) = a
                    \<and> TextureFormatHasDepth env (attachment_format (GetAttachmentInfo renderPass a))
                 then 1 else 0)])
      \<and> (stencilLoadOp (GetAttachmentInfo renderPass a) = LoadOp_Clear \<longrightarrow>
         clearsBySubpass (stencilClearsOf a) renderPass 0
         (renderPassStream renderPass framebuffer bodies)
         (fst (Execute_loop env s (renderPassStream renderPass framebuffer bodies)))
           = (replicate (length bodies) 0)
               [j := (if depthStencilAttachmentSet (GetSubpassInfo renderPass (of_nat j))
                    \<and> depthStencilAttachment (GetSubpassInfo renderPass (of_nat j)) = a
                    \<and> TextureFormatHasStencil env (attachment_format (GetAttachmentInfo renderPass a))
                 then 1 else 0)]))"
proof -
  have color: "clearsBySubpass (colorClearsOf env a) renderPass 0
         (renderPassStream renderPass framebuffer bodies)
         (fst (Execute_loop env s (renderPassStream renderPass framebuffer bodies)))
       = map (\<lambda>i. if firstSubpass (GetAttachmentInfo renderPass a) = of_nat i
                \<and> colorLoadOp (GetAttachmentInfo renderPass a) = LoadOp_Clear
             then colorReferences env a (GetSubpassInfo renderPass (of_nat i)) else 0) [0..<length bodies]"
    using assms
    by (rule renderPassStream_clears [where count = "colorClearsOf env a"
          and F = "\<lambda>i. if firstSubpass (GetAttachmentInfo renderPass a) = i
                \<and> colorLoadOp (GetAttachmentInfo renderPass a) = LoadOp_Clear
             then colorReferences env a (GetSubpassInfo renderPass i) else 0"])
      (rule Execute_BeginRenderSubpass_clears(1))
  have depth: "clearsBySubpass (depthClearsOf a) renderPass 0
         (renderPassStream renderPass framebuffer bodies)
         (fst (Execute_loop env s (renderPassStream renderPass framebuffer bodies)))
       = map (\<lambda>i. if depthStencilAttachmentSet (GetSubpassInfo renderPass (of_nat i))
                \<and> depthStencilAttachment (GetSubpassInfo renderPass (of_nat i)) = a
                \<and> firstSubpass (GetAttachmentInfo renderPass a) = of_nat i
                \<and> TextureFormatHasDepth env (attachment_format (GetAttachmentInfo renderPass a))
                \<and> depthLoadOp (GetAttachmentInfo renderPass a) = LoadOp_Clear
             then 1 else 0) [0..<length bodies]"
    using assms
    by (rule renderPassStream_clears [where count = "depthClearsOf a"
          and F = "\<lambda>i. if depthStencilAttachmentSet (GetSubpassInfo renderPass i)
                \<and> depthStencilAttachment (GetSubpassInfo renderPass i) = a
                \<and> firstSubpass (GetAttachmentInfo renderPass a) = i
                \<and> TextureFormatHasDepth env (attachment_format (GetAttachmentInfo renderPass a))
                \<and> depthLoadOp (GetAttachmentInfo renderPass a) = LoadOp_Clear
             then 1 else 0"])
      (rule Execute_BeginRenderSubpass_clears(2))
  have stencil: "clearsBySubpass (stencilClearsOf a) renderPass 0
         (renderPassStream renderPass framebuffer bodies)
         (fst (Execute_loop env s (renderPassStream renderPass framebuffer bodies)))
       = map (\<lambda>i. if depthStencilAttachmentSet (GetSubpassInfo renderPass (of_nat i))
                \<and> depthStencilAttachment (GetSubpassInfo renderPass (of_nat i)) = a
                \<and> firstSubpass (GetAttachmentInfo renderPass a) = of_nat i
                \<and> TextureFormatHasStencil env (attachment_format (GetAttachmentInfo renderPass a))
                \<and> stencilLoadOp (GetAttachmentInfo renderPass a) = LoadOp_Clear
             then 1 else 0) [0..<length bodies]"
    using assms
    by (rule renderPassStream_clears [where count = "stencilClearsOf a"
          and F = "\<lambda>i. if depthStencilAttachmentSet (GetSubpassInfo renderPass i)
                \<and> depthStencilAttachment (GetSubpassInfo renderPass i) = a
                \<and> firstSubpass (GetAttachmentInfo renderPass a) = i
                \<and> TextureFormatHasStencil env (attachment_format (GetAttachmentInfo renderPass a))
                \<and> stencilLoadOp (GetAttachmentInfo renderPass a) = LoadOp_Clear
             then 1 else 0"])
      (rule Execute_BeginRenderSubpass_clears(3))
  have elsewhere: "clearsElsewhere (renderPassStream renderPass framebuffer bodies)
         (fst (Execute_loop env s (renderPassStream renderPass framebuffer bodies))) = 0"
    by (rule Execute_loop_clearsElsewhere [of env s _ _ "fst (snd (Execute_loop env s (renderPassStream renderPass framebuffer bodies)))"
          "snd (snd (Execute_loop env s (renderPassStream renderPass framebuffer bodies)))"]) simp
  have once: "(colorLoadOp (GetAttachmentInfo renderPass a) = LoadOp_Clear \<longrightarrow>
         clearsBySubpass (colorClearsOf env a) renderPass 0
         (renderPassStream renderPass framebuffer bodies)
         (fst (Execute_loop env s (renderPassStream renderPass framebuffer bodies)))
           = (replicate (length bodies) 0)
               [j := colorReferences env a (GetSubpassInfo renderPass (of_nat j))])
      \<and> (depthLoadOp (GetAttachmentInfo renderPass a) = LoadOp_Clear \<longrightarrow>
         clearsBySubpass (depthClearsOf a) renderPass 0
         (renderPassStream renderPass framebuffer bodies)
         (fst (Execute_loop env s (renderPassStream renderPass framebuffer bodies)))
           = (replicate (length bodies) 0)
               [j := (if depthStencilAttachmentSet (GetSubpassInfo renderPass (of_nat j))
                    \<and> depthStencilAttachment (GetSubpassInfo renderPass (of_nat j)) = a
                    \<and> TextureFormatHasDepth env (attachment_format (GetAttachmentInfo renderPass a))
                 then 1 else 0)])
      \<and> (stencilLoadOp (GetAttachmentInfo renderPass a) = LoadOp_Clear \<longrightarrow>
         clearsBySubpass (stencilClearsOf a) renderPass 0
         (renderPassStream renderPass framebuffer bodies)
         (fst (Execute_loop env s (renderPassStream renderPass framebuffer bodies)))
           = (replicate (length bodies) 0)
               [j := (if depthStencilAttachmentSet (GetSubpassInfo renderPass (of_nat j))
                    \<and> depthStencilAttachment (GetSubpassInfo renderPass (of_nat j)) = a
                    \<and> TextureFormatHasStencil env (attachment_format (GetAttachmentInfo renderPass a))
                 then 1 else 0)])"
    if j: "j < length bodies" and n: "length bodies \<le> 2 ^ 32"
      and first: "firstSubpass (GetAttachmentInfo renderPass a) = of_nat j"
  proof -
    have "map (\<lambda>i. if firstSubpass (GetAttachmentInfo renderPass a) = of_nat i
                \<and> colorLoadOp (GetAttachmentInfo renderPass a) = LoadOp_Clear
             then colorReferences env a (GetSubpassInfo renderPass (of_nat i)) else 0) [0..<length bodies]
        = (replicate (length bodies) (0::nat))
               [j := colorReferences env a (GetSubpassInfo renderPass (of_nat j))]"
      if "colorLoadOp (GetAttachmentInfo renderPass a) = LoadOp_Clear"
      using first j n
    proof (rule once_at)
      show "(\<lambda>i. if firstSubpass (GetAttachmentInfo renderPass a) = of_nat i
                \<and> colorLoadOp (GetAttachmentInfo renderPass a) = LoadOp_Clear
             then colorReferences env a (GetSubpassInfo renderPass (of_nat i)) else 0) j
          = colorReferences env a (GetSubpassInfo renderPass (of_nat j))"
        using that by (simp add: first)
    qed simp
    moreover have "map (\<lambda>i. if depthStencilAttachmentSet (GetSubpassInfo renderPass (of_nat i))
                \<and> depthStencilAttachment (GetSubpassInfo renderPass (of_nat i)) = a
                \<and> firstSubpass (GetAttachmentInfo renderPass a) = of_nat i
                \<and> TextureFormatHasDepth env (attachment_format (GetAttachmentInfo renderPass a))
                \<and> depthLoadOp (GetAttachmentInfo renderPass a) = LoadOp_Clear
             then 1 else 0) [0..<length bodies]
        = (replicate (length bodies) (0::nat))
               [j := (if depthStencilAttachmentSet (GetSubpassInfo renderPass (of_nat j))
                    \<and> depthStencilAttachment (GetSubpassInfo renderPass (of_nat j)) = a
                    \<and> TextureFormatHasDepth env (attachment_format (GetAttachmentInfo renderPass a))
                 then 1 else 0)]"
      if "depthLoadOp (GetAttachmentInfo renderPass a) = LoadOp_Clear"
      using first j n
    proof (rule once_at)
      show "(\<lambda>i. if depthStencilAttachmentSet (GetSubpassInfo renderPass (of_nat i))
                \<and> depthStencilAttachment (GetSubpassInfo renderPass (of_nat i)) = a
                \<and> firstSubpass (GetAttachmentInfo renderPass a) = of_nat i
                \<and> TextureFormatHasDepth env (attachment_format (GetAttachmentInfo renderPass a))
                \<and> depthLoadOp (GetAttachmentInfo renderPass a) = LoadOp_Clear
             then 1 else 0) j
          = (if depthStencilAttachmentSet (GetSubpassInfo renderPass (of_nat j))
                    \<and> depthStencilAttachment (GetSubpassInfo renderPass (of_nat j)) = a
                    \<and> TextureFormatHasDepth env (attachment_format (GetAttachmentInfo renderPass a))
                 then 1 else 0)"
        using that by (simp add: first)
    qed simp
    moreover have "map (\<lambda>i. if depthStencilAttachmentSet (GetSubpassInfo renderPass (of_nat i))
                \<and> depthStencilAttachment (GetSubpassInfo renderPass (of_nat i)) = a
                \<and> firstSubpass (GetAttachmentInfo renderPass a) = of_nat i
                \<and> TextureFormatHasStencil env (attachment_format (GetAttachmentInfo renderPass a))
                \<and> stencilLoadOp (GetAttachmentInfo renderPass a) = LoadOp_Clear
             then 1 else 0) [0..<length bodies]
        = (replicate (length bodies) (0::nat))
               [j := (if depthStencilAttachmentSet (GetSubpassInfo renderPass (of_nat j))
                    \<and> depthStencilAttachment (GetSubpassInfo renderPass (of_nat j)) = a
                    \<and> TextureFormatHasStencil env (attachment_format (GetAttachmentInfo renderPass a))
                 then 1 else 0)]"
      if "stencilLoadOp (GetAttachmentInfo renderPass a) = LoadOp_Clear"
      using first j n
    proof (rule once_at)
      show "(\<lambda>i. if depthStencilAttachmentSet (GetSubpassInfo renderPass (of_nat i))
                \<and> depthStencilAttachment (GetSubpassInfo renderPass (of_nat i)) = a
                \<and> firstSubpass (GetAttachmentInfo renderPass a) = of_nat i
                \<and> TextureFormatHasStencil env (attachment_format (GetAttachmentInfo renderPass a))
                \<and> stencilLoadOp (GetAttachmentInfo renderPass a) = LoadOp_Clear
             then 1 else 0) j
          = (if depthStencilAttachmentSet (GetSubpassInfo renderPass (of_nat j))
                    \<and> depthStencilAttachment (GetSubpassInfo renderPass (of_nat j)) = a
                    \<and> TextureFormatHasStencil env (attachment_format (GetAttachmentInfo renderPass a))
                 then 1 else 0)"
        using that by (simp add: first)
    qed simp
    ultimately show ?thesis
      unfolding color depth stencil by blast
  qed
  from color depth stencil elsewhere once show ?thesis by blast
qed

theorem LoadOp_Clear_once_on_first_subpass_witness:
  "snd (snd (Execute_loop env0 (ExecuteState_new env0) renderStream0)) = None
   \<and> clearsBySubpass (colorClearsOf env0 0) renderPass0 0 renderStream0
       (fst (Execute_loop env0 (ExecuteState_new env0) renderStream0)) = [1, 0]
   \<and> clearsBySubpass (colorClearsOf env0 1) renderPass0 0 renderStream0
       (fst (Execute_loop env0 (ExecuteState_new env0) renderStream0)) = [0, 1]
   \<and> clearsBySubpass (depthClearsOf 2) renderPass0 0 renderStream0
       (fst (Execute_loop env0 (ExecuteState_new env0) renderStream0)) = [1, 0]
   \<and> clearsBySubpass (stencilClearsOf 2) renderPass0 0 renderStream0
       (fst (Execute_loop env0 (ExecuteState_new env0) renderStream0)) = [0, 0]
   \<and> clearsElsewhere renderStream0
       (fst (Execute_loop env0 (ExecuteState_new env0) renderStream0)) = 0"
proof -
  let ?bodies =
    "[[SetRenderPipeline (renderPipelineOf 1 0 (inputStateOf 50 0)), DrawArrays 3 1 0 0],
      [SetRenderPipeline (renderPipelineOf 1 0 (inputStateOf 50 0)), DrawArrays 3 1 0 0]]"
  have stream: "renderPassStream renderPass0 framebuffer0 ?bodies = renderStream0"
    by (simp add: renderStream0_def)
  have inside: "\<forall>body\<in>set ?bodies. \<forall>command\<in>set body. insideSubpass command"
    by (simp add: insideSubpass_def)
  have complete: "snd (snd (Execute_loop env0 (ExecuteState_new env0)
      (renderPassStream renderPass0 framebuffer0 ?bodies))) = None"
    unfolding stream by (rule renderStream0_run)
  note clears = LoadOp_Clear_once_on_first_subpass [OF inside complete, unfolded stream]
  have n: "length ?bodies = 2" "(0::nat) < 2" "(1::nat) < 2" "(2::nat) \<le> 2 ^ 32"
    by simp_all
  have lists: "(replicate 2 (0::nat))[0 := 1] = [1, 0]" "(replicate 2 (0::nat))[1 := 1] = [0, 1]"
    "[0..<2] = [0, 1]"
    by (simp_all add: numeral_2_eq_2)
  have color0: "firstSubpass (GetAttachmentInfo renderPass0 0) = of_nat 0"
    "colorLoadOp (GetAttachmentInfo renderPass0 0) = LoadOp_Clear"
    "colorReferences env0 0 (GetSubpassInfo renderPass0 (of_nat 0)) = 1"
    by (simp_all add: renderPass0_def colorReferences_def env0_def IterateBitSet_env0
        bit_Suc_0_iff)
  have color1: "firstSubpass (GetAttachmentInfo renderPass0 1) = of_nat 1"
    "colorLoadOp (GetAttachmentInfo renderPass0 1) = LoadOp_Clear"
    "colorReferences env0 1 (GetSubpassInfo renderPass0 (of_nat 1)) = 1"
    by (simp_all add: renderPass0_def colorReferences_def env0_def IterateBitSet_env0
        bit_Suc_0_iff)
  have depth2: "firstSubpass (GetAttachmentInfo renderPass0 2) = of_nat 0"
    "depthStencilAttachmentSet (GetSubpassInfo renderPass0 (of_nat 0))"
    "depthStencilAttachment (GetSubpassInfo renderPass0 (of_nat 0)) = 2"
    "TextureFormatHasDepth env0 (attachment_format (GetAttachmentInfo renderPass0 2))"
    "depthLoadOp (GetAttachmentInfo renderPass0 2) = LoadOp_Clear"
    "stencilLoadOp (GetAttachmentInfo renderPass0 2) \<noteq> LoadOp_Clear"
    by (simp_all add: renderPass0_def env0_def)
  from clears [where a = 0 and j = 0] n lists color0
  have c0: "clearsBySubpass (colorClearsOf env0 0) renderPass0 0 renderStream0
       (fst (Execute_loop env0 (ExecuteState_new env0) renderStream0)) = [1, 0]"
    by simp
  from clears [where a = 1 and j = 1] n lists color1
  have c1: "clearsBySubpass (colorClearsOf env0 1) renderPass0 0 renderStream0
       (fst (Execute_loop env0 (ExecuteState_new env0) renderStream0)) = [0, 1]"
    by simp
  from clears [where a = 2 and j = 0] n lists depth2
  have d: "clearsBySubpass (depthClearsOf 2) renderPass0 0 renderStream0
       (fst (Execute_loop env0 (ExecuteState_new env0) renderStream0)) = [1, 0]"
    by simp
  from clears [where a = 2 and j = 0] n lists depth2
  have st: "clearsBySubpass (stencilClearsOf 2) renderPass0 0 renderStream0
       (fst (Execute_loop env0 (ExecuteState_new env0) renderStream0)) = [0, 0]"
    by simp
  from clears [where a = 0 and j = 0]
  have e: "clearsElsewhere renderStream0
       (fst (Execute_loop env0 (ExecuteState_new env0) renderStream0)) = 0"
    by simp
  from renderStream0_run c0 c1 d st e show ?thesis by simp
qed

end
